theory Spec2Isabelle
  imports Complex_Main "HOL-Library.AList"
begin

section \<open>Python strings and the two regular-expression shapes the code uses\<close>

text \<open>
  Texts are modelled as ASCII strings (one \<open>char\<close> per character). On ASCII,
  Python's \<^verbatim>\<open>\w\<close> is a letter, a digit or the underscore, \<^verbatim>\<open>str.lower\<close> maps
  \<^verbatim>\<open>A-Z\<close> to \<^verbatim>\<open>a-z\<close>, and \<^verbatim>\<open>str.strip\<close> removes leading and trailing
  white space.
\<close>

definition is_word_char :: "char \<Rightarrow> bool" where
  "is_word_char c =
     (c \<in> set ''abcdefghijklmnopqrstuvwxyzABCDEFGHIJKLMNOPQRSTUVWXYZ0123456789_'')"

definition lower_char :: "char \<Rightarrow> char" where
  "lower_char c =
     (case map_of (zip ''ABCDEFGHIJKLMNOPQRSTUVWXYZ'' ''abcdefghijklmnopqrstuvwxyz'') c of
        Some l \<Rightarrow> l
      | None \<Rightarrow> c)"

definition lower :: "string \<Rightarrow> string" where
  "lower s = map lower_char s"

definition is_space :: "char \<Rightarrow> bool" where
  "is_space c = (c \<in> set [CHR '' '', CHR 0x09, CHR 0x0A, CHR 0x0B, CHR 0x0C, CHR 0x0D,
                            CHR 0x1C, CHR 0x1D, CHR 0x1E, CHR 0x1F])"

definition strip :: "string \<Rightarrow> string" where
  "strip s = rev (dropWhile is_space (rev (dropWhile is_space s)))"

text \<open>\<^verbatim>\<open>s.startswith(p)\<close>, and \<^verbatim>\<open>w in s\<close> for strings (substring containment).\<close>

fun startswith :: "string \<Rightarrow> string \<Rightarrow> bool" where
  "startswith s [] = True"
| "startswith [] (p # ps) = False"
| "startswith (c # cs) (p # ps) = (c = p \<and> startswith cs ps)"

fun str_in :: "string \<Rightarrow> string \<Rightarrow> bool" where
  "str_in w [] = (w = [])"
| "str_in w (c # cs) = (startswith (c # cs) w \<or> str_in w cs)"

text \<open>
  \<^verbatim>\<open>\b\<close> holds between two neighbouring positions when exactly one of them is a word
  character; the outside of the text counts as a non-word character.
\<close>

definition is_word :: "char option \<Rightarrow> bool" where
  "is_word p = (case p of None \<Rightarrow> False | Some c \<Rightarrow> is_word_char c)"

definition word_boundary :: "char option \<Rightarrow> char option \<Rightarrow> bool" where
  "word_boundary p n = (is_word p \<noteq> is_word n)"

definition char_at :: "string \<Rightarrow> nat \<Rightarrow> char option" where
  "char_at s i = (if i < length s then Some (s ! i) else None)"

definition last_char :: "char option \<Rightarrow> string \<Rightarrow> char option" where
  "last_char prev s = (if s = [] then prev else Some (last s))"

text \<open>
  Every pattern of the code has the shape \<^verbatim>\<open>\b(a1|a2|...)\b\<close> with literal
  alternatives (\<^verbatim>\<open>[1-9]\<close> is the alternation of the nine digits). At one position the
  backtracking matcher takes the first alternative that is a prefix of the rest of the
  text and is followed by a word boundary; \<open>prev\<close> is the character before the position.
\<close>

definition match_here :: "string list \<Rightarrow> char option \<Rightarrow> string \<Rightarrow> string option" where
  "match_here alts prev s =
     (if word_boundary prev (char_at s 0)
      then find (\<lambda>lit. startswith s lit
                        \<and> word_boundary (last_char prev lit) (char_at s (length lit))) alts
      else None)"

text \<open>
  \<^verbatim>\<open>re.findall\<close> scans from left to right and resumes after the end of each match;
  \<open>skip\<close> counts the characters of the last match that are still to be passed over.
  With one group in the pattern the result is the list of the group's texts.
\<close>

fun findall_from :: "string list \<Rightarrow> char option \<Rightarrow> nat \<Rightarrow> string \<Rightarrow> string list" where
  "findall_from alts prev skip [] = []"
| "findall_from alts prev skip (c # cs) =
     (if 0 < skip then findall_from alts (Some c) (skip - 1) cs
      else (case match_here alts prev (c # cs) of
              Some m \<Rightarrow> m # findall_from alts (Some c) (length m - 1) cs
            | None \<Rightarrow> findall_from alts (Some c) 0 cs))"

definition re_findall :: "string list \<Rightarrow> string \<Rightarrow> string list" where
  "re_findall alts s = findall_from alts None 0 s"

text \<open>\<^verbatim>\<open>int(s)\<close> on a string of decimal digits, the only strings the code converts.\<close>

definition digit_val :: "char \<Rightarrow> int" where
  "digit_val c = (case map_of (zip ''0123456789'' [0, 1, 2, 3, 4, 5, 6, 7, 8, 9]) c of
                    Some d \<Rightarrow> d
                  | None \<Rightarrow> 0)"

definition int_of_str :: "string \<Rightarrow> int" where
  "int_of_str s = foldl (\<lambda>a c. 10 * a + digit_val c) 0 s"

section \<open>safety/crisis\_detector.py\<close>

text \<open>The alternatives of each pattern, per category, in the order of the source.\<close>

definition high_risk_patterns :: "(string \<times> string list list) list" where
  "high_risk_patterns =
     [(''suicidal_ideation'',
         [[''want to die'', ''wanna die'', ''wish i was dead''],
          [''kill myself'', ''killing myself'', ''end my life''],
          [''suicide'', ''suicidal thoughts'', ''suicidal''],
          [''better off dead'', ''world better without me''],
          [''no point living'', ''no reason to live'']]),
      (''self_harm'',
         [[''cut myself'', ''cutting myself'', ''hurt myself''],
          [''harm myself'', ''harming myself''],
          [''self harm'', ''self-harm'']]),
      (''hopelessness'',
         [[''can'' @ [CHR 0x27] @ ''t go on'', ''cannot go on'', ''give up''],
          [''hopeless'', ''no hope'', ''nothing left''],
          [''end it all'', ''ending it all'']])]"

definition medium_risk_patterns :: "(string \<times> string list list) list" where
  "medium_risk_patterns =
     [(''severe_distress'',
         [[''can'' @ [CHR 0x27] @ ''t take it anymore'', ''cannot take it''],
          [''overwhelmed'', ''breaking down'', ''falling apart''],
          [''desperate'', ''desperation'']])]"

record crisis_result =
  crisis_level :: string
  patterns_found :: "(string \<times> string) list"
  categories :: "string set"
  recommended_action :: string
  confidence :: rat

text \<open>
  The two nested loops over a pattern table: every match of every pattern, tagged with
  its category, in table order (\<open>category_found\<close> is the inner loop).
\<close>

definition category_found :: "string \<Rightarrow> string list list \<Rightarrow> string \<Rightarrow> (string \<times> string) list" where
  "category_found category patterns text_lower =
     concat (map (\<lambda>pattern. map (\<lambda>m. (category, m)) (re_findall pattern text_lower)) patterns)"

definition risk_found :: "(string \<times> string list list) list \<Rightarrow> string \<Rightarrow> (string \<times> string) list" where
  "risk_found table text_lower =
     concat (map (\<lambda>(category, patterns). category_found category patterns text_lower) table)"

text \<open>
  \<^verbatim>\<open>categories\<close> is \<^verbatim>\<open>list(set(...))\<close>, a list without duplicates in no
  specified order: it is modelled as the set.
\<close>

definition detect_crisis_level :: "string \<Rightarrow> crisis_result" where
  "detect_crisis_level text =
     (let text_lower = lower text;
          high_risk_found = risk_found high_risk_patterns text_lower;
          medium_risk_found = risk_found medium_risk_patterns text_lower;
          found = high_risk_found @ medium_risk_found
      in if high_risk_found \<noteq> [] then
           \<lparr>crisis_level = ''high'', patterns_found = found, categories = set (map fst found),
            recommended_action = ''immediate_intervention'', confidence = 9 / 10\<rparr>
         else if medium_risk_found \<noteq> [] then
           \<lparr>crisis_level = ''medium'', patterns_found = found, categories = set (map fst found),
            recommended_action = ''elevated_support'', confidence = 6 / 10\<rparr>
         else
           \<lparr>crisis_level = ''none'', patterns_found = found, categories = set (map fst found),
            recommended_action = ''continue'', confidence = 0\<rparr>)"

definition detect_crisis_keywords :: "string \<Rightarrow> bool" where
  "detect_crisis_keywords text =
     (crisis_level (detect_crisis_level text) \<in> set [''high'', ''medium''])"

section \<open>Rating extraction (flows/panic/acute\_anxiety\_flow.py)\<close>

text \<open>
  The alternatives of \<^verbatim>\<open>\b([1-9]|10)\b\<close>: one character of the class
  \<^verbatim>\<open>[1-9]\<close>, tried first, or the literal \<^verbatim>\<open>10\<close>.
\<close>

definition rating_pattern :: "string list" where
  "rating_pattern = map (\<lambda>c. [c]) ''123456789'' @ [''10'']"

definition word_ratings :: "(string \<times> int) list" where
  "word_ratings =
     [(''one'', 1), (''two'', 2), (''three'', 3), (''four'', 4), (''five'', 5),
      (''six'', 6), (''seven'', 7), (''eight'', 8), (''nine'', 9), (''ten'', 10)]"

definition extract_anxiety_rating :: "string \<Rightarrow> int option" where
  "extract_anxiety_rating user_input =
     (case re_findall rating_pattern user_input of
        n # ns \<Rightarrow> Some (int_of_str n)
      | [] \<Rightarrow> map_option snd (find (\<lambda>(word, rating). str_in word (lower user_input)) word_ratings))"

section \<open>Python values, dictionaries and the external collaborators\<close>

text \<open>
  The replies of the flows are Python dictionaries with string keys and values of mixed
  types. A dictionary is an association list in insertion order: \<^verbatim>\<open>d[k] = v\<close> is
  \<open>AList.update\<close> (an existing key keeps its place, a new one goes last) and
  \<^verbatim>\<open>del d[k]\<close> is \<open>AList.delete\<close>. Floats (durations, completion rates,
  confidences) are modelled as rationals: the code only divides two small integers and
  compares with decimal literals, where both agree.
\<close>

datatype pyval =
    PNone
  | PBool bool
  | PInt int
  | PRat rat
  | PStr string
  | PList "pyval list"
  | PDict "(string \<times> pyval) list"

type_synonym pydict = "(string \<times> pyval) list"

datatype py_error = IndexError | KeyError | ZeroDivisionError

text \<open>\<^verbatim>\<open>d.get(k, default)\<close>, and the truth value Python gives an object.\<close>

definition dict_get :: "pydict \<Rightarrow> string \<Rightarrow> pyval \<Rightarrow> pyval" where
  "dict_get d k dflt = (case map_of d k of Some v \<Rightarrow> v | None \<Rightarrow> dflt)"

fun truthy :: "pyval \<Rightarrow> bool" where
  "truthy PNone = False"
| "truthy (PBool b) = b"
| "truthy (PInt i) = (i \<noteq> 0)"
| "truthy (PRat r) = (r \<noteq> 0)"
| "truthy (PStr s) = (s \<noteq> [])"
| "truthy (PList xs) = (xs \<noteq> [])"
| "truthy (PDict d) = (d \<noteq> [])"

text \<open>
  \<^verbatim>\<open>str(n)\<close> for an integer, \<^verbatim>\<open>sep.join(xs)\<close>, and
  \<^verbatim>\<open>any(w in s for w in ws)\<close>.
\<close>

fun str_nat :: "nat \<Rightarrow> string" where
  "str_nat n = (if n < 10 then [''0123456789'' ! n]
                else str_nat (n div 10) @ [''0123456789'' ! (n mod 10)])"

declare str_nat.simps [simp del]

definition str_int :: "int \<Rightarrow> string" where
  "str_int i = (if i < 0 then ''-'' @ str_nat (nat (- i)) else str_nat (nat i))"

fun join :: "string \<Rightarrow> string list \<Rightarrow> string" where
  "join sep [] = []"
| "join sep [x] = x"
| "join sep (x # y # ys) = x @ sep @ join sep (y # ys)"

definition any_in :: "string list \<Rightarrow> string \<Rightarrow> bool" where
  "any_in ws s = list_ex (\<lambda>w. str_in w s) ws"

text \<open>
  The content retriever returns a text or \<^verbatim>\<open>None\<close> (no match in the knowledge
  base). Inside an f-string \<^verbatim>\<open>None\<close> prints as the word; as a dictionary value it
  stays \<^verbatim>\<open>None\<close>.
\<close>

definition fmt :: "string option \<Rightarrow> string" where
  "fmt x = (case x of None \<Rightarrow> ''None'' | Some s \<Rightarrow> s)"

definition of_opt :: "string option \<Rightarrow> pyval" where
  "of_opt x = (case x of None \<Rightarrow> PNone | Some s \<Rightarrow> PStr s)"

text \<open>Characters outside ASCII in message literals, as their UTF-8 bytes.\<close>

definition em_dash :: string where
  "em_dash = [CHR 0xE2, CHR 0x80, CHR 0x94]"

definition en_dash :: string where
  "en_dash = [CHR 0xE2, CHR 0x80, CHR 0x93]"

definition right_quote :: string where
  "right_quote = [CHR 0xE2, CHR 0x80, CHR 0x99]"

definition bullet :: string where
  "bullet = [CHR 0xE2, CHR 0x80, CHR 0xA2]"

text \<open>
  The retrieval service (rag/content\_retriever.py, backed by a vector database) is an
  external collaborator: the three wrapper methods the flows call are parameters of the
  model. \<open>get_technique_for_scenario\<close> takes the scenario, the intensity and the
  optional user context.
\<close>

record retriever =
  get_reassurance_content :: "string \<Rightarrow> rat \<Rightarrow> string option"
  get_educational_content :: "string \<Rightarrow> string \<Rightarrow> string option"
  get_technique_for_scenario :: "string \<Rightarrow> string \<Rightarrow> (string \<times> string) list option \<Rightarrow> string option"

text \<open>
  One reading of the clock, \<^verbatim>\<open>datetime.now()\<close>: the time in seconds and its
  \<^verbatim>\<open>isoformat()\<close> text. A call of the model reads the clock once.
\<close>

record clock_reading =
  seconds :: rat
  isoformat :: string

section \<open>flows/base\_flow.py: state, steps and the flow classes\<close>

record flow_state =
  current_step :: nat
  user_responses :: "(nat \<times> pydict) list"
  effectiveness_ratings :: "pyval list"
  start_time :: rat
  completion_status :: string
  safety_flags :: "string list"
  technique_preferences :: pydict
  content_retrievals :: nat
  dynamic_content_used :: "string list"
  personalization_applied :: bool
  user_context :: "pydict option"

definition FlowState :: "clock_reading \<Rightarrow> flow_state" where
  "FlowState now =
     \<lparr>current_step = 0, user_responses = [], effectiveness_ratings = [],
      start_time = seconds now, completion_status = ''in_progress'', safety_flags = [],
      technique_preferences = [], content_retrievals = 0, dynamic_content_used = [],
      personalization_applied = False, user_context = None\<rparr>"

text \<open>
  A step is a dictionary with exactly the keys \<^verbatim>\<open>intervention\<close>, \<^verbatim>\<open>step_type\<close>
  and \<^verbatim>\<open>requires_input\<close> in every class; no step has \<^verbatim>\<open>clinical_message\<close> or
  \<^verbatim>\<open>clinical_notes\<close>.
\<close>

record step_spec =
  intervention :: string
  step_type :: string
  requires_input :: bool

text \<open>
  The subclasses of \<^verbatim>\<open>ClinicalTherapeuticFlow\<close>. Each one sets
  \<^verbatim>\<open>self.retriever\<close>, so \<^verbatim>\<open>hasattr(self, 'retriever')\<close> is true for every
  instance.
\<close>

datatype flow_class =
    AcuteAnxietyFlow
  | NighttimeFlow
  | PreEventFlow
  | IsolationFlow
  | UncertaintyFlow
  | DecisionMakingFlow
  | PhysicalTriggersFlow
  | GeneralAnxietyFlow

record flow =
  cls :: flow_class
  flow_name :: string
  scenario :: string
  intensity :: string
  state :: flow_state
  clinical_steps :: "step_spec list"

definition has_retriever :: "flow \<Rightarrow> bool" where
  "has_retriever f = True"

definition AcuteAnxietyFlow_steps :: "step_spec list" where
  "AcuteAnxietyFlow_steps =
     [\<lparr>intervention = ''safety_assessment'', step_type = ''reassurance'', requires_input = True\<rparr>,
      \<lparr>intervention = ''psychoeducation'', step_type = ''education'', requires_input = False\<rparr>,
      \<lparr>intervention = ''4_7_8_breathing'', step_type = ''technique'', requires_input = True\<rparr>,
      \<lparr>intervention = ''5_4_3_2_1_grounding'', step_type = ''technique'', requires_input = True\<rparr>,
      \<lparr>intervention = ''progressive_muscle_relaxation'', step_type = ''technique'', requires_input = True\<rparr>,
      \<lparr>intervention = ''clinical_reassurance'', step_type = ''reassurance'', requires_input = False\<rparr>,
      \<lparr>intervention = ''effectiveness_assessment'', step_type = ''effectiveness_check'', requires_input = True\<rparr>]"


definition NighttimeFlow_steps :: "step_spec list" where
  "NighttimeFlow_steps =
     [\<lparr>intervention = ''sleep_assessment'', step_type = ''assessment'', requires_input = True\<rparr>,
      \<lparr>intervention = ''sleep_psychoeducation'', step_type = ''education'', requires_input = False\<rparr>,
      \<lparr>intervention = ''cognitive_restructuring'', step_type = ''technique'', requires_input = True\<rparr>,
      \<lparr>intervention = ''body_scan_relaxation'', step_type = ''technique'', requires_input = True\<rparr>,
      \<lparr>intervention = ''sleep_hygiene'', step_type = ''technique'', requires_input = True\<rparr>,
      \<lparr>intervention = ''20_minute_rule'', step_type = ''education'', requires_input = False\<rparr>,
      \<lparr>intervention = ''effectiveness_check'', step_type = ''assessment'', requires_input = True\<rparr>]"


definition PreEventFlow_steps :: "step_spec list" where
  "PreEventFlow_steps =
     [\<lparr>intervention = ''event_assessment'', step_type = ''assessment'', requires_input = True\<rparr>,
      \<lparr>intervention = ''normalization'', step_type = ''reassurance'', requires_input = False\<rparr>,
      \<lparr>intervention = ''preparation_checklist'', step_type = ''technique'', requires_input = True\<rparr>,
      \<lparr>intervention = ''visualization'', step_type = ''technique'', requires_input = True\<rparr>,
      \<lparr>intervention = ''confidence_affirmations'', step_type = ''technique'', requires_input = True\<rparr>,
      \<lparr>intervention = ''post_event_planning'', step_type = ''technique'', requires_input = True\<rparr>]"


definition IsolationFlow_steps :: "step_spec list" where
  "IsolationFlow_steps =
     [\<lparr>intervention = ''loneliness_validation'', step_type = ''reassurance'', requires_input = True\<rparr>,
      \<lparr>intervention = ''safety_assessment'', step_type = ''safety_check'', requires_input = True\<rparr>,
      \<lparr>intervention = ''loneliness_psychoeducation'', step_type = ''education'', requires_input = False\<rparr>,
      \<lparr>intervention = ''self_compassion_exercise'', step_type = ''technique'', requires_input = True\<rparr>,
      \<lparr>intervention = ''connection_inventory'', step_type = ''technique'', requires_input = True\<rparr>,
      \<lparr>intervention = ''small_connection_step'', step_type = ''technique'', requires_input = True\<rparr>,
      \<lparr>intervention = ''self_care_planning'', step_type = ''technique'', requires_input = True\<rparr>]"


definition UncertaintyFlow_steps :: "step_spec list" where
  "UncertaintyFlow_steps =
     [\<lparr>intervention = ''uncertainty_assessment'', step_type = ''assessment'', requires_input = True\<rparr>,
      \<lparr>intervention = ''uncertainty_normalization'', step_type = ''reassurance'', requires_input = False\<rparr>,
      \<lparr>intervention = ''worry_vs_problem_solving'', step_type = ''technique'', requires_input = True\<rparr>,
      \<lparr>intervention = ''worry_time_technique'', step_type = ''technique'', requires_input = False\<rparr>,
      \<lparr>intervention = ''uncertainty_tolerance'', step_type = ''technique'', requires_input = True\<rparr>,
      \<lparr>intervention = ''present_moment_grounding'', step_type = ''technique'', requires_input = True\<rparr>,
      \<lparr>intervention = ''coping_confidence'', step_type = ''reassurance'', requires_input = True\<rparr>]"


definition DecisionMakingFlow_steps :: "step_spec list" where
  "DecisionMakingFlow_steps =
     [\<lparr>intervention = ''decision_assessment'', step_type = ''reassurance'', requires_input = True\<rparr>,
      \<lparr>intervention = ''perfectionism_check'', step_type = ''reassurance'', requires_input = True\<rparr>,
      \<lparr>intervention = ''decision_framework'', step_type = ''technique'', requires_input = True\<rparr>,
      \<lparr>intervention = ''values_clarification'', step_type = ''education'', requires_input = True\<rparr>,
      \<lparr>intervention = ''good_enough_principle'', step_type = ''technique'', requires_input = False\<rparr>,
      \<lparr>intervention = ''time_limit_technique'', step_type = ''education'', requires_input = True\<rparr>,
      \<lparr>intervention = ''decision_confidence'', step_type = ''reassurance'', requires_input = True\<rparr>]"


definition PhysicalTriggersFlow_steps :: "step_spec list" where
  "PhysicalTriggersFlow_steps =
     [\<lparr>intervention = ''trigger_assessment'', step_type = ''assessment'', requires_input = True\<rparr>,
      \<lparr>intervention = ''trigger_validation'', step_type = ''reassurance'', requires_input = False\<rparr>,
      \<lparr>intervention = ''body_awareness'', step_type = ''technique'', requires_input = True\<rparr>,
      \<lparr>intervention = ''trigger_differentiation'', step_type = ''education'', requires_input = True\<rparr>,
      \<lparr>intervention = ''immediate_modifications'', step_type = ''technique'', requires_input = True\<rparr>,
      \<lparr>intervention = ''grounding_through_body'', step_type = ''technique'', requires_input = True\<rparr>,
      \<lparr>intervention = ''trigger_prevention'', step_type = ''technique'', requires_input = True\<rparr>]"


definition GeneralAnxietyFlow_steps :: "step_spec list" where
  "GeneralAnxietyFlow_steps =
     [\<lparr>intervention = ''emotion_check_in'', step_type = ''assessment'', requires_input = True\<rparr>,
      \<lparr>intervention = ''psychoeducation_general'', step_type = ''education'', requires_input = False\<rparr>,
      \<lparr>intervention = ''coping_options'', step_type = ''technique'', requires_input = True\<rparr>,
      \<lparr>intervention = ''reflection'', step_type = ''reassurance'', requires_input = False\<rparr>,
      \<lparr>intervention = ''effectiveness_review'', step_type = ''effectiveness_check'', requires_input = True\<rparr>]"

text \<open>
  The constructors: \<^verbatim>\<open>super().__init__(flow_name, scenario, intensity)\<close> with a
  fresh \<^verbatim>\<open>FlowState()\<close>, then the class's step list.
\<close>

definition new_flow :: "clock_reading \<Rightarrow> flow_class \<Rightarrow> flow" where
  "new_flow now c =
     (case c of
        AcuteAnxietyFlow \<Rightarrow>
          \<lparr>cls = c, flow_name = ''Acute Anxiety Support'', scenario = ''panic'',
           intensity = ''high'', state = FlowState now, clinical_steps = AcuteAnxietyFlow_steps\<rparr>
      | NighttimeFlow \<Rightarrow>
          \<lparr>cls = c, flow_name = ''Nighttime Sleep Support'', scenario = ''sleep'',
           intensity = ''medium'', state = FlowState now, clinical_steps = NighttimeFlow_steps\<rparr>
      | PreEventFlow \<Rightarrow>
          \<lparr>cls = c, flow_name = ''Pre-Event Anxiety Support'', scenario = ''pre_event'',
           intensity = ''medium'', state = FlowState now, clinical_steps = PreEventFlow_steps\<rparr>
      | IsolationFlow \<Rightarrow>
          \<lparr>cls = c, flow_name = ''Isolation and Loneliness Support'', scenario = ''isolation'',
           intensity = ''medium'', state = FlowState now, clinical_steps = IsolationFlow_steps\<rparr>
      | UncertaintyFlow \<Rightarrow>
          \<lparr>cls = c, flow_name = ''Uncertainty and Worry Support'', scenario = ''uncertainty'',
           intensity = ''medium'', state = FlowState now, clinical_steps = UncertaintyFlow_steps\<rparr>
      | DecisionMakingFlow \<Rightarrow>
          \<lparr>cls = c, flow_name = ''Decision-Making Support'', scenario = ''decision_making'',
           intensity = ''medium'', state = FlowState now,
           clinical_steps = DecisionMakingFlow_steps\<rparr>
      | PhysicalTriggersFlow \<Rightarrow>
          \<lparr>cls = c, flow_name = ''Physical Triggers Management'',
           scenario = ''physical_triggers'', intensity = ''medium'', state = FlowState now,
           clinical_steps = PhysicalTriggersFlow_steps\<rparr>
      | GeneralAnxietyFlow \<Rightarrow>
          \<lparr>cls = c, flow_name = ''General Anxiety Support'', scenario = ''general_anxiety'',
           intensity = ''variable'', state = FlowState now,
           clinical_steps = GeneralAnxietyFlow_steps\<rparr>)"

text \<open>\<^verbatim>\<open>get_clinical_resources\<close>, overridden by every class.\<close>

definition AcuteAnxietyFlow_get_clinical_resources :: "pyval list" where
  "AcuteAnxietyFlow_get_clinical_resources =
     [PDict [(''type'', PStr ''clinical_technique''),
             (''title'', PStr ''4-7-8 Breathing''),
             (''evidence_base'', PStr ''Parasympathetic nervous system activation''),
             (''description'', PStr ''Practice daily when calm for 2 minutes to build familiarity'')],
      PDict [(''type'', PStr ''clinical_technique''),
             (''title'', PStr ''5-4-3-2-1 Grounding''),
             (''evidence_base'', PStr ''Sensory grounding interrupts panic spiral''),
             (''description'', PStr ''Use when you feel anxiety beginning to escalate'')],
      PDict [(''type'', PStr ''clinical_education''),
             (''title'', PStr ''Understanding Panic''),
             (''evidence_base'', PStr ''Psychoeducation reduces panic frequency''),
             (''description'', PStr ''Panic attacks peak in 10 minutes and are not medically dangerous'')],
      PDict [(''type'', PStr ''clinical_referral''),
             (''title'', PStr ''When to Seek Professional Help''),
             (''evidence_base'', PStr ''Clinical guidelines for care escalation''),
             (''description'', PStr (''If panic attacks occur frequently or interfere with daily ''
                                 @ ''functioning, consider consulting a mental health professional''))]]"

definition NighttimeFlow_get_clinical_resources :: "pyval list" where
  "NighttimeFlow_get_clinical_resources =
     [PDict [(''type'', PStr ''sleep_hygiene''),
             (''title'', PStr ''Daily Sleep Routine''),
             (''evidence_base'', PStr ''Sleep hygiene protocols''),
             (''description'', PStr ''Consistent bedtime, cool room, no screens 1 hour before sleep'')],
      PDict [(''type'', PStr ''cognitive_technique''),
             (''title'', PStr ''Thought Stopping for Sleep''),
             (''evidence_base'', PStr ''CBT for insomnia''),
             (''description'', PStr (''Practice the STOP technique during the day to strengthen it for ''
                                 @ ''nighttime use''))],
      PDict [(''type'', PStr ''relaxation_technique''),
             (''title'', PStr ''Body Scan Meditation''),
             (''evidence_base'', PStr ''Mindfulness-based stress reduction''),
             (''description'', PStr ''15-20 minute body scan recordings can be helpful for sleep preparation'')],
      PDict [(''type'', PStr ''sleep_education''),
             (''title'', PStr ''Understanding Sleep and Anxiety''),
             (''evidence_base'', PStr ''Sleep medicine and CBT-I''),
             (''description'', PStr ''Learning about the sleep-anxiety cycle helps break the pattern'')]]"

definition PreEventFlow_get_clinical_resources :: "pyval list" where
  "PreEventFlow_get_clinical_resources =
     [PDict [(''type'', PStr ''preparation_strategy''),
             (''title'', PStr ''Event Preparation Checklist''),
             (''evidence_base'', PStr ''Self-efficacy theory''),
             (''description'', PStr ''Thorough preparation reduces uncertainty and builds confidence'')],
      PDict [(''type'', PStr ''cognitive_technique''),
             (''title'', PStr ''Positive Visualization''),
             (''evidence_base'', PStr ''Mental rehearsal for performance''),
             (''description'', PStr ''Practice visualization daily leading up to the event'')],
      PDict [(''type'', PStr ''self_compassion''),
             (''title'', PStr ''Post-Event Self-Care''),
             (''evidence_base'', PStr ''Self-compassion reduces performance anxiety''),
             (''description'', PStr ''Plan recovery activities regardless of event outcome'')],
      PDict [(''type'', PStr ''performance_techniques''),
             (''title'', PStr ''Event Day Strategies''),
             (''evidence_base'', PStr ''Performance psychology''),
             (''description'', PStr ''Breathing techniques and grounding exercises for the day of the event'')]]"

definition IsolationFlow_get_clinical_resources :: "pyval list" where
  "IsolationFlow_get_clinical_resources =
     [PDict [(''type'', PStr ''self_compassion''),
             (''title'', PStr ''Daily Self-Compassion Practice''),
             (''evidence_base'', PStr ''Kristin Neff's self-compassion research''),
             (''description'', PStr (''Practice the self-compassion phrases daily, especially during ''
                                 @ ''difficult moments''))],
      PDict [(''type'', PStr ''connection_strategy''),
             (''title'', PStr ''Gradual Social Reconnection''),
             (''evidence_base'', PStr ''Behavioral activation for depression''),
             (''description'', PStr (''Start with small, low-pressure social interactions and gradually ''
                                 @ ''build up''))],
      PDict [(''type'', PStr ''crisis_resource''),
             (''title'', PStr ''Loneliness Support Resources''),
             (''evidence_base'', PStr ''Crisis intervention protocols''),
             (''description'', PStr (''Crisis Text Line (HOME to 741741) available 24/7 for isolation and ''
                                 @ ''loneliness support''))],
      PDict [(''type'', PStr ''online_communities''),
             (''title'', PStr ''Safe Online Connection Spaces''),
             (''evidence_base'', PStr ''Digital mental health interventions''),
             (''description'', PStr ''Moderated support groups and forums for people experiencing loneliness'')]]"

definition UncertaintyFlow_get_clinical_resources :: "pyval list" where
  "UncertaintyFlow_get_clinical_resources =
     [PDict [(''type'', PStr ''worry_management''),
             (''title'', PStr ''Scheduled Worry Time''),
             (''evidence_base'', PStr ''GAD treatment protocols''),
             (''description'', PStr ''Practice 15-minute daily worry sessions to contain anxiety'')],
      PDict [(''type'', PStr ''uncertainty_tolerance''),
             (''title'', PStr ''Daily Uncertainty Practice''),
             (''evidence_base'', PStr ''Intolerance of uncertainty therapy''),
             (''description'', PStr ''Practice the uncertainty tolerance phrase during low-anxiety moments'')],
      PDict [(''type'', PStr ''mindfulness''),
             (''title'', PStr ''Present Moment Awareness''),
             (''evidence_base'', PStr ''Mindfulness-based anxiety treatment''),
             (''description'', PStr ''Regular grounding in present reality counters future-focused worry'')],
      PDict [(''type'', PStr ''cognitive_techniques''),
             (''title'', PStr ''Problem-Solving vs Worry Distinction''),
             (''evidence_base'', PStr ''Cognitive Behavioral Therapy''),
             (''description'', PStr (''Learn to identify when concerns are actionable vs when they require ''
                                 @ ''acceptance''))]]"

definition DecisionMakingFlow_get_clinical_resources :: "pyval list" where
  "DecisionMakingFlow_get_clinical_resources =
     [PDict [(''type'', PStr ''decision_framework''),
             (''title'', PStr ''Structured Decision Process''),
             (''evidence_base'', PStr ''Decision science and cognitive therapy''),
             (''description'', PStr ''Use the options-values-outcomes framework for future decisions'')],
      PDict [(''type'', PStr ''perfectionism_management''),
             (''title'', PStr ''Good Enough Decision Making''),
             (''evidence_base'', PStr ''Satisficing theory (Herbert Simon)''),
             (''description'', PStr ''Practice making \"good enough\" decisions to reduce analysis paralysis'')],
      PDict [(''type'', PStr ''values_work''),
             (''title'', PStr ''Values Clarification''),
             (''evidence_base'', PStr ''Acceptance and Commitment Therapy''),
             (''description'', PStr ''Regular values reflection improves decision confidence'')]]"

definition PhysicalTriggersFlow_get_clinical_resources :: "pyval list" where
  "PhysicalTriggersFlow_get_clinical_resources =
     [PDict [(''type'', PStr ''trigger_management''),
             (''title'', PStr ''Personal Trigger Map''),
             (''evidence_base'', PStr ''Somatic experiencing and trauma therapy''),
             (''description'', PStr (''Create a personalized map of your physical triggers and effective ''
                                 @ ''responses''))],
      PDict [(''type'', PStr ''body_awareness''),
             (''title'', PStr ''Daily Body Scan Practice''),
             (''evidence_base'', PStr ''Mindfulness-based stress reduction''),
             (''description'', PStr (''Regular body awareness practice increases sensitivity to early ''
                                 @ ''anxiety warning signs''))],
      PDict [(''type'', PStr ''environmental_modification''),
             (''title'', PStr ''Trigger Prevention Toolkit''),
             (''evidence_base'', PStr ''Sensory processing and anxiety management''),
             (''description'', PStr ''Assemble a personal toolkit for managing triggering environments'')],
      PDict [(''type'', PStr ''somatic_techniques''),
             (''title'', PStr ''Body-Based Grounding Methods''),
             (''evidence_base'', PStr ''Somatic experiencing therapy''),
             (''description'', PStr ''Physical grounding techniques for immediate anxiety relief'')]]"

definition GeneralAnxietyFlow_get_clinical_resources :: "pyval list" where
  "GeneralAnxietyFlow_get_clinical_resources =
     [PDict [(''type'', PStr ''general_education''),
             (''title'', PStr ''Understanding General Anxiety''),
             (''evidence_base'', PStr ''CBT, mindfulness, clinical guidelines''),
             (''description'', PStr (''General anxiety is common and manageable, even without a specific ''
                                 @ ''trigger.''))],
      PDict [(''type'', PStr ''basic_technique''),
             (''title'', PStr ''Diaphragmatic Breathing''),
             (''evidence_base'', PStr ''Evidence for anxiety reduction''),
             (''description'', PStr (''Breathe slowly and deeply, focusing on your diaphragm. Repeat for 2 ''
                                 @ ''minutes.''))],
      PDict [(''type'', PStr ''resources''),
             (''title'', PStr ''Mental Health Helpline''),
             (''evidence_base'', PStr ''Support networks''),
             (''description'', PStr ''You can reach out for confidential support anytime.'')]]"

definition get_clinical_resources :: "flow \<Rightarrow> pyval list" where
  "get_clinical_resources f =
     (case cls f of
        AcuteAnxietyFlow \<Rightarrow> AcuteAnxietyFlow_get_clinical_resources
      | NighttimeFlow \<Rightarrow> NighttimeFlow_get_clinical_resources
      | PreEventFlow \<Rightarrow> PreEventFlow_get_clinical_resources
      | IsolationFlow \<Rightarrow> IsolationFlow_get_clinical_resources
      | UncertaintyFlow \<Rightarrow> UncertaintyFlow_get_clinical_resources
      | DecisionMakingFlow \<Rightarrow> DecisionMakingFlow_get_clinical_resources
      | PhysicalTriggersFlow \<Rightarrow> PhysicalTriggersFlow_get_clinical_resources
      | GeneralAnxietyFlow \<Rightarrow> GeneralAnxietyFlow_get_clinical_resources)"

text \<open>
  \<^verbatim>\<open>ClinicalTherapeuticFlow.complete_clinical_flow\<close>: marks the state completed and
  returns the completion reply with the outcome figures.
\<close>

definition complete_clinical_flow :: "clock_reading \<Rightarrow> flow \<Rightarrow> pydict \<times> flow" where
  "complete_clinical_flow now f =
     (let f = f\<lparr>state := (state f)\<lparr>completion_status := ''completed''\<rparr>\<rparr>;
          duration = seconds now - start_time (state f);
          completion_rate =
            (if clinical_steps f \<noteq> []
             then rat_of_nat (min (current_step (state f)) (length (clinical_steps f)))
                    / rat_of_nat (length (clinical_steps f))
             else 1)
      in ([(''message'', PStr (''You've completed the '' @ flow_name f
              @ ''. These evidence-based techniques become more effective with practice.'')),
           (''flow_completed'', PBool True),
           (''clinical_outcomes'', PDict
              [(''duration_seconds'', PRat duration),
               (''completion_rate'', PRat completion_rate),
               (''effectiveness_ratings'', PList (effectiveness_ratings (state f))),
               (''safety_flags'', PList (map PStr (safety_flags (state f)))),
               (''techniques_used'',
                  PList (map (\<lambda>step. PStr (intervention step))
                             (take (current_step (state f)) (clinical_steps f)))),
               (''content_retrievals'', PInt (int (content_retrievals (state f)))),
               (''dynamic_content_used'', PList (map PStr (dynamic_content_used (state f)))),
               (''personalization_applied'', PBool (personalization_applied (state f))),
               (''rag_enhanced'', PBool (has_retriever f))]),
           (''follow_up_clinical_resources'', PList (get_clinical_resources f)),
           (''session_summary'', PDict
              [(''scenario'', PStr (scenario f)),
               (''intensity'', PStr (intensity f)),
               (''steps_completed'', PInt (int (current_step (state f)))),
               (''clinical_success'',
                  PBool (completion_rate \<ge> 8 / 10 \<and> length (safety_flags (state f)) = 0))]),
           (''step_info'', PDict
              [(''current_step'', PInt (int (length (clinical_steps f)))),
               (''total_steps'', PInt (int (length (clinical_steps f)))),
               (''intervention_type'', PStr ''completed'')])],
          f))"

text \<open>\<^verbatim>\<open>ClinicalTherapeuticFlow.activate_crisis_protocol\<close>.\<close>

definition activate_crisis_protocol :: "flow \<Rightarrow> pydict \<times> flow" where
  "activate_crisis_protocol f =
     (let f = f\<lparr>state := (state f)\<lparr>safety_flags :=
                  safety_flags (state f) @ [''crisis_protocol_activated'']\<rparr>\<rparr>
      in ([(''flow_type'', PStr ''crisis_override''),
           (''message'', PStr ''I notice you might be in crisis. Your safety is the priority.''),
           (''crisis_resources'', PList
              [PDict [(''name'', PStr ''National Suicide Prevention Lifeline''),
                      (''contact'', PStr ''988''),
                      (''available'', PStr ''24/7'')],
               PDict [(''name'', PStr ''Crisis Text Line''),
                      (''contact'', PStr ''Text HOME to 741741''),
                      (''available'', PStr ''24/7'')],
               PDict [(''name'', PStr ''Emergency Services''),
                      (''contact'', PStr ''911''),
                      (''available'', PStr ''Immediate emergency response'')]]),
           (''disable_free_form'', PBool True),
           (''immediate_escalation'', PBool True),
           (''crisis_override'', PBool True)],
          f))"

text \<open>
  \<^verbatim>\<open>ClinicalTherapeuticFlow.get_current_step_response\<close>. A step never has the key
  \<^verbatim>\<open>clinical_message\<close>, so the message is always the generic one, and
  \<^verbatim>\<open>clinical_notes\<close> always defaults to the empty string.
\<close>

definition ClinicalTherapeuticFlow_get_current_step_response ::
    "retriever \<Rightarrow> clock_reading \<Rightarrow> flow \<Rightarrow> pydict \<times> flow" where
  "ClinicalTherapeuticFlow_get_current_step_response kb now f =
     (if current_step (state f) \<ge> length (clinical_steps f) then complete_clinical_flow now f
      else
       (let current_step_spec = clinical_steps f ! current_step (state f);
            response =
              [(''intervention_type'', PStr (intervention current_step_spec)),
               (''step_number'', PInt (int (current_step (state f)) + 1)),
               (''total_steps'', PInt (int (length (clinical_steps f)))),
               (''flow_name'', PStr (flow_name f)),
               (''scenario'', PStr (scenario f)),
               (''requires_input'', PBool (requires_input current_step_spec)),
               (''clinical_guidance'', PStr []),
               (''advance_step'', PBool True)]
        in (AList.update ''message''
              (PStr (''Continuing with '' @ flow_name f @ '' - step ''
                       @ str_int (int (current_step (state f)) + 1)))
              response,
            f)))"

text \<open>The overrides of \<^verbatim>\<open>get_current_step_response\<close>.\<close>

definition NighttimeFlow_get_current_step_response ::
    "retriever \<Rightarrow> clock_reading \<Rightarrow> flow \<Rightarrow> pydict \<times> flow" where
  "NighttimeFlow_get_current_step_response kb now f =
     (if current_step (state f) \<ge> length (clinical_steps f) then
        (case complete_clinical_flow now f of
           (res, f) \<Rightarrow>
             (AList.update ''step_info'' (PDict [(''current_step'', PInt (int (length (clinical_steps f)))),
                                                 (''total_steps'', PInt (int (length (clinical_steps f)))),
                                                 (''intervention_type'', PStr ''completed'')]) res, f))
      else
        (let step_idx = current_step (state f);
             current_step_spec = clinical_steps f ! step_idx;
             step_type = step_type current_step_spec;
             content =
                 (if step_type = ''reassurance'' then
                       get_reassurance_content kb ''sleep'' (5 / 10)
                  else if step_type = ''education'' then
                       get_educational_content kb ''sleep'' ''psychoeducation''
                  else if step_type = ''technique'' then
                       get_technique_for_scenario kb ''sleep'' ''medium'' None
                  else if step_type = ''assessment'' then
                       Some ''Let's assess your current sleep situation and how I can help.''
                  else Some ''Let's continue working on preparing you for restful sleep.'')
         in ([(''message'', of_opt content),
              (''intervention_type'', PStr (intervention current_step_spec)),
              (''step_number'', PInt (int step_idx + 1)),
              (''total_steps'', PInt (int (length (clinical_steps f)))),
              (''flow_name'', PStr (flow_name f)),
              (''scenario'', PStr (scenario f)),
              (''requires_input'', PBool (requires_input current_step_spec)),
              (''advance_step'', PBool True),
              (''step_info'', PDict [(''current_step'', PInt (int step_idx + 1)),
                                     (''total_steps'', PInt (int (length (clinical_steps f)))),
                                     (''intervention_type'', PStr (intervention current_step_spec))])],
             f)))"

definition PreEventFlow_get_current_step_response ::
    "retriever \<Rightarrow> clock_reading \<Rightarrow> flow \<Rightarrow> pydict \<times> flow" where
  "PreEventFlow_get_current_step_response kb now f =
     (if current_step (state f) \<ge> length (clinical_steps f) then
        (case complete_clinical_flow now f of
           (res, f) \<Rightarrow>
             (AList.update ''step_info'' (PDict [(''current_step'', PInt (int (length (clinical_steps f)))),
                                                 (''total_steps'', PInt (int (length (clinical_steps f)))),
                                                 (''intervention_type'', PStr ''completed'')]) res, f))
      else
        (let step_idx = current_step (state f);
             current_step_spec = clinical_steps f ! step_idx;
             step_type = step_type current_step_spec;
             content =
                 (if step_type = ''reassurance'' then
                       get_reassurance_content kb ''pre_event'' (5 / 10)
                  else if step_type = ''education'' then
                       get_educational_content kb ''pre_event'' ''psychoeducation''
                  else if step_type = ''technique'' then
                       get_technique_for_scenario kb ''pre_event'' ''medium'' None
                  else if step_type = ''assessment'' then
                       Some ''Let's explore what upcoming event is causing you anxiety.''
                  else Some ''Let's continue preparing you for your upcoming event.'')
         in ([(''message'', of_opt content),
              (''intervention_type'', PStr (intervention current_step_spec)),
              (''step_number'', PInt (int step_idx + 1)),
              (''total_steps'', PInt (int (length (clinical_steps f)))),
              (''flow_name'', PStr (flow_name f)),
              (''scenario'', PStr (scenario f)),
              (''requires_input'', PBool (requires_input current_step_spec)),
              (''advance_step'', PBool True),
              (''step_info'', PDict [(''current_step'', PInt (int step_idx + 1)),
                                     (''total_steps'', PInt (int (length (clinical_steps f)))),
                                     (''intervention_type'', PStr (intervention current_step_spec))])],
             f)))"

definition IsolationFlow_get_current_step_response ::
    "retriever \<Rightarrow> clock_reading \<Rightarrow> flow \<Rightarrow> pydict \<times> flow" where
  "IsolationFlow_get_current_step_response kb now f =
     (if current_step (state f) \<ge> length (clinical_steps f) then
        (case complete_clinical_flow now f of
           (res, f) \<Rightarrow>
             (AList.update ''step_info'' (PDict [(''current_step'', PInt (int (length (clinical_steps f)))),
                                                 (''total_steps'', PInt (int (length (clinical_steps f)))),
                                                 (''intervention_type'', PStr ''completed'')]) res, f))
      else
        (let current_step_spec = clinical_steps f ! current_step (state f);
             step_type = step_type current_step_spec;
             content =
                 (if step_type = ''reassurance'' then
                       get_reassurance_content kb ''isolation'' (6 / 10)
                  else if step_type = ''education'' then
                       get_educational_content kb ''isolation'' ''psychoeducation''
                  else if step_type = ''technique'' then
                       get_technique_for_scenario kb ''isolation'' ''medium'' None
                  else Some ''Let's continue working through this together.'')
         in ([(''message'', of_opt content),
              (''intervention_type'', PStr (intervention current_step_spec)),
              (''step_number'', PInt (int (current_step (state f)) + 1)),
              (''total_steps'', PInt (int (length (clinical_steps f)))),
              (''flow_name'', PStr (flow_name f)),
              (''scenario'', PStr (scenario f)),
              (''requires_input'', PBool (requires_input current_step_spec)),
              (''advance_step'', PBool True),
              (''step_info'', PDict [(''current_step'', PInt (int (current_step (state f)) + 1)),
                                     (''total_steps'', PInt (int (length (clinical_steps f)))),
                                     (''intervention_type'', PStr (intervention current_step_spec))])],
             f)))"

definition UncertaintyFlow_get_current_step_response ::
    "retriever \<Rightarrow> clock_reading \<Rightarrow> flow \<Rightarrow> pydict \<times> flow" where
  "UncertaintyFlow_get_current_step_response kb now f =
     (if current_step (state f) \<ge> length (clinical_steps f) then
        (case complete_clinical_flow now f of
           (res, f) \<Rightarrow>
             (AList.update ''step_info'' (PDict [(''current_step'', PInt (int (length (clinical_steps f)))),
                                                 (''total_steps'', PInt (int (length (clinical_steps f)))),
                                                 (''intervention_type'', PStr ''completed'')]) res, f))
      else
        (let step_idx = current_step (state f);
             current_step_spec = clinical_steps f ! step_idx;
             step_type = step_type current_step_spec;
             content =
                 (if step_type = ''reassurance'' then
                       get_reassurance_content kb ''uncertainty'' (5 / 10)
                  else if step_type = ''education'' then
                       get_educational_content kb ''uncertainty'' ''psychoeducation''
                  else if step_type = ''technique'' then
                       get_technique_for_scenario kb ''uncertainty'' ''medium'' None
                  else if step_type = ''assessment'' then
                       Some ''Let's explore what uncertain situation is causing you anxiety.''
                  else Some ''Let's continue working on managing uncertainty and worry.'')
         in ([(''message'', of_opt content),
              (''intervention_type'', PStr (intervention current_step_spec)),
              (''step_number'', PInt (int step_idx + 1)),
              (''total_steps'', PInt (int (length (clinical_steps f)))),
              (''flow_name'', PStr (flow_name f)),
              (''scenario'', PStr (scenario f)),
              (''requires_input'', PBool (requires_input current_step_spec)),
              (''advance_step'', PBool True),
              (''step_info'', PDict [(''current_step'', PInt (int step_idx + 1)),
                                     (''total_steps'', PInt (int (length (clinical_steps f)))),
                                     (''intervention_type'', PStr (intervention current_step_spec))])],
             f)))"

definition PhysicalTriggersFlow_get_current_step_response ::
    "retriever \<Rightarrow> clock_reading \<Rightarrow> flow \<Rightarrow> pydict \<times> flow" where
  "PhysicalTriggersFlow_get_current_step_response kb now f =
     (if current_step (state f) \<ge> length (clinical_steps f) then
        (case complete_clinical_flow now f of
           (res, f) \<Rightarrow>
             (AList.update ''step_info'' (PDict [(''current_step'', PInt (int (length (clinical_steps f)))),
                                                 (''total_steps'', PInt (int (length (clinical_steps f)))),
                                                 (''intervention_type'', PStr ''completed'')]) res, f))
      else
        (let step_idx = current_step (state f);
             current_step_spec = clinical_steps f ! step_idx;
             step_type = step_type current_step_spec;
             content =
                 (if step_type = ''reassurance'' then
                       get_reassurance_content kb ''physical_triggers'' (6 / 10)
                  else if step_type = ''education'' then
                       get_educational_content kb ''physical_triggers'' ''psychoeducation''
                  else if step_type = ''technique'' then
                       get_technique_for_scenario kb ''physical_triggers'' ''medium'' None
                  else if step_type = ''assessment'' then
                       Some ''Let's explore what physical experiences trigger your anxiety.''
                  else Some ''Let's continue working on managing your physical triggers.'')
         in ([(''message'', of_opt content),
              (''intervention_type'', PStr (intervention current_step_spec)),
              (''step_number'', PInt (int step_idx + 1)),
              (''total_steps'', PInt (int (length (clinical_steps f)))),
              (''flow_name'', PStr (flow_name f)),
              (''scenario'', PStr (scenario f)),
              (''requires_input'', PBool (requires_input current_step_spec)),
              (''advance_step'', PBool True),
              (''step_info'', PDict [(''current_step'', PInt (int step_idx + 1)),
                                     (''total_steps'', PInt (int (length (clinical_steps f)))),
                                     (''intervention_type'', PStr (intervention current_step_spec))])],
             f)))"

definition get_current_step_response ::
    "retriever \<Rightarrow> clock_reading \<Rightarrow> flow \<Rightarrow> pydict \<times> flow" where
  "get_current_step_response kb now f =
     (case cls f of
        NighttimeFlow \<Rightarrow> NighttimeFlow_get_current_step_response kb now f
      | PreEventFlow \<Rightarrow> PreEventFlow_get_current_step_response kb now f
      | IsolationFlow \<Rightarrow> IsolationFlow_get_current_step_response kb now f
      | UncertaintyFlow \<Rightarrow> UncertaintyFlow_get_current_step_response kb now f
      | PhysicalTriggersFlow \<Rightarrow> PhysicalTriggersFlow_get_current_step_response kb now f
      | _ \<Rightarrow> ClinicalTherapeuticFlow_get_current_step_response kb now f)"

text \<open>
  The rating parsers of the sleep and general flows (the panic flow's is above). The
  general flow's is the same function as the panic flow's.
\<close>

definition extract_sleepiness_rating :: "string \<Rightarrow> int option" where
  "extract_sleepiness_rating user_input =
     (case re_findall rating_pattern user_input of
        n # ns \<Rightarrow> Some (int_of_str n)
      | [] \<Rightarrow> None)"

definition extract_effectiveness_rating :: "string \<Rightarrow> int option" where
  "extract_effectiveness_rating user_input =
     (case re_findall rating_pattern user_input of
        n # ns \<Rightarrow> Some (int_of_str n)
      | [] \<Rightarrow> map_option snd (find (\<lambda>(word, rating). str_in word (lower user_input)) word_ratings))"

text \<open>
  \<^verbatim>\<open>process_clinical_step\<close> of each class: one definition per branch of the
  \<^verbatim>\<open>if step_idx == ...\<close> chain, then the method itself. \<open>default_response\<close> is the
  code after the chain, reached when a branch does not return.
\<close>

type_synonym step_method =
  "retriever \<Rightarrow> clock_reading \<Rightarrow> flow \<Rightarrow> string \<Rightarrow> string \<Rightarrow> pyval \<Rightarrow> pydict \<times> flow"

definition AcuteAnxietyFlow_default_response ::
    "retriever \<Rightarrow> clock_reading \<Rightarrow> flow \<Rightarrow> pyval \<Rightarrow> pydict \<times> flow" where
  "AcuteAnxietyFlow_default_response kb now f step_info =
     (case ClinicalTherapeuticFlow_get_current_step_response kb now f of
        (response, f) \<Rightarrow> (AList.update ''step_info'' step_info response, f))"

definition AcuteAnxietyFlow_step_0 :: step_method where
  "AcuteAnxietyFlow_step_0 kb now f user_input user_input_lower step_info =
     (let reassurance = get_reassurance_content kb ''panic'' (7 / 10);
          question = ''Are you in a safe location?''
      in (if any_in [''no'', ''not safe'', ''danger''] user_input_lower then
            ([(''message'', PStr (fmt reassurance
                              @ ''\<newline>\<newline>Your safety is the priority. Please consider ''
                              @ ''calling emergency services (911) or going to your nearest emergency ''
                              @ ''room. We can continue with grounding techniques while you decide.'')),
              (''safety_concern'', PBool True),
              (''escalation_recommended'', PBool True),
              (''advance_step'', PBool True),
              (''step_info'', step_info)],
             f)
          else
            ([(''message'', PStr (fmt reassurance
                              @ ''\<newline>\<newline>''
                              @ question)),
              (''advance_step'', PBool True),
              (''step_info'', step_info)],
             f)))"

definition AcuteAnxietyFlow_step_1 :: step_method where
  "AcuteAnxietyFlow_step_1 kb now f user_input user_input_lower step_info =
     (let education = get_educational_content kb ''panic'' ''psychoeducation''
      in ([(''message'', of_opt education),
           (''advance_step'', PBool True),
           (''step_info'', step_info)],
          f))"

definition AcuteAnxietyFlow_step_2 :: step_method where
  "AcuteAnxietyFlow_step_2 kb now f user_input user_input_lower step_info =
     (let technique =
              get_technique_for_scenario kb ''panic'' ''high'' (Some [(''preferred_technique_type'', ''breathing'')])
      in (if any_in [''can't'', ''difficult'', ''not working''] user_input_lower then
            ([(''message'', PStr (''That's okay''
                              @ em_dash
                              @ ''breathing techniques can feel difficult during panic. Let's try ''
                              @ ''natural breathing: just breathe at your own pace and count each ''
                              @ ''breath from 1 to 10. Reply 'done' when ready.'')),
              (''advance_step'', PBool False),
              (''step_info'', step_info)],
             f)
          else
            (let prompt =
                     (''Let's use a powerful technique for panic:\<newline>\<newline>''
                       @ fmt technique
                       @ ''\<newline>\<newline>Type 'done' when you've completed it.'')
             in ([(''message'', PStr prompt),
                  (''advance_step'', PBool True),
                  (''step_info'', step_info)],
                 f))))"

definition AcuteAnxietyFlow_step_3 :: step_method where
  "AcuteAnxietyFlow_step_3 kb now f user_input user_input_lower step_info =
     (let technique =
              get_technique_for_scenario kb ''panic'' ''medium'' (Some [(''preferred_technique_type'', ''grounding'')]);
          sensory_words = [''see'', ''hear'', ''touch'', ''smell'', ''taste'']
      in (if any_in sensory_words user_input_lower then
            ([(''message'', PStr (''Excellent work engaging your senses. This helps interrupt the panic ''
                              @ ''cycle by grounding you in reality.'')),
              (''advance_step'', PBool True),
              (''step_info'', step_info)],
             f)
          else
            ([(''message'', PStr (''Let's ground you in the moment:\<newline>\<newline>''
                              @ fmt technique
                              @ ''\<newline>\<newline>Start with the 5 things you can see and work ''
                              @ ''through the list.'')),
              (''advance_step'', PBool True),
              (''step_info'', step_info)],
             f)))"

definition AcuteAnxietyFlow_step_4 :: step_method where
  "AcuteAnxietyFlow_step_4 kb now f user_input user_input_lower step_info =
     (let technique =
              get_technique_for_scenario kb ''panic'' ''low'' (Some [(''preferred_technique_type'', ''relaxation'')]);
          relaxation_note =
              (''Notice the contrast between tension and relaxation. Type 'done' when ''
                @ ''finished.'')
      in ([(''message'', PStr (fmt technique
                           @ ''\<newline>\<newline>''
                           @ relaxation_note)),
           (''advance_step'', PBool True),
           (''step_info'', step_info)],
          f))"

definition AcuteAnxietyFlow_step_5 :: step_method where
  "AcuteAnxietyFlow_step_5 kb now f user_input user_input_lower step_info =
     (let reassurance = get_reassurance_content kb ''panic'' (4 / 10)
      in ([(''message'', PStr (fmt reassurance
                           @ ''\<newline>\<newline>You've just used several evidence-based ''
                           @ ''techniques. Panic attacks, while frightening, are temporary. Your ''
                           @ ''symptoms will continue to decrease as your nervous system calms.'')),
           (''advance_step'', PBool True),
           (''step_info'', step_info)],
          f))"

definition AcuteAnxietyFlow_step_6 :: step_method where
  "AcuteAnxietyFlow_step_6 kb now f user_input user_input_lower step_info =
     (let rating = extract_anxiety_rating user_input
      in (case rating of
            Some rating \<Rightarrow>
              (if rating \<noteq> 0 then
                 (let f =
                          f\<lparr>state := (state f)\<lparr>effectiveness_ratings :=
                              effectiveness_ratings (state f)
                                @ [PDict [(''rating'', PInt rating),
                                          (''timestamp'', PStr (isoformat now)),
                                          (''intervention_phase'', PStr ''post_technique'')]]\<rparr>\<rparr>;
                      response_msg =
                          (if rating \<le> 3 then
                                (''Excellent! Your anxiety has decreased significantly to ''
                                  @ str_int rating
                                  @ ''/10. The techniques worked well for you.'')
                           else if rating \<le> 6 then
                                (''Good progress''
                                  @ em_dash
                                  @ ''you're down to ''
                                  @ str_int rating
                                  @ ''/10. These skills keep getting more effective with practice.'')
                           else (''You're still experiencing high anxiety at ''
                                  @ str_int rating
                                  @ ''/10. That's normal''
                                  @ em_dash
                                  @ ''recovery isn't always linear. Would you like to try another technique?''))
                  in ([(''message'', PStr response_msg),
                       (''clinical_outcome'', PInt rating),
                       (''advance_step'', PBool True),
                       (''step_info'', step_info)],
                      f))
               else
                 AcuteAnxietyFlow_default_response kb now f step_info)
          | None \<Rightarrow>
              AcuteAnxietyFlow_default_response kb now f step_info))"

definition AcuteAnxietyFlow_process_clinical_step ::
    "retriever \<Rightarrow> clock_reading \<Rightarrow> flow \<Rightarrow> string \<Rightarrow> pydict \<times> flow" where
  "AcuteAnxietyFlow_process_clinical_step kb now f user_input =
     (if current_step (state f) \<ge> length (clinical_steps f) then complete_clinical_flow now f
      else
       (let step_idx = current_step (state f);
            current_step_spec = clinical_steps f ! step_idx;
            user_input_lower = strip (lower user_input);
            step_info = PDict [(''current_step'', PInt (int step_idx + 1)),
                               (''total_steps'', PInt (int (length (clinical_steps f)))),
                               (''intervention_type'', PStr (intervention current_step_spec))]
        in if step_idx = 0 then AcuteAnxietyFlow_step_0 kb now f user_input user_input_lower step_info
          else if step_idx = 1 then AcuteAnxietyFlow_step_1 kb now f user_input user_input_lower step_info
          else if step_idx = 2 then AcuteAnxietyFlow_step_2 kb now f user_input user_input_lower step_info
          else if step_idx = 3 then AcuteAnxietyFlow_step_3 kb now f user_input user_input_lower step_info
          else if step_idx = 4 then AcuteAnxietyFlow_step_4 kb now f user_input user_input_lower step_info
          else if step_idx = 5 then AcuteAnxietyFlow_step_5 kb now f user_input user_input_lower step_info
          else if step_idx = 6 then AcuteAnxietyFlow_step_6 kb now f user_input user_input_lower step_info
          else AcuteAnxietyFlow_default_response kb now f step_info))"

definition NighttimeFlow_default_response ::
    "retriever \<Rightarrow> clock_reading \<Rightarrow> flow \<Rightarrow> pyval \<Rightarrow> pydict \<times> flow" where
  "NighttimeFlow_default_response kb now f step_info =
     (case NighttimeFlow_get_current_step_response kb now f of
        (response, f) \<Rightarrow> (AList.update ''step_info'' step_info response, f))"

definition NighttimeFlow_step_0 :: step_method where
  "NighttimeFlow_step_0 kb now f user_input user_input_lower step_info =
     (let reassurance = get_reassurance_content kb ''sleep'' (6 / 10)
      in (if any_in [''hours'', ''minutes'', ''long time''] user_input_lower then
            ([(''message'', PStr (fmt reassurance
                              @ ''\<newline>\<newline>It sounds like you've been struggling for a ''
                              @ ''while. Let's work on some techniques to help calm your mind and body ''
                              @ ''for sleep.'')),
              (''sleep_duration_noted'', PBool True),
              (''advance_step'', PBool True),
              (''step_info'', step_info)],
             f)
          else
            ([(''message'', PStr (fmt reassurance
                              @ ''\<newline>\<newline>What time is it for you right now, and how long ''
                              @ ''have you been trying to sleep?'')),
              (''advance_step'', PBool True),
              (''step_info'', step_info)],
             f)))"

definition NighttimeFlow_step_1 :: step_method where
  "NighttimeFlow_step_1 kb now f user_input user_input_lower step_info =
     (let education = get_educational_content kb ''sleep'' ''sleep anxiety cycle''
      in ([(''message'', of_opt education),
           (''advance_step'', PBool True),
           (''step_info'', step_info)],
          f))"

definition NighttimeFlow_step_2 :: step_method where
  "NighttimeFlow_step_2 kb now f user_input user_input_lower step_info =
     (let technique =
              get_technique_for_scenario kb ''sleep'' ''medium'' (Some [(''preferred_technique_type'', ''thought_stopping'')])
      in (if str_in ''difficult'' user_input_lower \<or> str_in ''not working'' user_input_lower then
            ([(''message'', PStr (''Thought stopping can be challenging at first. Try this gentler ''
                              @ ''approach: Instead of fighting the thoughts, acknowledge them: 'I ''
                              @ ''notice I'm having worried thoughts, and that's okay. Right now, I ''
                              @ ''choose to focus on rest.''
                              @ [CHR 0x27])),
              (''technique_adaptation'', PBool True),
              (''advance_step'', PBool False),
              (''step_info'', step_info)],
             f)
          else
            ([(''message'', PStr (''Racing thoughts are common at bedtime. Let's use a technique to quiet ''
                              @ ''your mind:\<newline>\<newline>''
                              @ fmt technique
                              @ ''\<newline>\<newline>Try this now with any current worrying thoughts. ''
                              @ ''Reply 'done' when ready.'')),
              (''advance_step'', PBool True),
              (''step_info'', step_info)],
             f)))"

definition NighttimeFlow_step_3 :: step_method where
  "NighttimeFlow_step_3 kb now f user_input user_input_lower step_info =
     (let technique =
              get_technique_for_scenario kb ''sleep'' ''low'' (Some [(''preferred_technique_type'', ''body_scan'')])
      in (if str_in ''done'' user_input_lower \<or> str_in ''finished'' user_input_lower then
            ([(''message'', PStr (''Excellent. Body scanning helps signal to your nervous system that ''
                              @ ''it's time to shift into rest mode. Notice if your body feels heavier ''
                              @ ''or more relaxed.'')),
              (''relaxation_noted'', PBool True),
              (''advance_step'', PBool True),
              (''step_info'', step_info)],
             f)
          else
            ([(''message'', PStr (''Now let's prepare your body for sleep:\<newline>\<newline>''
                              @ fmt technique
                              @ ''\<newline>\<newline>Spend 10-15 seconds on each area. Take your time.'')),
              (''advance_step'', PBool True),
              (''step_info'', step_info)],
             f)))"

definition NighttimeFlow_step_4 :: step_method where
  "NighttimeFlow_step_4 kb now f user_input user_input_lower step_info =
     (let technique =
              get_technique_for_scenario kb ''sleep'' ''low'' (Some [(''preferred_technique_type'', ''sleep_hygiene'')])
      in ([(''message'', PStr (''Quick sleep environment optimization:\<newline>\<newline>''
                           @ fmt technique
                           @ ''\<newline>\<newline>Make any quick adjustments you can right now.'')),
           (''advance_step'', PBool True),
           (''step_info'', step_info)],
          f))"

definition NighttimeFlow_step_5 :: step_method where
  "NighttimeFlow_step_5 kb now f user_input user_input_lower step_info =
     (let education = get_educational_content kb ''sleep'' ''20 minute rule''
      in ([(''message'', of_opt education),
           (''advance_step'', PBool True),
           (''step_info'', step_info)],
          f))"

definition NighttimeFlow_step_6 :: step_method where
  "NighttimeFlow_step_6 kb now f user_input user_input_lower step_info =
     (let rating = extract_sleepiness_rating user_input
      in (case rating of
            Some rating \<Rightarrow>
              (if rating \<noteq> 0 then
                 (let f =
                          f\<lparr>state := (state f)\<lparr>effectiveness_ratings :=
                              effectiveness_ratings (state f)
                                @ [PDict [(''sleepiness_rating'', PInt rating),
                                          (''timestamp'', PStr (isoformat now))]]\<rparr>\<rparr>;
                      response_msg =
                          (if rating \<ge> 6 then
                                (''Good''
                                  @ em_dash
                                  @ ''a sleepiness level of ''
                                  @ str_int rating
                                  @ ''/10 suggests the techniques are helping. Try to sleep now while ''
                                  @ ''you're feeling drowsy.'')
                           else if rating \<ge> 3 then
                                (''You're at ''
                                  @ str_int rating
                                  @ ''/10 for sleepiness. Consider doing some gentle reading or listening ''
                                  @ ''to calm music for 15-20 minutes before trying to sleep again.'')
                           else (''At ''
                                  @ str_int rating
                                  @ ''/10, you're still quite alert. The 20-minute rule applies here''
                                  @ em_dash
                                  @ ''engage in a quiet activity until you feel more drowsy.''))
                  in ([(''message'', PStr response_msg),
                       (''sleep_guidance'', PBool True),
                       (''advance_step'', PBool True),
                       (''step_info'', step_info)],
                      f))
               else
                 ([(''message'', PStr (''How are you feeling now? More relaxed and ready for sleep, about the ''
                                   @ ''same, or more anxious? Rate your current sleepiness level 1-10 ''
                                   @ ''(1=wide awake, 10=very drowsy).'')),
                   (''advance_step'', PBool False),
                   (''step_info'', step_info)],
                  f))
          | None \<Rightarrow>
              ([(''message'', PStr (''How are you feeling now? More relaxed and ready for sleep, about the ''
                                @ ''same, or more anxious? Rate your current sleepiness level 1-10 ''
                                @ ''(1=wide awake, 10=very drowsy).'')),
                (''advance_step'', PBool False),
                (''step_info'', step_info)],
               f)))"

definition NighttimeFlow_process_clinical_step ::
    "retriever \<Rightarrow> clock_reading \<Rightarrow> flow \<Rightarrow> string \<Rightarrow> pydict \<times> flow" where
  "NighttimeFlow_process_clinical_step kb now f user_input =
     (if current_step (state f) \<ge> length (clinical_steps f) then complete_clinical_flow now f
      else
       (let user_input_lower = strip (lower user_input);
            step_idx = current_step (state f);
            current_step_spec = clinical_steps f ! step_idx;
            step_info = PDict [(''current_step'', PInt (int step_idx + 1)),
                               (''total_steps'', PInt (int (length (clinical_steps f)))),
                               (''intervention_type'', PStr (intervention current_step_spec))]
        in if step_idx = 0 then NighttimeFlow_step_0 kb now f user_input user_input_lower step_info
          else if step_idx = 1 then NighttimeFlow_step_1 kb now f user_input user_input_lower step_info
          else if step_idx = 2 then NighttimeFlow_step_2 kb now f user_input user_input_lower step_info
          else if step_idx = 3 then NighttimeFlow_step_3 kb now f user_input user_input_lower step_info
          else if step_idx = 4 then NighttimeFlow_step_4 kb now f user_input user_input_lower step_info
          else if step_idx = 5 then NighttimeFlow_step_5 kb now f user_input user_input_lower step_info
          else if step_idx = 6 then NighttimeFlow_step_6 kb now f user_input user_input_lower step_info
          else NighttimeFlow_default_response kb now f step_info))"

definition PreEventFlow_default_response ::
    "retriever \<Rightarrow> clock_reading \<Rightarrow> flow \<Rightarrow> pyval \<Rightarrow> pydict \<times> flow" where
  "PreEventFlow_default_response kb now f step_info =
     (case PreEventFlow_get_current_step_response kb now f of
        (response, f) \<Rightarrow> (AList.update ''step_info'' step_info response, f))"

definition PreEventFlow_step_0 :: step_method where
  "PreEventFlow_step_0 kb now f user_input user_input_lower step_info =
     (let reassurance = get_reassurance_content kb ''pre_event'' (6 / 10)
      in ([(''message'', PStr (fmt reassurance
                           @ ''\<newline>\<newline>Tell me briefly: what event is causing you ''
                           @ ''anxiety, and when is it happening?'')),
           (''advance_step'', PBool True),
           (''step_info'', step_info)],
          f))"

definition PreEventFlow_step_1 :: step_method where
  "PreEventFlow_step_1 kb now f user_input user_input_lower step_info =
     (let education = get_educational_content kb ''pre_event'' ''anxiety normalization''
      in ([(''message'', of_opt education),
           (''advance_step'', PBool True),
           (''step_info'', step_info)],
          f))"

definition PreEventFlow_step_2 :: step_method where
  "PreEventFlow_step_2 kb now f user_input user_input_lower step_info =
     (let technique =
              get_technique_for_scenario kb ''pre_event'' ''medium'' (Some [(''preferred_technique_type'', ''preparation'')]);
          preparation_indicators =
              [''practice'', ''prepare'', ''study'', ''rehearse'', ''plan'', ''ready'']
      in (if any_in preparation_indicators user_input_lower then
            ([(''message'', PStr (''Excellent! Those are concrete steps that will build your confidence. ''
                              @ ''Preparation is one of the most effective ways to reduce pre-event ''
                              @ ''anxiety.'')),
              (''preparation_identified'', PBool True),
              (''advance_step'', PBool True),
              (''step_info'', step_info)],
             f)
          else
            ([(''message'', PStr (''Let's build your confidence through preparation:\<newline>\<newline>''
                              @ fmt technique
                              @ ''\<newline>\<newline>Share what comes to mind''
                              @ em_dash
                              @ ''even small steps count.'')),
              (''advance_step'', PBool True),
              (''step_info'', step_info)],
             f)))"

definition PreEventFlow_step_3 :: step_method where
  "PreEventFlow_step_3 kb now f user_input user_input_lower step_info =
     (let technique =
              get_technique_for_scenario kb ''pre_event'' ''medium'' (Some [(''preferred_technique_type'', ''visualization'')])
      in (if str_in ''done'' user_input_lower \<or> str_in ''finished'' user_input_lower then
            ([(''message'', PStr (''Great job with the visualization! Mental rehearsal is a powerful tool ''
                              @ ''used by athletes and performers. The more vivid and positive your ''
                              @ ''mental practice, the more confident you'll feel.'')),
              (''visualization_completed'', PBool True),
              (''advance_step'', PBool True),
              (''step_info'', step_info)],
             f)
          else
            ([(''message'', PStr (''Let's use positive visualization:\<newline>\<newline>''
                              @ fmt technique
                              @ ''\<newline>\<newline>Spend 2-3 minutes on this mental rehearsal. Reply ''
                              @ '''done' when finished.'')),
              (''advance_step'', PBool True),
              (''step_info'', step_info)],
             f)))"

definition PreEventFlow_step_4 :: step_method where
  "PreEventFlow_step_4 kb now f user_input user_input_lower step_info =
     (let technique =
              get_technique_for_scenario kb ''pre_event'' ''low'' (Some [(''preferred_technique_type'', ''affirmations'')]);
          confidence_indicators =
              [''capable'', ''prepared'', ''can do'', ''strong'', ''ready'', ''confident'']
      in (if any_in confidence_indicators user_input_lower then
            ([(''message'', PStr (''I can hear the strength in your words! These positive self-statements ''
                              @ ''will serve you well. Keep repeating them, especially as the event ''
                              @ ''approaches.'')),
              (''affirmations_resonated'', PBool True),
              (''advance_step'', PBool True),
              (''step_info'', step_info)],
             f)
          else
            ([(''message'', PStr (''Let's build some positive self-statements:\<newline>\<newline>''
                              @ fmt technique
                              @ ''\<newline>\<newline>Which of these resonates with you, or do you have ''
                              @ ''your own empowering statement?'')),
              (''advance_step'', PBool True),
              (''step_info'', step_info)],
             f)))"

definition PreEventFlow_step_5 :: step_method where
  "PreEventFlow_step_5 kb now f user_input user_input_lower step_info =
     (let technique =
              get_technique_for_scenario kb ''pre_event'' ''low'' (Some [(''preferred_technique_type'', ''self_compassion'')])
      in ([(''message'', PStr (''Finally, let's plan for after the event:\<newline>\<newline>''
                           @ fmt technique
                           @ ''\<newline>\<newline>What's one nice thing you can do for yourself ''
                           @ ''after the event?'')),
           (''advance_step'', PBool True),
           (''step_info'', step_info)],
          f))"

definition PreEventFlow_process_clinical_step ::
    "retriever \<Rightarrow> clock_reading \<Rightarrow> flow \<Rightarrow> string \<Rightarrow> pydict \<times> flow" where
  "PreEventFlow_process_clinical_step kb now f user_input =
     (if current_step (state f) \<ge> length (clinical_steps f) then complete_clinical_flow now f
      else
       (let user_input_lower = strip (lower user_input);
            step_idx = current_step (state f);
            current_step_spec = clinical_steps f ! step_idx;
            step_info = PDict [(''current_step'', PInt (int step_idx + 1)),
                               (''total_steps'', PInt (int (length (clinical_steps f)))),
                               (''intervention_type'', PStr (intervention current_step_spec))]
        in if step_idx = 0 then PreEventFlow_step_0 kb now f user_input user_input_lower step_info
          else if step_idx = 1 then PreEventFlow_step_1 kb now f user_input user_input_lower step_info
          else if step_idx = 2 then PreEventFlow_step_2 kb now f user_input user_input_lower step_info
          else if step_idx = 3 then PreEventFlow_step_3 kb now f user_input user_input_lower step_info
          else if step_idx = 4 then PreEventFlow_step_4 kb now f user_input user_input_lower step_info
          else if step_idx = 5 then PreEventFlow_step_5 kb now f user_input user_input_lower step_info
          else PreEventFlow_default_response kb now f step_info))"

definition IsolationFlow_default_response ::
    "retriever \<Rightarrow> clock_reading \<Rightarrow> flow \<Rightarrow> pyval \<Rightarrow> pydict \<times> flow" where
  "IsolationFlow_default_response kb now f step_info =
     (case IsolationFlow_get_current_step_response kb now f of
        (response, f) \<Rightarrow> (AList.update ''step_info'' step_info response, f))"

definition IsolationFlow_step_0 :: step_method where
  "IsolationFlow_step_0 kb now f user_input user_input_lower step_info =
     (let reassurance = get_reassurance_content kb ''isolation'' (7 / 10)
      in ([(''message'', PStr (fmt reassurance
                           @ ''\<newline>\<newline>Can you tell me a bit about what's making you ''
                           @ ''feel most alone right now?'')),
           (''advance_step'', PBool True),
           (''step_info'', step_info)],
          f))"

definition IsolationFlow_step_1 :: step_method where
  "IsolationFlow_step_1 kb now f user_input user_input_lower step_info =
     (let risk_indicators = [''yes'', ''sometimes'', ''hurt myself'', ''end it'', ''die'']
      in (if any_in risk_indicators user_input_lower then
            (let f =
                     f\<lparr>state := (state f)\<lparr>safety_flags :=
                         safety_flags (state f) @ [''self_harm_risk_identified'']\<rparr>\<rparr>
             in ([(''message'', PStr (''I'm very concerned about your safety. Please reach out for immediate ''
                                  @ ''help:\<newline>\<newline>''
                                  @ bullet
                                  @ '' National Suicide Prevention Lifeline: 988\<newline>''
                                  @ bullet
                                  @ '' Crisis Text Line: Text HOME to 741741\<newline>''
                                  @ bullet
                                  @ '' Emergency Services: 911\<newline>\<newline>Your life has value, and ''
                                  @ ''there are people who want to help. Can you reach out to one of these ''
                                  @ ''resources right now?'')),
                  (''crisis_intervention'', PBool True),
                  (''safety_concern'', PBool True),
                  (''advance_step'', PBool False),
                  (''step_info'', step_info)],
                 f))
          else
            ([(''message'', PStr (''Thank you for letting me know. I'm glad you're reaching out for ''
                              @ ''support instead of dealing with this alone.'')),
              (''advance_step'', PBool True),
              (''step_info'', step_info)],
             f)))"

definition IsolationFlow_step_2 :: step_method where
  "IsolationFlow_step_2 kb now f user_input user_input_lower step_info =
     (let education = get_educational_content kb ''isolation'' ''loneliness understanding''
      in ([(''message'', of_opt education),
           (''advance_step'', PBool True),
           (''step_info'', step_info)],
          f))"

definition IsolationFlow_step_3 :: step_method where
  "IsolationFlow_step_3 kb now f user_input user_input_lower step_info =
     (let technique =
              get_technique_for_scenario kb ''isolation'' ''medium'' (Some [(''preferred_technique_type'', ''self_compassion'')])
      in (if any_in [''good'', ''better'', ''helpful'', ''calming''] user_input_lower then
            ([(''message'', PStr (''I'm glad that felt helpful. Self-compassion is like building an ''
                              @ ''internal supportive friend. The more you practice, the stronger that ''
                              @ ''voice becomes.'')),
              (''technique_success'', PBool True),
              (''advance_step'', PBool True),
              (''step_info'', step_info)],
             f)
          else
            (if any_in [''weird'', ''hard'', ''difficult'', ''fake''] user_input_lower then
               ([(''message'', PStr (''It can feel strange at first''
                                 @ em_dash
                                 @ ''many people aren't used to being kind to themselves. That's okay. ''
                                 @ ''Even trying is an act of self-compassion.'')),
                 (''normalize_difficulty'', PBool True),
                 (''advance_step'', PBool True),
                 (''step_info'', step_info)],
                f)
             else
               ([(''message'', PStr (''Let's practice self-compassion:\<newline>\<newline>''
                                 @ fmt technique
                                 @ ''\<newline>\<newline>How does that feel?'')),
                 (''advance_step'', PBool True),
                 (''step_info'', step_info)],
                f))))"

definition IsolationFlow_step_4 :: step_method where
  "IsolationFlow_step_4 kb now f user_input user_input_lower step_info =
     (let technique =
              get_technique_for_scenario kb ''isolation'' ''low'' (Some [(''preferred_technique_type'', ''connection_mapping'')])
      in (if any_in [''no'', ''nobody'', ''no one'', ''can't''] user_input_lower then
            ([(''message'', PStr (''It feels like there's no one right now, and that's incredibly hard. ''
                              @ ''Sometimes connection starts with very indirect ways''
                              @ em_dash
                              @ ''like reading comments on a forum, watching a livestream, or even ''
                              @ ''calling a helpline just to hear a kind voice. These count too.'')),
              (''alternative_connections'', PBool True),
              (''advance_step'', PBool True),
              (''step_info'', step_info)],
             f)
          else
            ([(''message'', PStr (''That's wonderful that you could think of a possibility. Even having ''
                              @ ''that awareness is the beginning of reconnection.'')),
              (''connection_identified'', PBool True),
              (''advance_step'', PBool True),
              (''step_info'', step_info)],
             f)))"

definition IsolationFlow_step_5 :: step_method where
  "IsolationFlow_step_5 kb now f user_input user_input_lower step_info =
     (let technique =
              get_technique_for_scenario kb ''isolation'' ''low'' (Some [(''preferred_technique_type'', ''small_steps'')])
      in ([(''message'', PStr (fmt technique
                           @ ''\<newline>\<newline>What feels like the smallest, most manageable ''
                           @ ''step you could take today?'')),
           (''advance_step'', PBool True),
           (''step_info'', step_info)],
          f))"

definition IsolationFlow_step_6 :: step_method where
  "IsolationFlow_step_6 kb now f user_input user_input_lower step_info =
     (let technique =
              get_technique_for_scenario kb ''isolation'' ''low'' (Some [(''preferred_technique_type'', ''self_care'')])
      in ([(''message'', PStr (''While you're working on building connections, it's important to care ''
                           @ ''for yourself:\<newline>\<newline>''
                           @ fmt technique
                           @ ''\<newline>\<newline>What's one nurturing thing you can do for ''
                           @ ''yourself today? Something that feels like giving yourself a gentle ''
                           @ ''hug?'')),
           (''advance_step'', PBool True),
           (''step_info'', step_info)],
          f))"

definition IsolationFlow_process_clinical_step ::
    "retriever \<Rightarrow> clock_reading \<Rightarrow> flow \<Rightarrow> string \<Rightarrow> pydict \<times> flow" where
  "IsolationFlow_process_clinical_step kb now f user_input =
     (if current_step (state f) \<ge> length (clinical_steps f) then complete_clinical_flow now f
      else
       (let user_input_lower = strip (lower user_input);
            step_idx = current_step (state f);
            current_step_spec = clinical_steps f ! step_idx;
            step_info = PDict [(''current_step'', PInt (int step_idx + 1)),
                               (''total_steps'', PInt (int (length (clinical_steps f)))),
                               (''intervention_type'', PStr (intervention current_step_spec))]
        in if step_idx = 0 then IsolationFlow_step_0 kb now f user_input user_input_lower step_info
          else if step_idx = 1 then IsolationFlow_step_1 kb now f user_input user_input_lower step_info
          else if step_idx = 2 then IsolationFlow_step_2 kb now f user_input user_input_lower step_info
          else if step_idx = 3 then IsolationFlow_step_3 kb now f user_input user_input_lower step_info
          else if step_idx = 4 then IsolationFlow_step_4 kb now f user_input user_input_lower step_info
          else if step_idx = 5 then IsolationFlow_step_5 kb now f user_input user_input_lower step_info
          else if step_idx = 6 then IsolationFlow_step_6 kb now f user_input user_input_lower step_info
          else IsolationFlow_default_response kb now f step_info))"

definition UncertaintyFlow_default_response ::
    "retriever \<Rightarrow> clock_reading \<Rightarrow> flow \<Rightarrow> pyval \<Rightarrow> pydict \<times> flow" where
  "UncertaintyFlow_default_response kb now f step_info =
     (case UncertaintyFlow_get_current_step_response kb now f of
        (response, f) \<Rightarrow> (AList.update ''step_info'' step_info response, f))"

definition UncertaintyFlow_step_0 :: step_method where
  "UncertaintyFlow_step_0 kb now f user_input user_input_lower step_info =
     (let reassurance = get_reassurance_content kb ''uncertainty'' (7 / 10)
      in ([(''message'', PStr (fmt reassurance
                           @ ''\<newline>\<newline>What specific situation or outcome are you most ''
                           @ ''worried about not knowing?'')),
           (''advance_step'', PBool True),
           (''step_info'', step_info)],
          f))"

definition UncertaintyFlow_step_1 :: step_method where
  "UncertaintyFlow_step_1 kb now f user_input user_input_lower step_info =
     (let reassurance = get_reassurance_content kb ''uncertainty'' (5 / 10);
          education = get_educational_content kb ''uncertainty'' ''uncertainty normalization''
      in ([(''message'', PStr (fmt education
                           @ ''\<newline>\<newline>''
                           @ fmt reassurance)),
           (''advance_step'', PBool True),
           (''step_info'', step_info)],
          f))"

definition UncertaintyFlow_step_2 :: step_method where
  "UncertaintyFlow_step_2 kb now f user_input user_input_lower step_info =
     (let technique =
              get_technique_for_scenario kb ''uncertainty'' ''medium'' (Some [(''preferred_technique_type'', ''problem_solving'')]);
          action_indicators = [''can'', ''could'', ''action'', ''step'', ''do something'']
      in (if any_in action_indicators user_input_lower then
            ([(''message'', PStr (''Great''
                              @ em_dash
                              @ ''it sounds like there are some actions you can take. Focus your mental ''
                              @ ''energy on those actionable steps rather than the parts you can't ''
                              @ ''control. What feels like the most important action to take first?'')),
              (''problem_solving_mode'', PBool True),
              (''advance_step'', PBool True),
              (''step_info'', step_info)],
             f)
          else
            ([(''message'', PStr (''This sounds like it falls into the 'worry' category''
                              @ em_dash
                              @ ''something important to you that you can't directly control right now. ''
                              @ ''That's when worry management techniques become most helpful.'')),
              (''worry_category'', PBool True),
              (''advance_step'', PBool True),
              (''step_info'', step_info)],
             f)))"

definition UncertaintyFlow_step_3 :: step_method where
  "UncertaintyFlow_step_3 kb now f user_input user_input_lower step_info =
     (let technique =
              get_technique_for_scenario kb ''uncertainty'' ''medium'' (Some [(''preferred_technique_type'', ''worry_time'')])
      in ([(''message'', PStr (''For worries we can't act on right now:\<newline>\<newline>''
                           @ fmt technique)),
           (''advance_step'', PBool True),
           (''step_info'', step_info)],
          f))"

definition UncertaintyFlow_step_4 :: step_method where
  "UncertaintyFlow_step_4 kb now f user_input user_input_lower step_info =
     (let technique =
              get_technique_for_scenario kb ''uncertainty'' ''high'' (Some [(''preferred_technique_type'', ''uncertainty_tolerance'')])
      in (if any_in [''hard'', ''difficult'', ''uncomfortable'', ''scary''] user_input_lower then
            ([(''message'', PStr (''Yes, it is difficult''
                              @ em_dash
                              @ ''that's exactly the point. You're practicing tolerating discomfort ''
                              @ ''rather than avoiding it. The discomfort won't hurt you, even though ''
                              @ ''it feels unpleasant.'')),
              (''validate_difficulty'', PBool True),
              (''advance_step'', PBool True),
              (''step_info'', step_info)],
             f)
          else
            (if any_in [''okay'', ''better'', ''calming'', ''helpful''] user_input_lower then
               ([(''message'', PStr (''That's wonderful! You're building uncertainty tolerance, which is ''
                                 @ ''like strengthening a muscle. Each time you practice, it gets a little ''
                                 @ ''easier.'')),
                 (''technique_success'', PBool True),
                 (''advance_step'', PBool True),
                 (''step_info'', step_info)],
                f)
             else
               ([(''message'', PStr (''Let's practice uncertainty tolerance:\<newline>\<newline>''
                                 @ fmt technique
                                 @ ''\<newline>\<newline>Try saying this phrase''
                                 @ em_dash
                                 @ ''how does it feel? The goal isn't to like uncertainty, just to ''
                                 @ ''tolerate it without letting it control your day.'')),
                 (''advance_step'', PBool True),
                 (''step_info'', step_info)],
                f))))"

definition UncertaintyFlow_step_5 :: step_method where
  "UncertaintyFlow_step_5 kb now f user_input user_input_lower step_info =
     (let technique =
              get_technique_for_scenario kb ''uncertainty'' ''low'' (Some [(''preferred_technique_type'', ''present_moment'')]);
          grounding_indicators =
              [''breathing'', ''sitting'', ''see'', ''hear'', ''feel'', ''notice'']
      in (if any_in grounding_indicators user_input_lower then
            ([(''message'', PStr (''Excellent! You're anchoring yourself in the present moment. This is ''
                              @ ''where your power lies''
                              @ em_dash
                              @ ''not in the uncertain future, but in the reality of right now.'')),
              (''grounding_success'', PBool True),
              (''advance_step'', PBool True),
              (''step_info'', step_info)],
             f)
          else
            ([(''message'', PStr (''Uncertainty anxiety pulls us into the future. Let's anchor in the ''
                              @ ''present:\<newline>\<newline>''
                              @ fmt technique
                              @ ''\<newline>\<newline>Share what you notice in this moment.'')),
              (''advance_step'', PBool True),
              (''step_info'', step_info)],
             f)))"

definition UncertaintyFlow_step_6 :: step_method where
  "UncertaintyFlow_step_6 kb now f user_input user_input_lower step_info =
     (let reassurance = get_reassurance_content kb ''uncertainty'' (3 / 10)
      in ([(''message'', PStr (fmt reassurance
                           @ ''\<newline>\<newline>Think about other times you've faced uncertainty ''
                           @ ''in your life. You've handled unknown situations before, even when ''
                           @ ''they felt overwhelming. What strengths or coping skills did you use ''
                           @ ''then that you still have now?'')),
           (''advance_step'', PBool True),
           (''step_info'', step_info)],
          f))"

definition UncertaintyFlow_process_clinical_step ::
    "retriever \<Rightarrow> clock_reading \<Rightarrow> flow \<Rightarrow> string \<Rightarrow> pydict \<times> flow" where
  "UncertaintyFlow_process_clinical_step kb now f user_input =
     (if current_step (state f) \<ge> length (clinical_steps f) then complete_clinical_flow now f
      else
       (let user_input_lower = strip (lower user_input);
            step_idx = current_step (state f);
            current_step_spec = clinical_steps f ! step_idx;
            step_info = PDict [(''current_step'', PInt (int step_idx + 1)),
                               (''total_steps'', PInt (int (length (clinical_steps f)))),
                               (''intervention_type'', PStr (intervention current_step_spec))]
        in if step_idx = 0 then UncertaintyFlow_step_0 kb now f user_input user_input_lower step_info
          else if step_idx = 1 then UncertaintyFlow_step_1 kb now f user_input user_input_lower step_info
          else if step_idx = 2 then UncertaintyFlow_step_2 kb now f user_input user_input_lower step_info
          else if step_idx = 3 then UncertaintyFlow_step_3 kb now f user_input user_input_lower step_info
          else if step_idx = 4 then UncertaintyFlow_step_4 kb now f user_input user_input_lower step_info
          else if step_idx = 5 then UncertaintyFlow_step_5 kb now f user_input user_input_lower step_info
          else if step_idx = 6 then UncertaintyFlow_step_6 kb now f user_input user_input_lower step_info
          else UncertaintyFlow_default_response kb now f step_info))"

definition DecisionMakingFlow_default_response ::
    "retriever \<Rightarrow> clock_reading \<Rightarrow> flow \<Rightarrow> pyval \<Rightarrow> pydict \<times> flow" where
  "DecisionMakingFlow_default_response kb now f step_info =
     (case ClinicalTherapeuticFlow_get_current_step_response kb now f of
        (response, f) \<Rightarrow> (AList.update ''step_info'' step_info response, f))"

definition DecisionMakingFlow_step_0 :: step_method where
  "DecisionMakingFlow_step_0 kb now f user_input user_input_lower step_info =
     (let reassurance = get_reassurance_content kb ''decision_making'' (5 / 10)
      in ([(''message'', PStr (fmt reassurance
                           @ ''\<newline>\<newline>What decision are you struggling with right now?'')),
           (''advance_step'', PBool True),
           (''step_info'', step_info)],
          f))"

definition DecisionMakingFlow_step_1 :: step_method where
  "DecisionMakingFlow_step_1 kb now f user_input user_input_lower step_info =
     (let indicator_matches =
              [''perfect'', ''right choice'', ''best'', ''wrong'', ''mess up'', ''regret'']
      in (if any_in indicator_matches user_input_lower then
            (let reassurance = get_reassurance_content kb ''decision_making'' (8 / 10)
             in ([(''message'', PStr (fmt reassurance
                                  @ ''\<newline>\<newline>The pressure to choose perfectly is often what ''
                                  @ ''makes decisions feel impossible. Let's work on making a 'good enough' ''
                                  @ ''choice.'')),
                  (''perfectionism_identified'', PBool True),
                  (''advance_step'', PBool True),
                  (''step_info'', step_info)],
                 f))
          else
            ([(''message'', PStr (''Thanks for sharing how you're feeling about this decision. Let's move ''
                              @ ''forward to look at your options.'')),
              (''advance_step'', PBool True),
              (''step_info'', step_info)],
             f)))"

definition DecisionMakingFlow_step_2 :: step_method where
  "DecisionMakingFlow_step_2 kb now f user_input user_input_lower step_info =
     (let technique =
              get_technique_for_scenario kb ''decision_making'' ''medium'' (Some [(''preferred_technique_type'', ''framework'')]);
          option_indicators = [''or'', ''either'', ''option'', ''choice'', ''could'']
      in (if any_in option_indicators user_input_lower then
            ([(''message'', PStr (''Good''
                              @ em_dash
                              @ ''you have multiple possibilities (which is a strength, even if it ''
                              @ ''feels overwhelming)\<newline>\<newline>Here's a decision framework to ''
                              @ ''guide you:\<newline>\<newline>''
                              @ fmt technique
                              @ ''\<newline>\<newline>Now, what matters most to you in making this ''
                              @ ''choice?'')),
              (''advance_step'', PBool True),
              (''step_info'', step_info)],
             f)
          else
            ([(''message'', PStr (''Let's clarify your options first. ''
                              @ fmt technique
                              @ ''\<newline>\<newline>List 2-3 main possibilities you're considering.'')),
              (''advance_step'', PBool False),
              (''step_info'', step_info)],
             f)))"

definition DecisionMakingFlow_step_3 :: step_method where
  "DecisionMakingFlow_step_3 kb now f user_input user_input_lower step_info =
     (let education = get_educational_content kb ''decision_making'' ''values clarification''
      in ([(''message'', PStr (''Values matter deeply in our decisions. ''
                           @ fmt education
                           @ ''\<newline>\<newline>What feels most important to you in this decision?'')),
           (''advance_step'', PBool True),
           (''step_info'', step_info)],
          f))"

definition DecisionMakingFlow_step_4 :: step_method where
  "DecisionMakingFlow_step_4 kb now f user_input user_input_lower step_info =
     (let technique =
              get_technique_for_scenario kb ''decision_making'' ''low'' (Some [(''preferred_technique_type'', ''good_enough'')])
      in ([(''message'', PStr (''Consider this principle:\<newline>\<newline>''
                           @ fmt technique
                           @ ''\<newline>\<newline>Instead of seeking perfection, look for what is ''
                           @ '''good enough' for your values and needs.'')),
           (''advance_step'', PBool True),
           (''step_info'', step_info)],
          f))"

definition DecisionMakingFlow_step_5 :: step_method where
  "DecisionMakingFlow_step_5 kb now f user_input user_input_lower step_info =
     (let education = get_educational_content kb ''decision_making'' ''decision time limits'';
          time_indicators =
              [''day'', ''week'', ''month'', ''tomorrow'', ''soon'', ''deadline'']
      in (if any_in time_indicators user_input_lower then
            ([(''message'', PStr (fmt education
                              @ ''\<newline>\<newline>That sounds like a reasonable timeframe. Having ''
                              @ ''that kind of deadline can actually reduce anxiety because it creates ''
                              @ ''closure''
                              @ em_dash
                              @ ''you can make a good decision within that limit.'')),
              (''deadline_set'', PBool True),
              (''advance_step'', PBool True),
              (''step_info'', step_info)],
             f)
          else
            ([(''message'', PStr (fmt education
                              @ ''\<newline>\<newline>To help with decision paralysis, try picking a ''
                              @ ''specific date or event by which you'll decide. When would feel right?'')),
              (''advance_step'', PBool False),
              (''step_info'', step_info)],
             f)))"

definition DecisionMakingFlow_step_6 :: step_method where
  "DecisionMakingFlow_step_6 kb now f user_input user_input_lower step_info =
     (let reassurance = get_reassurance_content kb ''decision_making'' (4 / 10)
      in ([(''message'', PStr (fmt reassurance
                           @ ''\<newline>\<newline>Remember: you've made many decisions in your ''
                           @ ''life, including difficult ones. What qualities or strategies have ''
                           @ ''helped you make good decisions in the past?'')),
           (''advance_step'', PBool True),
           (''step_info'', step_info)],
          f))"

definition DecisionMakingFlow_process_clinical_step ::
    "retriever \<Rightarrow> clock_reading \<Rightarrow> flow \<Rightarrow> string \<Rightarrow> pydict \<times> flow" where
  "DecisionMakingFlow_process_clinical_step kb now f user_input =
     (if current_step (state f) \<ge> length (clinical_steps f) then complete_clinical_flow now f
      else
       (let user_input_lower = strip (lower user_input);
            step_idx = current_step (state f);
            current_step_spec = clinical_steps f ! step_idx;
            step_type = step_type current_step_spec;
            step_info = PDict [(''current_step'', PInt (int step_idx + 1)),
                               (''total_steps'', PInt (int (length (clinical_steps f)))),
                               (''intervention_type'', PStr (intervention current_step_spec))]
        in if step_idx = 0 then DecisionMakingFlow_step_0 kb now f user_input user_input_lower step_info
          else if step_idx = 1 then DecisionMakingFlow_step_1 kb now f user_input user_input_lower step_info
          else if step_idx = 2 then DecisionMakingFlow_step_2 kb now f user_input user_input_lower step_info
          else if step_idx = 3 then DecisionMakingFlow_step_3 kb now f user_input user_input_lower step_info
          else if step_idx = 4 then DecisionMakingFlow_step_4 kb now f user_input user_input_lower step_info
          else if step_idx = 5 then DecisionMakingFlow_step_5 kb now f user_input user_input_lower step_info
          else if step_idx = 6 then DecisionMakingFlow_step_6 kb now f user_input user_input_lower step_info
          else DecisionMakingFlow_default_response kb now f step_info))"

definition PhysicalTriggersFlow_default_response ::
    "retriever \<Rightarrow> clock_reading \<Rightarrow> flow \<Rightarrow> pyval \<Rightarrow> pydict \<times> flow" where
  "PhysicalTriggersFlow_default_response kb now f step_info =
     (case PhysicalTriggersFlow_get_current_step_response kb now f of
        (response, f) \<Rightarrow> (AList.update ''step_info'' step_info response, f))"

definition PhysicalTriggersFlow_step_0 :: step_method where
  "PhysicalTriggersFlow_step_0 kb now f user_input user_input_lower step_info =
     (let reassurance = get_reassurance_content kb ''physical_triggers'' (6 / 10);
          common_triggers =
              [''caffeine'', ''tired'', ''crowd'', ''noise'', ''light'', ''heat'', ''cold'', ''hungry''];
          mentioned_triggers =
              filter (\<lambda>trigger. str_in trigger user_input_lower) common_triggers
      in (if mentioned_triggers \<noteq> [] then
            ([(''message'', PStr (fmt reassurance
                              @ ''\<newline>\<newline>I can see that ''
                              @ join '', '' mentioned_triggers
                              @ '' are triggers for you. These are very common anxiety triggers''
                              @ em_dash
                              @ ''you're definitely not alone in this experience.'')),
              (''triggers_identified'', PList (map PStr mentioned_triggers)),
              (''advance_step'', PBool True),
              (''step_info'', step_info)],
             f)
          else
            ([(''message'', PStr (fmt reassurance
                              @ ''\<newline>\<newline>What specific physical experiences or ''
                              @ ''environments tend to make your anxiety worse? (Examples: caffeine, ''
                              @ ''crowds, bright lights, fatigue)'')),
              (''advance_step'', PBool True),
              (''step_info'', step_info)],
             f)))"

definition PhysicalTriggersFlow_step_1 :: step_method where
  "PhysicalTriggersFlow_step_1 kb now f user_input user_input_lower step_info =
     (let reassurance = get_reassurance_content kb ''physical_triggers'' (5 / 10)
      in ([(''message'', of_opt reassurance),
           (''advance_step'', PBool True),
           (''step_info'', step_info)],
          f))"

definition PhysicalTriggersFlow_step_2 :: step_method where
  "PhysicalTriggersFlow_step_2 kb now f user_input user_input_lower step_info =
     (let technique =
              get_technique_for_scenario kb ''physical_triggers'' ''medium'' (Some [(''preferred_technique_type'', ''body_awareness'')]);
          body_awareness_indicators =
              [''tight'', ''tense'', ''shallow'', ''fast'', ''racing'', ''stomach'', ''shoulders'', ''jaw'']
      in (if any_in body_awareness_indicators user_input_lower then
            ([(''message'', PStr (''Good awareness! Noticing these physical sensations is the first step ''
                              @ ''in managing them. Your body is giving you information about your ''
                              @ ''stress level.'')),
              (''body_awareness_success'', PBool True),
              (''advance_step'', PBool True),
              (''step_info'', step_info)],
             f)
          else
            ([(''message'', PStr (''Let's increase your body awareness:\<newline>\<newline>''
                              @ fmt technique
                              @ ''\<newline>\<newline>Just observe without trying to change anything.'')),
              (''advance_step'', PBool True),
              (''step_info'', step_info)],
             f)))"

definition PhysicalTriggersFlow_step_3 :: step_method where
  "PhysicalTriggersFlow_step_3 kb now f user_input user_input_lower step_info =
     (let education =
              get_educational_content kb ''physical_triggers'' ''sensation differentiation''
      in ([(''message'', PStr (fmt education
                           @ ''\<newline>\<newline>Which category do your current physical ''
                           @ ''sensations fall into?'')),
           (''advance_step'', PBool True),
           (''step_info'', step_info)],
          f))"

definition PhysicalTriggersFlow_step_4 :: step_method where
  "PhysicalTriggersFlow_step_4 kb now f user_input user_input_lower step_info =
     (let technique =
              get_technique_for_scenario kb ''physical_triggers'' ''low'' (Some [(''preferred_technique_type'', ''environmental_modification'')])
      in (if any_in [''yes'', ''can'', ''will'', ''need''] user_input_lower then
            ([(''message'', PStr (''Excellent! Making these immediate adjustments can often provide quick ''
                              @ ''relief. Even small environmental changes can have a big impact on how ''
                              @ ''you feel.'')),
              (''modifications_accepted'', PBool True),
              (''advance_step'', PBool True),
              (''step_info'', step_info)],
             f)
          else
            ([(''message'', PStr (''Let's identify immediate changes you can make:\<newline>\<newline>''
                              @ fmt technique
                              @ ''\<newline>\<newline>What feels most needed right now?'')),
              (''advance_step'', PBool True),
              (''step_info'', step_info)],
             f)))"

definition PhysicalTriggersFlow_step_5 :: step_method where
  "PhysicalTriggersFlow_step_5 kb now f user_input user_input_lower step_info =
     (let technique =
              get_technique_for_scenario kb ''physical_triggers'' ''medium'' (Some [(''preferred_technique_type'', ''somatic_grounding'')])
      in (if any_in [''better'', ''calmer'', ''helped'', ''good''] user_input_lower then
            ([(''message'', PStr (''That's wonderful! Physical grounding techniques work because they ''
                              @ ''give your nervous system concrete, safe sensations to focus on ''
                              @ ''instead of anxiety symptoms.'')),
              (''grounding_success'', PBool True),
              (''advance_step'', PBool True),
              (''step_info'', step_info)],
             f)
          else
            ([(''message'', PStr (''Let's use your body for grounding:\<newline>\<newline>''
                              @ fmt technique
                              @ ''\<newline>\<newline>Try one of these and notice how it affects your ''
                              @ ''anxiety.'')),
              (''advance_step'', PBool True),
              (''step_info'', step_info)],
             f)))"

definition PhysicalTriggersFlow_step_6 :: step_method where
  "PhysicalTriggersFlow_step_6 kb now f user_input user_input_lower step_info =
     (let technique =
              get_technique_for_scenario kb ''physical_triggers'' ''low'' (Some [(''preferred_technique_type'', ''trigger_prevention'')])
      in ([(''message'', PStr (''For future trigger management:\<newline>\<newline>''
                           @ fmt technique
                           @ ''\<newline>\<newline>What feels like the most helpful prevention ''
                           @ ''strategy for you?'')),
           (''advance_step'', PBool True),
           (''step_info'', step_info)],
          f))"

definition PhysicalTriggersFlow_process_clinical_step ::
    "retriever \<Rightarrow> clock_reading \<Rightarrow> flow \<Rightarrow> string \<Rightarrow> pydict \<times> flow" where
  "PhysicalTriggersFlow_process_clinical_step kb now f user_input =
     (if current_step (state f) \<ge> length (clinical_steps f) then complete_clinical_flow now f
      else
       (let user_input_lower = strip (lower user_input);
            step_idx = current_step (state f);
            current_step_spec = clinical_steps f ! step_idx;
            step_info = PDict [(''current_step'', PInt (int step_idx + 1)),
                               (''total_steps'', PInt (int (length (clinical_steps f)))),
                               (''intervention_type'', PStr (intervention current_step_spec))]
        in if step_idx = 0 then PhysicalTriggersFlow_step_0 kb now f user_input user_input_lower step_info
          else if step_idx = 1 then PhysicalTriggersFlow_step_1 kb now f user_input user_input_lower step_info
          else if step_idx = 2 then PhysicalTriggersFlow_step_2 kb now f user_input user_input_lower step_info
          else if step_idx = 3 then PhysicalTriggersFlow_step_3 kb now f user_input user_input_lower step_info
          else if step_idx = 4 then PhysicalTriggersFlow_step_4 kb now f user_input user_input_lower step_info
          else if step_idx = 5 then PhysicalTriggersFlow_step_5 kb now f user_input user_input_lower step_info
          else if step_idx = 6 then PhysicalTriggersFlow_step_6 kb now f user_input user_input_lower step_info
          else PhysicalTriggersFlow_default_response kb now f step_info))"

text \<open>
  Dynamic dispatch of \<^verbatim>\<open>self.process_clinical_step\<close>. The general flow does not
  override it (it overrides \<^verbatim>\<open>process_user_input\<close> instead), so it inherits the
  base method, which returns the current step's response.
\<close>

definition process_clinical_step ::
    "retriever \<Rightarrow> clock_reading \<Rightarrow> flow \<Rightarrow> string \<Rightarrow> pydict \<times> flow" where
  "process_clinical_step kb now f user_input =
     (case cls f of
        AcuteAnxietyFlow \<Rightarrow> AcuteAnxietyFlow_process_clinical_step kb now f user_input
      | NighttimeFlow \<Rightarrow> NighttimeFlow_process_clinical_step kb now f user_input
      | PreEventFlow \<Rightarrow> PreEventFlow_process_clinical_step kb now f user_input
      | IsolationFlow \<Rightarrow> IsolationFlow_process_clinical_step kb now f user_input
      | UncertaintyFlow \<Rightarrow> UncertaintyFlow_process_clinical_step kb now f user_input
      | DecisionMakingFlow \<Rightarrow> DecisionMakingFlow_process_clinical_step kb now f user_input
      | PhysicalTriggersFlow \<Rightarrow> PhysicalTriggersFlow_process_clinical_step kb now f user_input
      | GeneralAnxietyFlow \<Rightarrow> get_current_step_response kb now f)"

text \<open>
  \<^verbatim>\<open>ClinicalTherapeuticFlow.process_user_input\<close>: record the input, screen it for
  crisis language, run the step, count the retrieval, advance.
  \<^verbatim>\<open>response.get('advance_step', True)\<close> is true when the reply has no such key.
\<close>

definition ClinicalTherapeuticFlow_process_user_input ::
    "retriever \<Rightarrow> clock_reading \<Rightarrow> flow \<Rightarrow> string \<Rightarrow> pydict \<times> flow" where
  "ClinicalTherapeuticFlow_process_user_input kb now f user_input =
     (let record_entry =
            [(''input'', PStr user_input),
             (''timestamp'', PStr (isoformat now)),
             (''safety_screened'', PBool True),
             (''step_intervention'',
                PStr (if current_step (state f) < length (clinical_steps f)
                      then intervention (clinical_steps f ! current_step (state f))
                      else ''completed''))];
          f = f\<lparr>state := (state f)\<lparr>user_responses :=
                 AList.update (current_step (state f)) record_entry (user_responses (state f))\<rparr>\<rparr>
      in if detect_crisis_keywords user_input then
           activate_crisis_protocol
             (f\<lparr>state := (state f)\<lparr>safety_flags :=
                   safety_flags (state f) @ [''crisis_detected_during_flow'']\<rparr>\<rparr>)
         else
           (case process_clinical_step kb now f user_input of (response, f) \<Rightarrow>
              (let f = (if has_retriever f \<and> truthy (dict_get response ''message'' PNone)
                        then (let f = f\<lparr>state := (state f)\<lparr>content_retrievals :=
                                         content_retrievals (state f) + 1\<rparr>\<rparr>
                              in if current_step (state f) < length (clinical_steps f)
                                 then f\<lparr>state := (state f)\<lparr>dynamic_content_used :=
                                        dynamic_content_used (state f)
                                          @ [intervention (clinical_steps f ! current_step (state f))]\<rparr>\<rparr>
                                 else f)
                        else f);
                   f = (if truthy (dict_get response ''advance_step'' (PBool True))
                        then f\<lparr>state := (state f)\<lparr>current_step := current_step (state f) + 1\<rparr>\<rparr>
                        else f)
               in (response, f))))"

text \<open>
  flows/general/general\_anxiety\_flow.py overrides \<^verbatim>\<open>start_flow\<close> and
  \<^verbatim>\<open>process_user_input\<close>. Its \<^verbatim>\<open>process_user_input\<close> indexes the step list
  before looking at the step number, which raises \<^verbatim>\<open>IndexError\<close> past the last
  step; it neither records the input nor changes \<^verbatim>\<open>current_step\<close>.
\<close>

type_synonym general_step_method =
  "retriever \<Rightarrow> clock_reading \<Rightarrow> flow \<Rightarrow> string \<Rightarrow> string \<Rightarrow> step_spec \<Rightarrow> pydict \<times> flow"

definition GeneralAnxietyFlow_step_0 :: general_step_method where
  "GeneralAnxietyFlow_step_0 kb now f user_input user_input_lower current_step_spec =
     (let reassurance = get_reassurance_content kb ''general'' (5 / 10)
      in ([(''message'', PStr (fmt reassurance
                           @ ''\<newline>\<newline>Thanks for sharing. Let''
                           @ right_quote
                           @ ''s talk a bit about general anxiety and how it can affect you.'')),
           (''advance_step'', PBool True),
           (''step_info'', PDict [(''current_step'', PInt (int (current_step (state f)) + 1)),
                                  (''total_steps'', PInt (int (length (clinical_steps f)))),
                                  (''intervention_type'', PStr (intervention current_step_spec))])],
          f))"

definition GeneralAnxietyFlow_step_1 :: general_step_method where
  "GeneralAnxietyFlow_step_1 kb now f user_input user_input_lower current_step_spec =
     (let education = get_educational_content kb ''general'' ''psychoeducation''
      in ([(''message'', of_opt education),
           (''advance_step'', PBool True),
           (''step_info'', PDict [(''current_step'', PInt (int (current_step (state f)) + 1)),
                                  (''total_steps'', PInt (int (length (clinical_steps f)))),
                                  (''intervention_type'', PStr (intervention current_step_spec))])],
          f))"

definition GeneralAnxietyFlow_step_2 :: general_step_method where
  "GeneralAnxietyFlow_step_2 kb now f user_input user_input_lower current_step_spec =
     (let technique =
              get_technique_for_scenario kb ''general'' ''variable'' (Some [(''user_input'', user_input)])
      in ([(''message'', PStr (''Here''
                           @ right_quote
                           @ ''s a simple grounding technique you can try:\<newline>\<newline>''
                           @ fmt technique
                           @ ''\<newline>\<newline>Would you like to give it a try now or learn ''
                           @ ''about other options?'')),
           (''advance_step'', PBool True),
           (''step_info'', PDict [(''current_step'', PInt (int (current_step (state f)) + 1)),
                                  (''total_steps'', PInt (int (length (clinical_steps f)))),
                                  (''intervention_type'', PStr (intervention current_step_spec))])],
          f))"

definition GeneralAnxietyFlow_step_3 :: general_step_method where
  "GeneralAnxietyFlow_step_3 kb now f user_input user_input_lower current_step_spec =
     (let reflection = get_reassurance_content kb ''general'' (3 / 10)
      in ([(''message'', PStr (fmt reflection
                           @ ''\<newline>\<newline>Remember, you're not alone in this. Every ''
                           @ ''improvement counts, no matter how small.'')),
           (''advance_step'', PBool True),
           (''step_info'', PDict [(''current_step'', PInt (int (current_step (state f)) + 1)),
                                  (''total_steps'', PInt (int (length (clinical_steps f)))),
                                  (''intervention_type'', PStr (intervention current_step_spec))])],
          f))"

definition GeneralAnxietyFlow_step_4 :: general_step_method where
  "GeneralAnxietyFlow_step_4 kb now f user_input user_input_lower current_step_spec =
     (let rating = extract_effectiveness_rating user_input;
          f = (case rating of
                 Some rating \<Rightarrow>
                   f\<lparr>state := (state f)\<lparr>effectiveness_ratings := effectiveness_ratings (state f)
                      @ [PDict [(''rating'', PInt rating),
                                (''timestamp'', PStr (isoformat now))]]\<rparr>\<rparr>
               | None \<Rightarrow> f);
          summary = (case rating of
                 Some rating \<Rightarrow>
                   (''Thank you for sharing. On a scale of 1 to 10, you've reported ''
                    @ str_int rating
                    @ ''. Would you like to continue or end for now?'')
               | None \<Rightarrow>
                   (''Let me know how much these steps helped you, using a number (1''
                    @ en_dash
                    @ ''10) or a few words.''))
      in ([(''message'', PStr summary),
           (''flow_completed'', PBool (rating \<noteq> None)),
           (''advance_step'', PBool True),
           (''step_info'', PDict [(''current_step'', PInt (int (current_step (state f)) + 1)),
                                (''total_steps'', PInt (int (length (clinical_steps f)))),
                                (''intervention_type'', PStr (intervention current_step_spec))])],
          f))"

definition GeneralAnxietyFlow_process_user_input ::
    "retriever \<Rightarrow> clock_reading \<Rightarrow> flow \<Rightarrow> string \<Rightarrow> py_error + pydict \<times> flow" where
  "GeneralAnxietyFlow_process_user_input kb now f user_input =
     (let user_input_lower = strip (lower user_input);
          step_idx = current_step (state f)
      in if step_idx \<ge> length (clinical_steps f) then Inl IndexError
         else
          (let current_step_spec = clinical_steps f ! step_idx
           in Inr
             (if step_idx = 0 then GeneralAnxietyFlow_step_0 kb now f user_input user_input_lower current_step_spec
              else if step_idx = 1 then GeneralAnxietyFlow_step_1 kb now f user_input user_input_lower current_step_spec
              else if step_idx = 2 then GeneralAnxietyFlow_step_2 kb now f user_input user_input_lower current_step_spec
              else if step_idx = 3 then GeneralAnxietyFlow_step_3 kb now f user_input user_input_lower current_step_spec
              else if step_idx = 4 then GeneralAnxietyFlow_step_4 kb now f user_input user_input_lower current_step_spec
              else complete_clinical_flow now f)))"

definition GeneralAnxietyFlow_start_flow ::
    "retriever \<Rightarrow> flow \<Rightarrow> pydict \<times> flow" where
  "GeneralAnxietyFlow_start_flow kb f =
     (let greeting = get_reassurance_content kb ''general'' (7 / 10);
          prompt =
              (''I'm here for you. How are you feeling right now? You can tell me as ''
                @ ''much or as little as you want.'')
      in ([(''message'', PStr (fmt greeting
                           @ ''\<newline>\<newline>''
                           @ prompt)),
           (''step_info'', PDict [(''current_step'', PInt 1),
                                  (''total_steps'', PInt (int (length (clinical_steps f)))),
                                  (''intervention_type'', PStr (intervention (clinical_steps f ! 0)))]),
           (''requires_input'', PBool True)],
          f))"

text \<open>
  Dynamic dispatch of \<^verbatim>\<open>process_user_input\<close> and \<^verbatim>\<open>start_flow\<close>.
\<close>

definition process_user_input ::
    "retriever \<Rightarrow> clock_reading \<Rightarrow> flow \<Rightarrow> string \<Rightarrow> py_error + pydict \<times> flow" where
  "process_user_input kb now f user_input =
     (case cls f of
        GeneralAnxietyFlow \<Rightarrow> GeneralAnxietyFlow_process_user_input kb now f user_input
      | _ \<Rightarrow> Inr (ClinicalTherapeuticFlow_process_user_input kb now f user_input))"

text \<open>
  The context of a start is a dictionary or \<^verbatim>\<open>None\<close>. \<open>context_text\<close> is its
  text when \<^verbatim>\<open>user_context and user_context.get('text')\<close> holds (the text is a
  string when present); \<open>any_score_above\<close> is
  \<^verbatim>\<open>any(score > 0.7 for score in emotion_scores.values())\<close> (the scores are numbers).
\<close>

definition context_text :: "pydict option \<Rightarrow> string option" where
  "context_text clinical_ctx =
     (case clinical_ctx of
        None \<Rightarrow> None
      | Some d \<Rightarrow>
          (case dict_get d ''text'' PNone of
             PStr s \<Rightarrow> if s \<noteq> [] then Some s else None
           | _ \<Rightarrow> None))"

fun num_gt :: "pyval \<Rightarrow> rat \<Rightarrow> bool" where
  "num_gt (PRat x) r = (x > r)"
| "num_gt (PInt i) r = (of_int i > r)"
| "num_gt (PBool b) r = ((if b then 1 else 0) > r)"
| "num_gt v r = False"

definition any_score_above :: "pydict \<Rightarrow> rat \<Rightarrow> bool" where
  "any_score_above d r =
     (case dict_get d ''emotion_scores'' (PDict []) of
        PDict scores \<Rightarrow> list_ex (\<lambda>(label, score). num_gt score r) scores
      | _ \<Rightarrow> False)"

definition ClinicalTherapeuticFlow_start_flow ::
    "retriever \<Rightarrow> clock_reading \<Rightarrow> flow \<Rightarrow> pydict option \<Rightarrow> pydict \<times> flow" where
  "ClinicalTherapeuticFlow_start_flow kb now f clinical_ctx =
     (let f = f\<lparr>state := FlowState now\<rparr>;
          f = (case clinical_ctx of
                 None \<Rightarrow> f
               | Some d \<Rightarrow>
                   if d = [] then f
                   else f\<lparr>state := (state f)
                          \<lparr>personalization_applied :=
                              (if any_score_above d (7 / 10) then True
                               else personalization_applied (state f)),
                           user_context := Some d\<rparr>\<rparr>)
      in case context_text clinical_ctx of
           Some s \<Rightarrow>
             if detect_crisis_keywords s then activate_crisis_protocol f
             else get_current_step_response kb now f
         | None \<Rightarrow> get_current_step_response kb now f)"

definition start_flow ::
    "retriever \<Rightarrow> clock_reading \<Rightarrow> flow \<Rightarrow> pydict option \<Rightarrow> pydict \<times> flow" where
  "start_flow kb now f clinical_ctx =
     (case cls f of
        GeneralAnxietyFlow \<Rightarrow> GeneralAnxietyFlow_start_flow kb f
      | _ \<Rightarrow> ClinicalTherapeuticFlow_start_flow kb now f clinical_ctx)"

section \<open>flows/clinical\_flow\_manager.py\<close>

text \<open>
  The manager keeps three dictionaries keyed by user id. An entry of \<^verbatim>\<open>active_flows\<close>
  holds the flow object itself, so what the flow's methods do to the flow is seen through
  the entry: the model writes the flow back after each call. The fields of the entry that
  share a name with a field of the flow or its state carry the prefix \<open>fd\<close>.
\<close>

record flow_data =
  flow_instance :: flow
  fd_start_time :: rat
  fd_flow_name :: string
  clinical_context :: pydict
  rag_retrievals :: int
  fd_dynamic_content_used :: bool

record manager =
  active_flows :: "(string \<times> flow_data) list"
  session_history :: "(string \<times> pyval list) list"
  clinical_outcomes :: "(string \<times> pyval list) list"
  knowledge_base_stats :: pydict

text \<open>
  The manager's own retriever is asked once, for crisis resources; the call is inside
  \<^verbatim>\<open>try ... except Exception\<close>. The outcome of the call is a parameter: the list
  of results, or an exception.
\<close>

type_synonym search_result = "py_error + pydict list"

definition clinical_flow_registry :: "(string \<times> flow_class) list" where
  "clinical_flow_registry =
     [(''acute_anxiety_flow'', AcuteAnxietyFlow),
      (''panic_crisis_flow'', AcuteAnxietyFlow),
      (''panic_breathing_flow'', AcuteAnxietyFlow),
      (''panic_flow'', AcuteAnxietyFlow),
      (''nighttime_flow'', NighttimeFlow),
      (''sleep_flow'', NighttimeFlow),
      (''sleep_hygiene_flow'', NighttimeFlow),
      (''insomnia_flow'', NighttimeFlow),
      (''pre_event_flow'', PreEventFlow),
      (''pre_event_nervousness_flow'', PreEventFlow),
      (''performance_anxiety_flow'', PreEventFlow),
      (''event_anxiety_flow'', PreEventFlow),
      (''isolation_flow'', IsolationFlow),
      (''loneliness_flow'', IsolationFlow),
      (''social_anxiety_flow'', IsolationFlow),
      (''connection_flow'', IsolationFlow),
      (''uncertainty_flow'', UncertaintyFlow),
      (''worry_flow'', UncertaintyFlow),
      (''anticipatory_anxiety_flow'', UncertaintyFlow),
      (''unknown_flow'', UncertaintyFlow),
      (''decision_making_flow'', DecisionMakingFlow),
      (''choice_paralysis_flow'', DecisionMakingFlow),
      (''indecision_flow'', DecisionMakingFlow),
      (''decision_flow'', DecisionMakingFlow),
      (''physical_triggers_flow'', PhysicalTriggersFlow),
      (''somatic_anxiety_flow'', PhysicalTriggersFlow),
      (''environmental_triggers_flow'', PhysicalTriggersFlow),
      (''body_anxiety_flow'', PhysicalTriggersFlow),
      (''general_anxiety_flow'', GeneralAnxietyFlow)]"

text \<open>The keys of \<^verbatim>\<open>get_available_flows()\<close>, in order.\<close>

definition available_scenarios :: "string list" where
  "available_scenarios =
     [''panic'', ''sleep'', ''pre_event'', ''isolation'', ''uncertainty'', ''decision_making'',
      ''physical_triggers'']"

text \<open>\<^verbatim>\<open>log_clinical_event\<close>: one entry more in the user's session log.\<close>

definition log_clinical_event ::
    "clock_reading \<Rightarrow> manager \<Rightarrow> string \<Rightarrow> string \<Rightarrow> pydict \<Rightarrow> manager" where
  "log_clinical_event now m user_id event_type event_data =
     (let log_entry =
            PDict [(''timestamp'', PStr (isoformat now)),
                   (''user_id'', PStr user_id),
                   (''event_type'', PStr event_type),
                   (''data'', PDict event_data),
                   (''rag_system_version'', PStr ''1.0.0''),
                   (''knowledge_base_stats'', PDict (knowledge_base_stats m))];
          history = (case map_of (session_history m) user_id of
                       None \<Rightarrow> []
                     | Some entries \<Rightarrow> entries)
      in m\<lparr>session_history := AList.update user_id (history @ [log_entry]) (session_history m)\<rparr>)"

text \<open>\<^verbatim>\<open>_calculate_dynamic_content_percentage\<close>.\<close>

definition calculate_dynamic_content_percentage :: "manager \<Rightarrow> string \<Rightarrow> rat" where
  "calculate_dynamic_content_percentage m user_id =
     (case map_of (active_flows m) user_id of
        None \<Rightarrow> 0
      | Some fd \<Rightarrow>
          (let fl = flow_instance fd;
               cur = current_step (state fl) + 1;
               total_steps = length (clinical_steps fl)
           in if total_steps = 0 then 0
              else min 100 (rat_of_nat cur / rat_of_nat total_steps * 100)))"

text \<open>
  \<^verbatim>\<open>_suggest_similar_flows\<close>: registry names sharing an underscore-separated word
  with the requested name, the first three.
\<close>

fun split_on :: "char \<Rightarrow> string \<Rightarrow> string \<Rightarrow> string list" where
  "split_on sep acc [] = [rev acc]"
| "split_on sep acc (c # cs) =
     (if c = sep then rev acc # split_on sep [] cs else split_on sep (c # acc) cs)"

definition suggest_similar_flows :: "string \<Rightarrow> string list" where
  "suggest_similar_flows requested_flow =
     (let keywords = split_on (CHR ''_'') [] (lower requested_flow)
      in take 3 (filter (\<lambda>name. list_ex (\<lambda>keyword. keyword \<in> set (split_on (CHR ''_'') [] (lower name)))
                                         keywords)
                        (map fst clinical_flow_registry)))"

text \<open>
  The loop over the search results in \<^verbatim>\<open>activate_crisis_override\<close>. A result that
  is not shaped as expected raises inside the \<^verbatim>\<open>try\<close>, which ends the loop and
  keeps what was collected before.
\<close>

definition resource_type :: "pydict \<Rightarrow> string option" where
  "resource_type resource =
     (case dict_get resource ''metadata'' (PDict []) of
        PDict metadata \<Rightarrow>
          (case dict_get metadata ''type'' (PStr []) of
             PStr t \<Rightarrow> Some t
           | _ \<Rightarrow> None)
      | _ \<Rightarrow> None)"

fun additional_crisis_resources :: "pydict list \<Rightarrow> pyval list" where
  "additional_crisis_resources [] = []"
| "additional_crisis_resources (resource # rest) =
     (case resource_type resource of
        None \<Rightarrow> []
      | Some t \<Rightarrow>
          if str_in ''crisis'' (lower t) then
            (case map_of resource ''content'' of
               Some (PStr content) \<Rightarrow>
                 PDict [(''name'', PStr ''Additional Support''),
                        (''description'', PStr (take 100 content @ ''...'')),
                        (''source'', PStr ''therapeutic_knowledge_base'')]
                 # additional_crisis_resources rest
             | _ \<Rightarrow> [])
          else additional_crisis_resources rest)"

definition knowledge_base_items :: "manager \<Rightarrow> pyval" where
  "knowledge_base_items m = dict_get (knowledge_base_stats m) ''total_items'' (PInt 0)"

definition activate_crisis_override ::
    "search_result \<Rightarrow> clock_reading \<Rightarrow> manager \<Rightarrow> string \<Rightarrow> string \<Rightarrow> pydict \<times> manager" where
  "activate_crisis_override search now m user_id crisis_text =
     (let m = m\<lparr>active_flows := AList.delete user_id (active_flows m)\<rparr>;
          m = log_clinical_event now m user_id ''crisis_intervention_activated''
                [(''trigger_text_length'', PInt (int (length crisis_text))),
                 (''timestamp'', PStr (isoformat now)),
                 (''rag_system_active'', PBool True),
                 (''knowledge_base_available'', PBool (num_gt (knowledge_base_items m) 0))];
          additional_resources =
            (case search of
               Inl e \<Rightarrow> []
             | Inr crisis_content \<Rightarrow> additional_crisis_resources crisis_content)
      in ([(''flow_type'', PStr ''crisis_override''),
           (''message'', PStr (''I'm very concerned about your safety right now. ''
                               @ ''Please reach out for immediate help:'')),
           (''crisis_resources'', PList
              ([PDict [(''name'', PStr ''National Suicide Prevention Lifeline''),
                       (''contact'', PStr ''988''),
                       (''description'', PStr ''Free, confidential 24/7 support''),
                       (''priority'', PStr ''highest'')],
                PDict [(''name'', PStr ''Crisis Text Line''),
                       (''contact'', PStr ''Text HOME to 741741''),
                       (''description'', PStr ''24/7 text-based crisis support''),
                       (''priority'', PStr ''highest'')],
                PDict [(''name'', PStr ''Emergency Services''),
                       (''contact'', PStr ''911''),
                       (''description'', PStr ''For immediate emergency response''),
                       (''priority'', PStr ''highest'')],
                PDict [(''name'', PStr ''National Alliance on Mental Illness''),
                       (''contact'', PStr ''Text NAMI to 741741''),
                       (''description'', PStr ''Mental health support and resources''),
                       (''priority'', PStr ''high'')]]
               @ additional_resources)),
           (''safety_message'', PStr (''Your life has value and there are people who want to ''
                               @ ''help you. Please reach out to one of these resources.'')),
           (''disable_free_form_responses'', PBool True),
           (''log_crisis_interaction'', PBool True),
           (''immediate_escalation'', PBool True),
           (''clinical_override'', PBool True),
           (''rag_enhanced_crisis'', PBool (length additional_resources > 0))],
          m))"

text \<open>
  \<^verbatim>\<open>complete_clinical_session\<close>: with an active flow, compute the outcome record,
  append it to the user's outcomes, log it and delete the active entry; without one, do
  nothing. The division raises when the flow has no steps.
\<close>

definition complete_clinical_session ::
    "clock_reading \<Rightarrow> manager \<Rightarrow> string \<Rightarrow> pydict \<Rightarrow> py_error + manager" where
  "complete_clinical_session now m user_id final_response =
     (case map_of (active_flows m) user_id of
        None \<Rightarrow> Inr m
      | Some fd \<Rightarrow>
          (let fl = flow_instance fd;
               session_duration = seconds now - fd_start_time fd
           in if length (clinical_steps fl) = 0 then Inl ZeroDivisionError
              else
               (let completion_rate =
                      rat_of_nat (min (current_step (state fl) + 1) (length (clinical_steps fl)))
                        / rat_of_nat (length (clinical_steps fl));
                    outcomes = (case map_of (clinical_outcomes m) user_id of
                                  None \<Rightarrow> []
                                | Some os \<Rightarrow> os);
                    outcome_data =
                      [(''session_id'', PStr (user_id @ ''_'' @ isoformat now)),
                       (''flow_name'', PStr (fd_flow_name fd)),
                       (''scenario'', PStr (scenario fl)),
                       (''duration_seconds'', PRat session_duration),
                       (''completion_rate'', PRat completion_rate),
                       (''effectiveness_ratings'', PList (effectiveness_ratings (state fl))),
                       (''safety_flags'', PList (map PStr (safety_flags (state fl)))),
                       (''techniques_used'',
                          PList (map (\<lambda>step. PStr (intervention step))
                                     (take (current_step (state fl) + 1) (clinical_steps fl)))),
                       (''clinical_success'',
                          PBool (completion_rate \<ge> 8 / 10 \<and> length (safety_flags (state fl)) = 0)),
                       (''rag_powered'', PBool True),
                       (''rag_retrievals'', PInt (rag_retrievals fd)),
                       (''dynamic_content_used'', PBool (fd_dynamic_content_used fd)),
                       (''dynamic_content_percentage'',
                          PRat (calculate_dynamic_content_percentage m user_id)),
                       (''knowledge_base_items_available'', knowledge_base_items m)];
                    m = m\<lparr>clinical_outcomes :=
                            AList.update user_id (outcomes @ [PDict outcome_data]) (clinical_outcomes m)\<rparr>;
                    m = log_clinical_event now m user_id ''rag_session_completed'' outcome_data
                in Inr (m\<lparr>active_flows := AList.delete user_id (active_flows m)\<rparr>))))"

text \<open>\<^verbatim>\<open>start_clinical_flow\<close>.\<close>

definition start_clinical_flow ::
    "retriever \<Rightarrow> search_result \<Rightarrow> clock_reading \<Rightarrow> manager \<Rightarrow> string \<Rightarrow> string
       \<Rightarrow> pydict option \<Rightarrow> pydict \<times> manager" where
  "start_clinical_flow kb search now m user_id requested_flow clinical_ctx =
     (let m = (if map_of (session_history m) user_id = None
               then m\<lparr>session_history := AList.update user_id [] (session_history m)\<rparr>
               else m);
          crisis_text = (case context_text clinical_ctx of
                           Some s \<Rightarrow> if detect_crisis_keywords s then Some s else None
                         | None \<Rightarrow> None)
      in case crisis_text of
           Some s \<Rightarrow> activate_crisis_override search now m user_id s
         | None \<Rightarrow>
            (case map_of clinical_flow_registry requested_flow of
               None \<Rightarrow>
                 ([(''error'', PStr (''Clinical flow '' @ requested_flow @ '' not implemented'')),
                   (''available_flows'', PList (map (\<lambda>(name, c). PStr name) clinical_flow_registry)),
                   (''fallback_message'', PStr (''Let me help you with general anxiety support. ''
                                                @ ''How are you feeling right now?'')),
                   (''suggested_flows'', PList (map PStr (suggest_similar_flows requested_flow)))],
                  m)
             | Some flow_class \<Rightarrow>
                 (let fl = new_flow now flow_class;
                      context_dict = (case clinical_ctx of None \<Rightarrow> [] | Some d \<Rightarrow> d);
                      fd = \<lparr>flow_instance = fl, fd_start_time = seconds now,
                            fd_flow_name = requested_flow, clinical_context = context_dict,
                            rag_retrievals = 0, fd_dynamic_content_used = False\<rparr>;
                      m = m\<lparr>active_flows := AList.update user_id fd (active_flows m)\<rparr>;
                      m = log_clinical_event now m user_id ''rag_flow_started''
                            [(''flow_name'', PStr requested_flow),
                             (''scenario'', PStr (scenario fl)),
                             (''emotion_scores'', dict_get context_dict ''emotion_scores'' (PDict [])),
                             (''intent_scores'', dict_get context_dict ''intent_scores'' (PDict [])),
                             (''knowledge_base_items'', knowledge_base_items m)]
                  in case start_flow kb now fl clinical_ctx of (response, fl) \<Rightarrow>
                      (let fd = fd\<lparr>flow_instance := fl\<rparr>;
                           fd = (if has_retriever fl
                                 then fd\<lparr>rag_retrievals := rag_retrievals fd + 1,
                                         fd_dynamic_content_used := True\<rparr>
                                 else fd);
                           m = m\<lparr>active_flows := AList.update user_id fd (active_flows m)\<rparr>;
                           response = AList.update ''clinical_metadata''
                             (PDict [(''flow_name'', PStr requested_flow),
                                     (''scenario'', PStr (scenario fl)),
                                     (''intensity'', PStr (intensity fl)),
                                     (''evidence_base'', PStr ''CBT, mindfulness, clinical guidelines''),
                                     (''safety_screened'', PBool True),
                                     (''rag_powered'', PBool True),
                                     (''dynamic_content'', PBool (fd_dynamic_content_used fd)),
                                     (''knowledge_base_items'', knowledge_base_items m)])
                             response
                       in (response, m)))))"

text \<open>
  \<^verbatim>\<open>process_clinical_response\<close>. After the flow's own
  \<^verbatim>\<open>process_user_input\<close> the manager advances the step once more when the reply
  carries a true \<^verbatim>\<open>advance_step\<close> and the step is still inside the sequence.
\<close>

definition process_clinical_response ::
    "retriever \<Rightarrow> search_result \<Rightarrow> clock_reading \<Rightarrow> manager \<Rightarrow> string \<Rightarrow> string
       \<Rightarrow> py_error + pydict \<times> manager" where
  "process_clinical_response kb search now m user_id user_input =
     (if detect_crisis_keywords user_input then
        Inr (activate_crisis_override search now m user_id user_input)
      else
        (case map_of (active_flows m) user_id of
           None \<Rightarrow>
             Inr ([(''error'', PStr ''No active clinical flow''),
                   (''message'', PStr (''It looks like we need to start over. ''
                                       @ ''How are you feeling right now?'')),
                   (''flow_restart_needed'', PBool True),
                   (''suggested_action'', PStr ''restart_assessment''),
                   (''available_scenarios'', PList (map PStr available_scenarios))],
                  m)
         | Some flow_data \<Rightarrow>
             (case process_user_input kb now (flow_instance flow_data) user_input of
                Inl e \<Rightarrow> Inl e
              | Inr (response, fl) \<Rightarrow>
                  (let fl = (if truthy (dict_get response ''advance_step'' PNone)
                                \<and> current_step (state fl) < length (clinical_steps fl)
                             then fl\<lparr>state := (state fl)\<lparr>current_step := current_step (state fl) + 1\<rparr>\<rparr>
                             else fl);
                       flow_data = flow_data\<lparr>flow_instance := fl\<rparr>;
                       flow_data = (if has_retriever fl \<and> truthy (dict_get response ''message'' PNone)
                                    then flow_data\<lparr>rag_retrievals := rag_retrievals flow_data + 1,
                                                   fd_dynamic_content_used := True\<rparr>
                                    else flow_data);
                       m = m\<lparr>active_flows := AList.update user_id flow_data (active_flows m)\<rparr>;
                       m = log_clinical_event now m user_id ''rag_response_processed''
                             [(''step_number'', PInt (int (current_step (state fl)))),
                              (''user_input_length'', PInt (int (length user_input))),
                              (''safety_flags'', PList (map PStr (safety_flags (state fl)))),
                              (''rag_retrievals_session'', PInt (rag_retrievals flow_data)),
                              (''dynamic_content_active'', PBool (fd_dynamic_content_used flow_data))]
                   in case (if truthy (dict_get response ''flow_completed'' PNone)
                               \<or> truthy (dict_get response ''crisis_override'' PNone)
                            then complete_clinical_session now m user_id response
                            else Inr m) of
                        Inl e \<Rightarrow> Inl e
                      | Inr m \<Rightarrow>
                          Inr (AList.update ''clinical_monitoring''
                                 (PDict [(''session_duration'', PRat (seconds now - fd_start_time flow_data)),
                                         (''current_step'', PInt (int (current_step (state fl)) + 1)),
                                         (''total_steps'', PInt (int (length (clinical_steps fl)))),
                                         (''safety_flags'', PList (map PStr (safety_flags (state fl)))),
                                         (''effectiveness_ratings'', PList (effectiveness_ratings (state fl))),
                                         (''rag_enhanced'', PBool True),
                                         (''rag_retrievals_session'', PInt (rag_retrievals flow_data)),
                                         (''dynamic_content_percentage'',
                                            PRat (calculate_dynamic_content_percentage m user_id))])
                                 response,
                               m)))))"

text \<open>\<^verbatim>\<open>get_clinical_flow_status\<close>: a read-only view of the active flow.\<close>

definition get_clinical_flow_status ::
    "clock_reading \<Rightarrow> manager \<Rightarrow> string \<Rightarrow> py_error + pydict option" where
  "get_clinical_flow_status now m user_id =
     (case map_of (active_flows m) user_id of
        None \<Rightarrow> Inr None
      | Some flow_data \<Rightarrow>
          (let fl = flow_instance flow_data
           in if length (clinical_steps fl) = 0 then Inl ZeroDivisionError
              else Inr (Some
                [(''flow_name'', PStr (fd_flow_name flow_data)),
                 (''scenario'', PStr (scenario fl)),
                 (''intensity'', PStr (intensity fl)),
                 (''current_step'', PInt (int (current_step (state fl)) + 1)),
                 (''total_steps'', PInt (int (length (clinical_steps fl)))),
                 (''current_intervention'',
                    PStr (if current_step (state fl) < length (clinical_steps fl)
                          then intervention (clinical_steps fl ! current_step (state fl))
                          else ''completed'')),
                 (''session_duration'', PRat (seconds now - fd_start_time flow_data)),
                 (''safety_flags'', PList (map PStr (safety_flags (state fl)))),
                 (''effectiveness_ratings'', PList (effectiveness_ratings (state fl))),
                 (''completion_rate'',
                    PRat (rat_of_nat (min (current_step (state fl) + 1) (length (clinical_steps fl)))
                            / rat_of_nat (length (clinical_steps fl)))),
                 (''rag_enhanced'', PBool True),
                 (''rag_retrievals'', PInt (rag_retrievals flow_data)),
                 (''dynamic_content_active'', PBool (fd_dynamic_content_used flow_data)),
                 (''dynamic_content_percentage'',
                    PRat (calculate_dynamic_content_percentage m user_id))])))"

section \<open>Specification-level notions used in the statements\<close>

text \<open>
  A phrase occurs in a text as a whole word when the text splits around it with a word
  boundary on each side. This is the declarative reading of \<^verbatim>\<open>\b(phrase)\b\<close>.
\<close>

definition phrase_occurs :: "string \<Rightarrow> string \<Rightarrow> bool" where
  "phrase_occurs lit s =
     (\<exists>pre post. s = pre @ lit @ post
        \<and> word_boundary (last_char None pre) (char_at (lit @ post) 0)
        \<and> word_boundary (last_char (last_char None pre) lit) (char_at post 0))"

definition prev_at :: "char option \<Rightarrow> string \<Rightarrow> nat \<Rightarrow> char option" where
  "prev_at prev s i = (if i = 0 then prev else Some (s ! (i - 1)))"

definition category_match :: "(string \<times> string list list) list \<Rightarrow> string \<Rightarrow> string \<Rightarrow> bool" where
  "category_match table text category =
     (\<exists>patterns alts lit. (category, patterns) \<in> set table \<and> alts \<in> set patterns
        \<and> lit \<in> set alts \<and> phrase_occurs lit (lower text))"

definition tier_match :: "(string \<times> string list list) list \<Rightarrow> string \<Rightarrow> bool" where
  "tier_match table text = (\<exists>category. category_match table text category)"

definition no_empty_alternative :: "(string \<times> string list list) list \<Rightarrow> bool" where
  "no_empty_alternative table =
     list_all (\<lambda>(category, patterns). list_all (\<lambda>alts. list_all (\<lambda>lit. lit \<noteq> []) alts) patterns) table"

definition digit_token :: "string \<Rightarrow> bool" where
  "digit_token s = (re_findall rating_pattern s \<noteq> [])"

section \<open>Sample collaborators and states for concrete runs\<close>

text \<open>
  A knowledge base without any matching content (every lookup returns \<^verbatim>\<open>None\<close>), a
  clock reading, a manager with no sessions, and a panic flow that has advanced through
  all seven steps and is still in progress.
\<close>

definition empty_knowledge_base :: retriever where
  "empty_knowledge_base =
     \<lparr>get_reassurance_content = (\<lambda>scenario confidence. None),
      get_educational_content = (\<lambda>scenario topic. None),
      get_technique_for_scenario = (\<lambda>scenario intensity ctx. None)\<rparr>"

definition clock0 :: clock_reading where
  "clock0 = \<lparr>seconds = 0, isoformat = ''2024-01-01T00:00:00''\<rparr>"

definition empty_manager :: manager where
  "empty_manager =
     \<lparr>active_flows = [], session_history = [], clinical_outcomes = [],
      knowledge_base_stats = []\<rparr>"

definition flow_at :: "flow_class \<Rightarrow> nat \<Rightarrow> flow" where
  "flow_at c n = (new_flow clock0 c)\<lparr>state := (FlowState clock0)\<lparr>current_step := n\<rparr>\<rparr>"

text \<open>A reply or a resource list offers a resource with a given name and contact.\<close>

definition offers :: "pyval \<Rightarrow> string \<Rightarrow> string \<Rightarrow> bool" where
  "offers resources name contact =
     (case resources of
        PList rs \<Rightarrow>
          list_ex (\<lambda>r. case r of
                          PDict d \<Rightarrow> dict_get d ''name'' PNone = PStr name
                                     \<and> dict_get d ''contact'' PNone = PStr contact
                        | _ \<Rightarrow> False) rs
      | _ \<Rightarrow> False)"

definition has_effectiveness_check :: "step_spec list \<Rightarrow> bool" where
  "has_effectiveness_check steps = list_ex (\<lambda>step. step_type step = ''effectiveness_check'') steps"

text \<open>The step index of a user's active flow, if there is one.\<close>

definition active_step :: "manager \<Rightarrow> string \<Rightarrow> nat option" where
  "active_step m user_id =
     map_option (\<lambda>fd. current_step (state (flow_instance fd))) (map_of (active_flows m) user_id)"

definition started :: "string \<Rightarrow> manager" where
  "started requested_flow =
     snd (start_clinical_flow empty_knowledge_base (Inr []) clock0 empty_manager ''u''
            requested_flow None)"

text \<open>
  A driver that continues user \<^verbatim>\<open>u\<close>'s flow with a list of inputs, and readers for a
  user's active scenario and for a field of the user's latest outcome record.
\<close>

fun continue_flow :: "manager \<Rightarrow> string list \<Rightarrow> py_error + manager" where
  "continue_flow m [] = Inr m"
| "continue_flow m (user_input # rest) =
     (case process_clinical_response empty_knowledge_base (Inr []) clock0 m ''u'' user_input of
        Inl e \<Rightarrow> Inl e
      | Inr (reply, m') \<Rightarrow> continue_flow m' rest)"

definition active_scenario :: "manager \<Rightarrow> string \<Rightarrow> string option" where
  "active_scenario m user_id =
     map_option (\<lambda>fd. scenario (flow_instance fd)) (map_of (active_flows m) user_id)"

definition outcome_field :: "manager \<Rightarrow> string \<Rightarrow> string \<Rightarrow> pyval" where
  "outcome_field m user_id key =
     (case map_of (clinical_outcomes m) user_id of
        None \<Rightarrow> PNone
      | Some outcomes \<Rightarrow>
          (if outcomes = [] then PNone
           else (case last outcomes of PDict d \<Rightarrow> dict_get d key PNone | _ \<Rightarrow> PNone)))"

definition outcome_count :: "manager \<Rightarrow> string \<Rightarrow> nat" where
  "outcome_count m user_id =
     (case map_of (clinical_outcomes m) user_id of None \<Rightarrow> 0 | Some outcomes \<Rightarrow> length outcomes)"

text \<open>The context of a start carries crisis language.\<close>

definition crisis_in_context :: "pydict option \<Rightarrow> bool" where
  "crisis_in_context ctx =
     (case context_text ctx of Some s \<Rightarrow> detect_crisis_keywords s | None \<Rightarrow> False)"

section \<open>The scanner finds exactly the whole-word occurrences\<close>

lemma startswith_iff: "startswith s lit \<longleftrightarrow> (\<exists>post. s = lit @ post)"
  by (induction s lit rule: startswith.induct) auto

lemma find_not_None: "find P xs \<noteq> None \<longleftrightarrow> (\<exists>x \<in> set xs. P x)"
  by (induction xs) auto

lemma match_here_iff:
  "match_here alts prev s \<noteq> None \<longleftrightarrow>
     word_boundary prev (char_at s 0) \<and>
     (\<exists>lit \<in> set alts. startswith s lit \<and> word_boundary (last_char prev lit) (char_at s (length lit)))"
  by (simp add: match_here_def find_not_None del: not_None_eq)

lemma prev_at_Cons: "prev_at prev (c # cs) (Suc j) = prev_at (Some c) cs j"
  by (cases j) (simp_all add: prev_at_def)

lemma findall_from_nonempty:
  "findall_from alts prev k s \<noteq> [] \<longleftrightarrow>
     (\<exists>i. k \<le> i \<and> i < length s \<and> match_here alts (prev_at prev s i) (drop i s) \<noteq> None)"
proof (induction s arbitrary: prev k)
  case Nil
  then show ?case by simp
next
  case (Cons c cs)
  show ?case
  proof (cases "0 < k")
    case True
    have "findall_from alts prev k (c # cs) \<noteq> [] \<longleftrightarrow> findall_from alts (Some c) (k - 1) cs \<noteq> []"
      using True by simp
    also have "\<dots> \<longleftrightarrow> (\<exists>j. k - 1 \<le> j \<and> j < length cs \<and> match_here alts (prev_at (Some c) cs j) (drop j cs) \<noteq> None)"
      by (rule Cons.IH)
    also have "\<dots> \<longleftrightarrow> (\<exists>i. k \<le> i \<and> i < length (c # cs) \<and> match_here alts (prev_at prev (c # cs) i) (drop i (c # cs)) \<noteq> None)"
    proof
      assume "\<exists>j. k - 1 \<le> j \<and> j < length cs \<and> match_here alts (prev_at (Some c) cs j) (drop j cs) \<noteq> None"
      then obtain j where j: "k - 1 \<le> j" "j < length cs" "match_here alts (prev_at (Some c) cs j) (drop j cs) \<noteq> None"
        by blast
      have "k \<le> Suc j \<and> Suc j < length (c # cs) \<and> match_here alts (prev_at prev (c # cs) (Suc j)) (drop (Suc j) (c # cs)) \<noteq> None"
        using j by (simp add: prev_at_Cons)
      then show "\<exists>i. k \<le> i \<and> i < length (c # cs) \<and> match_here alts (prev_at prev (c # cs) i) (drop i (c # cs)) \<noteq> None"
        by blast
    next
      assume "\<exists>i. k \<le> i \<and> i < length (c # cs) \<and> match_here alts (prev_at prev (c # cs) i) (drop i (c # cs)) \<noteq> None"
      then obtain i where i: "k \<le> i" "i < length (c # cs)" "match_here alts (prev_at prev (c # cs) i) (drop i (c # cs)) \<noteq> None"
        by blast
      from True i(1) obtain j where ij: "i = Suc j" by (cases i) auto
      have "k - 1 \<le> j \<and> j < length cs \<and> match_here alts (prev_at (Some c) cs j) (drop j cs) \<noteq> None"
        using i ij by (simp add: prev_at_Cons)
      then show "\<exists>j. k - 1 \<le> j \<and> j < length cs \<and> match_here alts (prev_at (Some c) cs j) (drop j cs) \<noteq> None"
        by blast
    qed
    finally show ?thesis .
  next
    case False
    then have k0: "k = 0" by simp
    show ?thesis
    proof (cases "match_here alts prev (c # cs)")
      case (Some m)
      have "match_here alts (prev_at prev (c # cs) 0) (drop 0 (c # cs)) \<noteq> None"
        using Some by (simp add: prev_at_def)
      then have "\<exists>i. k \<le> i \<and> i < length (c # cs) \<and> match_here alts (prev_at prev (c # cs) i) (drop i (c # cs)) \<noteq> None"
        using k0 by (intro exI[of _ 0]) simp
      moreover have "findall_from alts prev k (c # cs) \<noteq> []"
        using Some k0 by simp
      ultimately show ?thesis by blast
    next
      case None
      have "findall_from alts prev k (c # cs) \<noteq> [] \<longleftrightarrow> findall_from alts (Some c) 0 cs \<noteq> []"
        using None k0 by simp
      also have "\<dots> \<longleftrightarrow> (\<exists>j. 0 \<le> j \<and> j < length cs \<and> match_here alts (prev_at (Some c) cs j) (drop j cs) \<noteq> None)"
        by (rule Cons.IH)
      also have "\<dots> \<longleftrightarrow> (\<exists>i. k \<le> i \<and> i < length (c # cs) \<and> match_here alts (prev_at prev (c # cs) i) (drop i (c # cs)) \<noteq> None)"
      proof
        assume "\<exists>j. 0 \<le> j \<and> j < length cs \<and> match_here alts (prev_at (Some c) cs j) (drop j cs) \<noteq> None"
        then obtain j where j: "j < length cs" "match_here alts (prev_at (Some c) cs j) (drop j cs) \<noteq> None"
          by blast
        have "k \<le> Suc j \<and> Suc j < length (c # cs) \<and> match_here alts (prev_at prev (c # cs) (Suc j)) (drop (Suc j) (c # cs)) \<noteq> None"
          using j k0 by (simp add: prev_at_Cons)
        then show "\<exists>i. k \<le> i \<and> i < length (c # cs) \<and> match_here alts (prev_at prev (c # cs) i) (drop i (c # cs)) \<noteq> None"
          by blast
      next
        assume "\<exists>i. k \<le> i \<and> i < length (c # cs) \<and> match_here alts (prev_at prev (c # cs) i) (drop i (c # cs)) \<noteq> None"
        then obtain i where i: "i < length (c # cs)" "match_here alts (prev_at prev (c # cs) i) (drop i (c # cs)) \<noteq> None"
          by blast
        have "i \<noteq> 0"
        proof
          assume "i = 0"
          then show False using i(2) None by (simp add: prev_at_def)
        qed
        then obtain j where ij: "i = Suc j" by (cases i) auto
        have "0 \<le> j \<and> j < length cs \<and> match_here alts (prev_at (Some c) cs j) (drop j cs) \<noteq> None"
          using i ij by (simp add: prev_at_Cons)
        then show "\<exists>j. 0 \<le> j \<and> j < length cs \<and> match_here alts (prev_at (Some c) cs j) (drop j cs) \<noteq> None"
          by blast
      qed
      finally show ?thesis .
    qed
  qed
qed

lemma last_char_take: "i \<le> length s \<Longrightarrow> last_char None (take i s) = prev_at None s i"
  by (cases i) (auto simp: last_char_def prev_at_def last_conv_nth min_def)

lemma last_char_length: "last_char None pre = prev_at None (pre @ rest) (length pre)"
  by (cases pre rule: rev_cases) (auto simp: last_char_def prev_at_def nth_append)

lemma char_at_drop: "char_at (drop i s) j = char_at s (i + j)"
  by (auto simp: char_at_def)

lemma re_findall_nonempty:
  assumes "[] \<notin> set alts"
  shows "re_findall alts s \<noteq> [] \<longleftrightarrow> (\<exists>lit \<in> set alts. phrase_occurs lit s)"
proof
  assume "re_findall alts s \<noteq> []"
  then obtain i where i: "i < length s" "match_here alts (prev_at None s i) (drop i s) \<noteq> None"
    by (auto simp: re_findall_def findall_from_nonempty)
  then obtain lit where lit: "lit \<in> set alts" "word_boundary (prev_at None s i) (char_at (drop i s) 0)"
    "startswith (drop i s) lit" "word_boundary (last_char (prev_at None s i) lit) (char_at (drop i s) (length lit))"
    unfolding match_here_iff by blast
  from lit(3) obtain post where post: "drop i s = lit @ post" by (auto simp: startswith_iff)
  have s: "s = take i s @ lit @ post" using post by (metis append_take_drop_id)
  have pre: "last_char None (take i s) = prev_at None s i" using i(1) by (simp add: last_char_take)
  have "char_at (drop i s) (length lit) = char_at post 0"
    by (simp add: post char_at_def nth_append)
  then have "phrase_occurs lit s"
    unfolding phrase_occurs_def using s pre lit(2,4) post
    by (intro exI[of _ "take i s"] exI[of _ post]) simp
  then show "\<exists>lit \<in> set alts. phrase_occurs lit s" using lit(1) by blast
next
  assume "\<exists>lit \<in> set alts. phrase_occurs lit s"
  then obtain lit pre post where lit: "lit \<in> set alts" "s = pre @ lit @ post"
    "word_boundary (last_char None pre) (char_at (lit @ post) 0)"
    "word_boundary (last_char (last_char None pre) lit) (char_at post 0)"
    by (auto simp: phrase_occurs_def)
  have ne: "lit \<noteq> []" using assms lit(1) by auto
  have d: "drop (length pre) s = lit @ post" using lit(2) by simp
  have p: "prev_at None s (length pre) = last_char None pre"
    using last_char_length[of pre "lit @ post"] lit(2) by simp
  have c: "char_at (lit @ post) (length lit) = char_at post 0"
    by (simp add: char_at_def nth_append)
  have "match_here alts (prev_at None s (length pre)) (drop (length pre) s) \<noteq> None"
    unfolding match_here_iff d p using lit(1,3,4) c by (auto simp: startswith_iff)
  moreover have "length pre < length s" using lit(2) ne by simp
  ultimately show "re_findall alts s \<noteq> []"
    unfolding re_findall_def findall_from_nonempty by blast
qed

section \<open>Crisis screening\<close>

lemma no_empty_alternativeD:
  assumes "no_empty_alternative table" "(category, patterns) \<in> set table" "alts \<in> set patterns"
  shows "[] \<notin> set alts"
proof -
  have "\<forall>x \<in> set table. case x of (category, patterns) \<Rightarrow>
          \<forall>alts \<in> set patterns. \<forall>lit \<in> set alts. lit \<noteq> []"
    using assms(1) unfolding no_empty_alternative_def list_all_iff .
  then have "case (category, patterns) of (category, patterns) \<Rightarrow>
          \<forall>alts \<in> set patterns. \<forall>lit \<in> set alts. lit \<noteq> []"
    using assms(2) by (rule bspec)
  then have "\<forall>lit \<in> set alts. lit \<noteq> []" using assms(3) by simp
  then show ?thesis by blast
qed

lemma category_found_mem:
  "(c, m) \<in> set (category_found category patterns t) \<longleftrightarrow>
     c = category \<and> (\<exists>alts \<in> set patterns. m \<in> set (re_findall alts t))"
  unfolding category_found_def by auto

lemma risk_found_mem:
  "(c, m) \<in> set (risk_found table t) \<longleftrightarrow>
     (\<exists>patterns alts. (c, patterns) \<in> set table \<and> alts \<in> set patterns \<and> m \<in> set (re_findall alts t))"
proof
  assume "(c, m) \<in> set (risk_found table t)"
  then obtain x where x: "x \<in> set table" "(c, m) \<in> set (case x of (category, patterns) \<Rightarrow> category_found category patterns t)"
    unfolding risk_found_def by auto
  obtain category patterns where xp: "x = (category, patterns)" by (cases x)
  have "c = category \<and> (\<exists>alts \<in> set patterns. m \<in> set (re_findall alts t))"
    using x(2) unfolding xp by (simp add: category_found_mem)
  then show "\<exists>patterns alts. (c, patterns) \<in> set table \<and> alts \<in> set patterns \<and> m \<in> set (re_findall alts t)"
    using x(1) xp by blast
next
  assume "\<exists>patterns alts. (c, patterns) \<in> set table \<and> alts \<in> set patterns \<and> m \<in> set (re_findall alts t)"
  then obtain patterns alts where pa: "(c, patterns) \<in> set table" "alts \<in> set patterns" "m \<in> set (re_findall alts t)"
    by blast
  have "(c, m) \<in> set (category_found c patterns t)"
    using pa(2,3) by (auto simp: category_found_mem)
  then have "(c, m) \<in> set (case (c, patterns) of (category, patterns) \<Rightarrow> category_found category patterns t)"
    by simp
  then show "(c, m) \<in> set (risk_found table t)"
    unfolding risk_found_def using pa(1) by (metis (no_types, lifting) UN_I set_concat set_map image_eqI)
qed

lemma risk_found_categories:
  "set (map fst (risk_found table t)) =
     {category. \<exists>patterns alts. (category, patterns) \<in> set table \<and> alts \<in> set patterns
                  \<and> re_findall alts t \<noteq> []}"
proof -
  have "c \<in> set (map fst (risk_found table t)) \<longleftrightarrow>
        (\<exists>patterns alts. (c, patterns) \<in> set table \<and> alts \<in> set patterns \<and> re_findall alts t \<noteq> [])" for c
  proof -
    have "c \<in> set (map fst (risk_found table t)) \<longleftrightarrow> (\<exists>m. (c, m) \<in> set (risk_found table t))"
      by force
    also have "\<dots> \<longleftrightarrow> (\<exists>patterns alts. (c, patterns) \<in> set table \<and> alts \<in> set patterns \<and> (\<exists>m. m \<in> set (re_findall alts t)))"
      unfolding risk_found_mem by blast
    also have "\<dots> \<longleftrightarrow> (\<exists>patterns alts. (c, patterns) \<in> set table \<and> alts \<in> set patterns \<and> re_findall alts t \<noteq> [])"
      by (simp add: ex_in_conv)
    finally show ?thesis .
  qed
  then show ?thesis by blast
qed

lemma risk_found_category_match:
  assumes "no_empty_alternative table"
  shows "set (map fst (risk_found table (lower text))) = {category. category_match table text category}"
proof -
  have "(\<exists>patterns alts. (category, patterns) \<in> set table \<and> alts \<in> set patterns
           \<and> re_findall alts (lower text) \<noteq> [])
        \<longleftrightarrow> category_match table text category" for category
  proof
    assume "\<exists>patterns alts. (category, patterns) \<in> set table \<and> alts \<in> set patterns
              \<and> re_findall alts (lower text) \<noteq> []"
    then obtain patterns alts where pa: "(category, patterns) \<in> set table" "alts \<in> set patterns"
      "re_findall alts (lower text) \<noteq> []" by blast
    have "[] \<notin> set alts" using assms pa(1,2) by (rule no_empty_alternativeD)
    then obtain lit where "lit \<in> set alts" "phrase_occurs lit (lower text)"
      using pa(3) re_findall_nonempty by blast
    then show "category_match table text category"
      unfolding category_match_def using pa(1,2) by blast
  next
    assume "category_match table text category"
    then obtain patterns alts lit where pa: "(category, patterns) \<in> set table" "alts \<in> set patterns"
      "lit \<in> set alts" "phrase_occurs lit (lower text)"
      unfolding category_match_def by blast
    have "[] \<notin> set alts" using assms pa(1,2) by (rule no_empty_alternativeD)
    then have "re_findall alts (lower text) \<noteq> []"
      using pa(3,4) re_findall_nonempty by blast
    then show "\<exists>patterns alts. (category, patterns) \<in> set table \<and> alts \<in> set patterns
              \<and> re_findall alts (lower text) \<noteq> []"
      using pa(1,2) by blast
  qed
  then show ?thesis unfolding risk_found_categories by simp
qed

lemma risk_found_tier_match:
  assumes "no_empty_alternative table"
  shows "risk_found table (lower text) \<noteq> [] \<longleftrightarrow> tier_match table text"
proof -
  have "risk_found table (lower text) \<noteq> [] \<longleftrightarrow> set (map fst (risk_found table (lower text))) \<noteq> {}"
    by simp
  also have "\<dots> \<longleftrightarrow> tier_match table text"
    unfolding risk_found_category_match[OF assms] tier_match_def by blast
  finally show ?thesis .
qed

lemma high_risk_no_empty: "no_empty_alternative high_risk_patterns"
  by (simp add: no_empty_alternative_def high_risk_patterns_def)

lemma medium_risk_no_empty: "no_empty_alternative medium_risk_patterns"
  by (simp add: no_empty_alternative_def medium_risk_patterns_def)

text \<open>
  C8. Crisis screening is a function of the text alone, with tiered precedence: a
  whole-word occurrence of any high-tier phrase (suicidal ideation, self-harm,
  hopelessness) in the lower-cased text gives level high, whatever the medium tier says;
  with no high-tier occurrence, a medium-tier (severe distress) occurrence gives level
  medium; with neither, the level is none. The reported categories are exactly the
  categories with an occurrence, and the boolean API is true exactly for high and medium.
\<close>

theorem crisis_screen_tiered_precedence:
  "crisis_level (detect_crisis_level text) =
     (if tier_match high_risk_patterns text then ''high''
      else if tier_match medium_risk_patterns text then ''medium''
      else ''none'')
   \<and> categories (detect_crisis_level text) =
       {category. category_match high_risk_patterns text category
                  \<or> category_match medium_risk_patterns text category}
   \<and> detect_crisis_keywords text =
       (tier_match high_risk_patterns text \<or> tier_match medium_risk_patterns text)"
proof -
  have h: "risk_found high_risk_patterns (lower text) \<noteq> [] \<longleftrightarrow> tier_match high_risk_patterns text"
    by (rule risk_found_tier_match[OF high_risk_no_empty])
  have m: "risk_found medium_risk_patterns (lower text) \<noteq> [] \<longleftrightarrow> tier_match medium_risk_patterns text"
    by (rule risk_found_tier_match[OF medium_risk_no_empty])
  have c: "set (map fst (risk_found high_risk_patterns (lower text) @ risk_found medium_risk_patterns (lower text)))
           = {category. category_match high_risk_patterns text category
                  \<or> category_match medium_risk_patterns text category}"
    using risk_found_category_match[OF high_risk_no_empty, of "text"]
          risk_found_category_match[OF medium_risk_no_empty, of "text"]
    by auto
  have lvl: "crisis_level (detect_crisis_level text) =
     (if tier_match high_risk_patterns text then ''high''
      else if tier_match medium_risk_patterns text then ''medium''
      else ''none'')"
    using h m by (simp add: detect_crisis_level_def Let_def)
  have cats: "categories (detect_crisis_level text) =
       {category. category_match high_risk_patterns text category
                  \<or> category_match medium_risk_patterns text category}"
  proof -
    have "categories (detect_crisis_level text) =
          set (map fst (risk_found high_risk_patterns (lower text) @ risk_found medium_risk_patterns (lower text)))"
      by (simp add: detect_crisis_level_def Let_def)
    then show ?thesis using c by simp
  qed
  have kw: "detect_crisis_keywords text =
       (tier_match high_risk_patterns text \<or> tier_match medium_risk_patterns text)"
    unfolding detect_crisis_keywords_def lvl by simp
  show ?thesis using lvl cats kw by blast
qed

section \<open>Rating extraction\<close>

lemma digit_token_iff: "digit_token s \<longleftrightarrow> (\<exists>lit \<in> set rating_pattern. phrase_occurs lit s)"
  unfolding digit_token_def by (rule re_findall_nonempty) (simp add: rating_pattern_def)

lemma str_in_iff: "str_in w s \<longleftrightarrow> (\<exists>pre post. s = pre @ w @ post)"
proof (induction s)
  case Nil
  then show ?case by auto
next
  case (Cons c cs)
  show ?case
  proof
    assume "str_in w (c # cs)"
    then consider "startswith (c # cs) w" | "str_in w cs" by auto
    then show "\<exists>pre post. c # cs = pre @ w @ post"
    proof cases
      case 1
      then obtain post where "c # cs = w @ post" by (auto simp: startswith_iff)
      then have "c # cs = [] @ w @ post" by simp
      then show ?thesis by blast
    next
      case 2
      then obtain pre post where "cs = pre @ w @ post" using Cons.IH by blast
      then have "c # cs = (c # pre) @ w @ post" by simp
      then show ?thesis by blast
    qed
  next
    assume "\<exists>pre post. c # cs = pre @ w @ post"
    then obtain pre post where pp: "c # cs = pre @ w @ post" by blast
    show "str_in w (c # cs)"
    proof (cases pre)
      case Nil
      then have "startswith (c # cs) w" using pp by (auto simp: startswith_iff)
      then show ?thesis by simp
    next
      case (Cons d pre')
      then have "cs = pre' @ w @ post" using pp by simp
      then have "str_in w cs" using Cons.IH by blast
      then show ?thesis by simp
    qed
  qed
qed

lemma match_here_in_alts: "match_here alts prev s = Some m \<Longrightarrow> m \<in> set alts"
  by (auto simp: match_here_def find_Some_iff split: if_splits)

lemma findall_from_subset: "set (findall_from alts prev k s) \<subseteq> set alts"
proof (induction s arbitrary: prev k)
  case Nil
  then show ?case by simp
next
  case (Cons c cs)
  then show ?case
    by (auto split: option.splits dest: match_here_in_alts)
qed

lemma rating_pattern_values: "list_all (\<lambda>n. 1 \<le> int_of_str n \<and> int_of_str n \<le> 10) rating_pattern"
  by code_simp

text \<open>
  C10. Rating extraction gives digit tokens precedence: when the text has a
  word-boundary-delimited number 1 to 10, the first such token is the result; only
  without one are the English number words looked for, by substring containment in the
  lower-cased text and in dictionary order starting at \<^verbatim>\<open>one\<close>. So a text without a
  digit token that contains \<^verbatim>\<open>one\<close> inside another word (none, money) is rated 1.
\<close>

theorem extract_anxiety_rating_digits_first:
  "(digit_token s \<longrightarrow>
      extract_anxiety_rating s = Some (int_of_str (hd (re_findall rating_pattern s)))
      \<and> hd (re_findall rating_pattern s) \<in> set rating_pattern)
   \<and> (\<not> digit_token s \<longrightarrow>
      extract_anxiety_rating s
        = map_option snd (find (\<lambda>(word, rating). str_in word (lower s)) word_ratings))
   \<and> (\<not> digit_token s \<and> str_in ''one'' (lower s) \<longrightarrow> extract_anxiety_rating s = Some 1)"
proof (intro conjI impI)
  assume d: "digit_token s"
  then obtain n ns where n: "re_findall rating_pattern s = n # ns"
    unfolding digit_token_def by (cases "re_findall rating_pattern s") auto
  show "extract_anxiety_rating s = Some (int_of_str (hd (re_findall rating_pattern s)))"
    using n by (simp add: extract_anxiety_rating_def)
  have "n \<in> set (findall_from rating_pattern None 0 s)" using n by (simp add: re_findall_def)
  then show "hd (re_findall rating_pattern s) \<in> set rating_pattern"
    using findall_from_subset n by fastforce
next
  assume "\<not> digit_token s"
  then show "extract_anxiety_rating s
        = map_option snd (find (\<lambda>(word, rating). str_in word (lower s)) word_ratings)"
    by (simp add: digit_token_def extract_anxiety_rating_def)
next
  assume "\<not> digit_token s \<and> str_in ''one'' (lower s)"
  then show "extract_anxiety_rating s = Some 1"
    by (simp add: digit_token_def extract_anxiety_rating_def word_ratings_def)
qed

theorem extract_anxiety_rating_digits_first_witness:
  "extract_anxiety_rating ''none'' = Some 1
   \<and> extract_anxiety_rating ''Money worries'' = Some 1
   \<and> extract_anxiety_rating ''about two, no 7'' = Some 7"
proof -
  have a: "\<not> digit_token ''none'' \<and> str_in ''one'' (lower ''none'')" by code_simp
  have b: "\<not> digit_token ''Money worries'' \<and> str_in ''one'' (lower ''Money worries'')" by code_simp
  have c: "digit_token ''about two, no 7''" by code_simp
  have d: "int_of_str (hd (re_findall rating_pattern ''about two, no 7'')) = 7" by code_simp
  have t1: "extract_anxiety_rating ''none'' = Some 1"
    using extract_anxiety_rating_digits_first[of "''none''"] a by blast
  have t2: "extract_anxiety_rating ''Money worries'' = Some 1"
    using extract_anxiety_rating_digits_first[of "''Money worries''"] b by blast
  have "extract_anxiety_rating ''about two, no 7''
          = Some (int_of_str (hd (re_findall rating_pattern ''about two, no 7'')))"
    using extract_anxiety_rating_digits_first[of "''about two, no 7''"] c by blast
  then have t3: "extract_anxiety_rating ''about two, no 7'' = Some 7"
    by (simp only: d)
  show ?thesis using t1 t2 t3 by blast
qed

section \<open>Step sequences\<close>

text \<open>
  C9, as stated, fails: the decision-making flow's sequence has no step of kind
  \<^verbatim>\<open>effectiveness_check\<close>.
\<close>

theorem decision_making_has_no_effectiveness_check:
  "\<not> has_effectiveness_check DecisionMakingFlow_steps"
  by (simp add: has_effectiveness_check_def DecisionMakingFlow_steps_def)

text \<open>
  C9, amended. A flow's step sequence contains a step of kind \<^verbatim>\<open>effectiveness_check\<close>
  exactly when the flow is the panic flow or the general fallback flow; there it is the
  last step and the only one. The sequences of the sleep, pre-event, isolation,
  uncertainty, decision-making and physical-triggers flows contain none.
\<close>

theorem effectiveness_check_only_in_panic_and_general:
  "has_effectiveness_check (clinical_steps (new_flow now c))
     = (c = AcuteAnxietyFlow \<or> c = GeneralAnxietyFlow)
   \<and> (has_effectiveness_check (clinical_steps (new_flow now c))
        = (step_type (last (clinical_steps (new_flow now c))) = ''effectiveness_check''))
   \<and> length (filter (\<lambda>step. step_type step = ''effectiveness_check'')
                (clinical_steps (new_flow now c))) \<le> 1"
  by (cases c)
     (simp_all add: has_effectiveness_check_def new_flow_def AcuteAnxietyFlow_steps_def
        NighttimeFlow_steps_def PreEventFlow_steps_def IsolationFlow_steps_def
        UncertaintyFlow_steps_def DecisionMakingFlow_steps_def PhysicalTriggersFlow_steps_def
        GeneralAnxietyFlow_steps_def)

section \<open>Crisis replies\<close>

text \<open>
  C3. Every crisis reply, the manager's (whatever the lookup of additional resources
  returned, a result list or an exception) and the flow's own, offers the three core
  resources with name and contact (emergency services, the crisis text line, the
  suicide-prevention lifeline), carries a true flag that disables free-form replies and a
  true immediate-escalation flag, and is tagged \<^verbatim>\<open>flow_type = 'crisis_override'\<close>.
\<close>

theorem crisis_reply_core_resources:
  "(let reply = fst (activate_crisis_override search now m user_id crisis_text);
        resources = dict_get reply ''crisis_resources'' PNone
    in offers resources ''Emergency Services'' ''911''
       \<and> offers resources ''Crisis Text Line'' ''Text HOME to 741741''
       \<and> offers resources ''National Suicide Prevention Lifeline'' ''988''
       \<and> dict_get reply ''disable_free_form_responses'' PNone = PBool True
       \<and> dict_get reply ''immediate_escalation'' PNone = PBool True
       \<and> dict_get reply ''flow_type'' PNone = PStr ''crisis_override'')
   \<and> (let reply = fst (activate_crisis_protocol f);
        resources = dict_get reply ''crisis_resources'' PNone
    in offers resources ''Emergency Services'' ''911''
       \<and> offers resources ''Crisis Text Line'' ''Text HOME to 741741''
       \<and> offers resources ''National Suicide Prevention Lifeline'' ''988''
       \<and> dict_get reply ''disable_free_form'' PNone = PBool True
       \<and> dict_get reply ''immediate_escalation'' PNone = PBool True
       \<and> dict_get reply ''flow_type'' PNone = PStr ''crisis_override'')"
  by (simp add: activate_crisis_override_def activate_crisis_protocol_def Let_def dict_get_def
      offers_def)

section \<open>What a step may change\<close>

text \<open>
  No step method of any class changes the step index; the flow's
  \<^verbatim>\<open>process_user_input\<close> leaves it or adds one.
\<close>

lemma complete_snd:
  "snd (complete_clinical_flow now f) = f\<lparr>state := (state f)\<lparr>completion_status := ''completed''\<rparr>\<rparr>"
  by (simp add: complete_clinical_flow_def Let_def)

lemma get_current_step_response_keeps:
  "cls (snd (get_current_step_response kb now f)) = cls f
   \<and> current_step (state (snd (get_current_step_response kb now f))) = current_step (state f)"
  by (cases "cls f")
     (simp_all add: get_current_step_response_def
        ClinicalTherapeuticFlow_get_current_step_response_def
        NighttimeFlow_get_current_step_response_def PreEventFlow_get_current_step_response_def
        IsolationFlow_get_current_step_response_def UncertaintyFlow_get_current_step_response_def
        PhysicalTriggersFlow_get_current_step_response_def
        Let_def split_beta complete_snd)

lemma AcuteAnxietyFlow_keeps_step:
  "current_step (state (snd (AcuteAnxietyFlow_process_clinical_step kb now f user_input)))
     = current_step (state f)"
  by (simp add: AcuteAnxietyFlow_process_clinical_step_def AcuteAnxietyFlow_default_response_def
        AcuteAnxietyFlow_step_0_def AcuteAnxietyFlow_step_1_def AcuteAnxietyFlow_step_2_def AcuteAnxietyFlow_step_3_def AcuteAnxietyFlow_step_4_def AcuteAnxietyFlow_step_5_def AcuteAnxietyFlow_step_6_def
        ClinicalTherapeuticFlow_get_current_step_response_def
        Let_def split_beta complete_snd split: option.splits)

lemma NighttimeFlow_keeps_step:
  "current_step (state (snd (NighttimeFlow_process_clinical_step kb now f user_input)))
     = current_step (state f)"
  by (simp add: NighttimeFlow_process_clinical_step_def NighttimeFlow_default_response_def
        NighttimeFlow_step_0_def NighttimeFlow_step_1_def NighttimeFlow_step_2_def NighttimeFlow_step_3_def NighttimeFlow_step_4_def NighttimeFlow_step_5_def NighttimeFlow_step_6_def
        NighttimeFlow_get_current_step_response_def
        Let_def split_beta complete_snd split: option.splits)

lemma PreEventFlow_keeps_step:
  "current_step (state (snd (PreEventFlow_process_clinical_step kb now f user_input)))
     = current_step (state f)"
  by (simp add: PreEventFlow_process_clinical_step_def PreEventFlow_default_response_def
        PreEventFlow_step_0_def PreEventFlow_step_1_def PreEventFlow_step_2_def PreEventFlow_step_3_def PreEventFlow_step_4_def PreEventFlow_step_5_def
        PreEventFlow_get_current_step_response_def
        Let_def split_beta complete_snd split: option.splits)

lemma IsolationFlow_keeps_step:
  "current_step (state (snd (IsolationFlow_process_clinical_step kb now f user_input)))
     = current_step (state f)"
  by (simp add: IsolationFlow_process_clinical_step_def IsolationFlow_default_response_def
        IsolationFlow_step_0_def IsolationFlow_step_1_def IsolationFlow_step_2_def IsolationFlow_step_3_def IsolationFlow_step_4_def IsolationFlow_step_5_def IsolationFlow_step_6_def
        IsolationFlow_get_current_step_response_def
        Let_def split_beta complete_snd split: option.splits)

lemma UncertaintyFlow_keeps_step:
  "current_step (state (snd (UncertaintyFlow_process_clinical_step kb now f user_input)))
     = current_step (state f)"
  by (simp add: UncertaintyFlow_process_clinical_step_def UncertaintyFlow_default_response_def
        UncertaintyFlow_step_0_def UncertaintyFlow_step_1_def UncertaintyFlow_step_2_def UncertaintyFlow_step_3_def UncertaintyFlow_step_4_def UncertaintyFlow_step_5_def UncertaintyFlow_step_6_def
        UncertaintyFlow_get_current_step_response_def
        Let_def split_beta complete_snd split: option.splits)

lemma DecisionMakingFlow_keeps_step:
  "current_step (state (snd (DecisionMakingFlow_process_clinical_step kb now f user_input)))
     = current_step (state f)"
  by (simp add: DecisionMakingFlow_process_clinical_step_def DecisionMakingFlow_default_response_def
        DecisionMakingFlow_step_0_def DecisionMakingFlow_step_1_def DecisionMakingFlow_step_2_def DecisionMakingFlow_step_3_def DecisionMakingFlow_step_4_def DecisionMakingFlow_step_5_def DecisionMakingFlow_step_6_def
        ClinicalTherapeuticFlow_get_current_step_response_def
        Let_def split_beta complete_snd split: option.splits)

lemma PhysicalTriggersFlow_keeps_step:
  "current_step (state (snd (PhysicalTriggersFlow_process_clinical_step kb now f user_input)))
     = current_step (state f)"
  by (simp add: PhysicalTriggersFlow_process_clinical_step_def PhysicalTriggersFlow_default_response_def
        PhysicalTriggersFlow_step_0_def PhysicalTriggersFlow_step_1_def PhysicalTriggersFlow_step_2_def PhysicalTriggersFlow_step_3_def PhysicalTriggersFlow_step_4_def PhysicalTriggersFlow_step_5_def PhysicalTriggersFlow_step_6_def
        PhysicalTriggersFlow_get_current_step_response_def
        Let_def split_beta complete_snd split: option.splits)


lemma process_clinical_step_keeps_step:
  "current_step (state (snd (process_clinical_step kb now f user_input)))
     = current_step (state f)"
  by (cases "cls f")
     (simp_all add: process_clinical_step_def AcuteAnxietyFlow_keeps_step
        NighttimeFlow_keeps_step PreEventFlow_keeps_step IsolationFlow_keeps_step
        UncertaintyFlow_keeps_step DecisionMakingFlow_keeps_step PhysicalTriggersFlow_keeps_step
        get_current_step_response_keeps)

lemma base_process_user_input_step_bounds:
  "current_step (state f)
     \<le> current_step (state (snd (ClinicalTherapeuticFlow_process_user_input kb now f user_input)))
   \<and> current_step (state (snd (ClinicalTherapeuticFlow_process_user_input kb now f user_input)))
     \<le> current_step (state f) + 1"
proof -
  define g where "g = f\<lparr>state := (state f)\<lparr>user_responses :=
      AList.update (current_step (state f))
        [(''input'', PStr user_input), (''timestamp'', PStr (isoformat now)),
         (''safety_screened'', PBool True),
         (''step_intervention'',
            PStr (if current_step (state f) < length (clinical_steps f)
                  then intervention (clinical_steps f ! current_step (state f))
                  else ''completed''))]
        (user_responses (state f))\<rparr>\<rparr>"
  have g: "current_step (state g) = current_step (state f)" by (simp add: g_def)
  have k: "current_step (state (snd (process_clinical_step kb now g user_input)))
             = current_step (state f)"
    by (simp add: process_clinical_step_keeps_step g)
  show ?thesis
    using k unfolding g_def
    by (simp add: ClinicalTherapeuticFlow_process_user_input_def Let_def split_beta
        activate_crisis_protocol_def)
qed

lemma process_user_input_step_bounds:
  "case process_user_input kb now f user_input of
     Inl e \<Rightarrow> True
   | Inr (reply, f') \<Rightarrow>
       current_step (state f) \<le> current_step (state f')
       \<and> current_step (state f') \<le> current_step (state f) + 1"
proof (cases "cls f = GeneralAnxietyFlow")
  case True
  then show ?thesis
    by (simp add: process_user_input_def GeneralAnxietyFlow_process_user_input_def Let_def
        GeneralAnxietyFlow_step_0_def GeneralAnxietyFlow_step_1_def GeneralAnxietyFlow_step_2_def
        GeneralAnxietyFlow_step_3_def GeneralAnxietyFlow_step_4_def complete_snd split_beta
        split: option.splits)
next
  case False
  have base: "process_user_input kb now f user_input
                = Inr (ClinicalTherapeuticFlow_process_user_input kb now f user_input)"
    using False by (cases "cls f") (simp_all add: process_user_input_def)
  show ?thesis
    unfolding base using base_process_user_input_step_bounds[of f kb now user_input]
    by (simp add: split_beta)
qed

section \<open>Processing a flow that is past its last step\<close>

lemma process_clinical_step_past_end:
  assumes "length (clinical_steps f) \<le> current_step (state f)" "cls f \<noteq> GeneralAnxietyFlow"
  shows "process_clinical_step kb now f user_input = complete_clinical_flow now f"
  using assms
  by (cases "cls f")
     (simp_all add: process_clinical_step_def AcuteAnxietyFlow_process_clinical_step_def
        NighttimeFlow_process_clinical_step_def PreEventFlow_process_clinical_step_def
        IsolationFlow_process_clinical_step_def UncertaintyFlow_process_clinical_step_def
        DecisionMakingFlow_process_clinical_step_def PhysicalTriggersFlow_process_clinical_step_def)

lemma complete_fst_advance:
  "dict_get (fst (complete_clinical_flow now f)) ''advance_step'' d = d"
  by (simp add: complete_clinical_flow_def Let_def dict_get_def)

lemma complete_fst_message:
  "truthy (dict_get (fst (complete_clinical_flow now f)) ''message'' PNone)"
  by (simp add: complete_clinical_flow_def Let_def dict_get_def)

lemma complete_fst_flow_completed:
  "dict_get (fst (complete_clinical_flow now f)) ''flow_completed'' PNone = PBool True"
  by (simp add: complete_clinical_flow_def Let_def dict_get_def)

lemma complete_fst_user_responses:
  "fst (complete_clinical_flow now (f\<lparr>state := (state f)\<lparr>user_responses := x\<rparr>\<rparr>))
     = fst (complete_clinical_flow now f)"
  by (simp add: complete_clinical_flow_def Let_def get_clinical_resources_def has_retriever_def)


lemma base_process_past_end:
  assumes "cls f \<noteq> GeneralAnxietyFlow"
    and "length (clinical_steps f) \<le> current_step (state f)"
    and "\<not> detect_crisis_keywords user_input"
  shows "ClinicalTherapeuticFlow_process_user_input kb now f user_input =
           (fst (complete_clinical_flow now f),
            f\<lparr>state := (state f)
                 \<lparr>current_step := current_step (state f) + 1,
                  user_responses :=
                    AList.update (current_step (state f))
                      [(''input'', PStr user_input), (''timestamp'', PStr (isoformat now)),
                       (''safety_screened'', PBool True),
                       (''step_intervention'', PStr ''completed'')]
                      (user_responses (state f)),
                  completion_status := ''completed'',
                  content_retrievals := content_retrievals (state f) + 1\<rparr>\<rparr>)"
  using assms
  by (simp add: ClinicalTherapeuticFlow_process_user_input_def Let_def split_beta
        process_clinical_step_past_end complete_snd complete_fst_advance complete_fst_message
        complete_fst_user_responses has_retriever_def)

text \<open>
  C7, amended. When \<^verbatim>\<open>process_user_input\<close> is called, with a text that matches no
  crisis pattern, on a flow whose step index is already at or past the end of its step
  sequence (any flow but the general fallback flow, which has its own method), it returns
  the completion reply and marks the flow completed; the effectiveness ratings, the safety
  flags and the step sequence stay as they were, and the input is recorded under the
  current step index with the intervention tag \<^verbatim>\<open>completed\<close>.
\<close>

theorem process_past_end_completion_reply:
  assumes "cls f \<noteq> GeneralAnxietyFlow"
    and "length (clinical_steps f) \<le> current_step (state f)"
    and "\<not> detect_crisis_keywords user_input"
  shows "case process_user_input kb now f user_input of
           Inl e \<Rightarrow> False
         | Inr (reply, f') \<Rightarrow>
             reply = fst (complete_clinical_flow now f)
             \<and> dict_get reply ''flow_completed'' PNone = PBool True
             \<and> completion_status (state f') = ''completed''
             \<and> effectiveness_ratings (state f') = effectiveness_ratings (state f)
             \<and> safety_flags (state f') = safety_flags (state f)
             \<and> clinical_steps f' = clinical_steps f
             \<and> map_of (user_responses (state f')) (current_step (state f))
                 = Some [(''input'', PStr user_input),
                         (''timestamp'', PStr (isoformat now)),
                         (''safety_screened'', PBool True),
                         (''step_intervention'', PStr ''completed'')]"
proof -
  have base: "process_user_input kb now f user_input
                = Inr (ClinicalTherapeuticFlow_process_user_input kb now f user_input)"
    using assms(1) by (cases "cls f") (simp_all add: process_user_input_def)
  show ?thesis
    unfolding base base_process_past_end[OF assms]
    by (simp add: complete_fst_flow_completed update_conv')
qed

theorem process_past_end_completion_reply_witness:
  "\<not> detect_crisis_keywords ''thanks''
   \<and> dict_get (fst (ClinicalTherapeuticFlow_process_user_input empty_knowledge_base clock0
                      (flow_at DecisionMakingFlow 7) ''thanks'')) ''flow_completed'' PNone
       = PBool True
   \<and> completion_status (state (snd (ClinicalTherapeuticFlow_process_user_input
         empty_knowledge_base clock0 (flow_at DecisionMakingFlow 7) ''thanks''))) = ''completed''"
proof -
  have c: "\<not> detect_crisis_keywords ''thanks''" by code_simp
  have a: "cls (flow_at DecisionMakingFlow 7) \<noteq> GeneralAnxietyFlow"
    by (simp add: flow_at_def new_flow_def)
  have b: "length (clinical_steps (flow_at DecisionMakingFlow 7))
             \<le> current_step (state (flow_at DecisionMakingFlow 7))"
    by (simp add: flow_at_def new_flow_def DecisionMakingFlow_steps_def)
  have p: "process_user_input empty_knowledge_base clock0 (flow_at DecisionMakingFlow 7) ''thanks''
           = Inr (ClinicalTherapeuticFlow_process_user_input empty_knowledge_base clock0
                    (flow_at DecisionMakingFlow 7) ''thanks'')"
    by (simp add: process_user_input_def flow_at_def new_flow_def)
  have "dict_get (fst (ClinicalTherapeuticFlow_process_user_input empty_knowledge_base clock0
                      (flow_at DecisionMakingFlow 7) ''thanks'')) ''flow_completed'' PNone
          = PBool True
        \<and> completion_status (state (snd (ClinicalTherapeuticFlow_process_user_input
            empty_knowledge_base clock0 (flow_at DecisionMakingFlow 7) ''thanks''))) = ''completed''"
    using process_past_end_completion_reply[OF a b c, where kb = empty_knowledge_base and now = clock0]
    unfolding p by (simp add: split_beta complete_fst_flow_completed)
  then show ?thesis using c by blast
qed

text \<open>
  C7, as stated, fails: a panic flow at step 7 of 7 that is processed once more stores a
  response record and moves its step index to 8.
\<close>

theorem process_past_end_mutates_state:
  "length (clinical_steps (flow_at AcuteAnxietyFlow 7))
     \<le> current_step (state (flow_at AcuteAnxietyFlow 7))
   \<and> \<not> detect_crisis_keywords ''ok''
   \<and> user_responses (state (flow_at AcuteAnxietyFlow 7)) = []
   \<and> user_responses (state (snd (ClinicalTherapeuticFlow_process_user_input
        empty_knowledge_base clock0 (flow_at AcuteAnxietyFlow 7) ''ok'')))
       = [(7, [(''input'', PStr ''ok''), (''timestamp'', PStr (isoformat clock0)),
               (''safety_screened'', PBool True), (''step_intervention'', PStr ''completed'')])]
   \<and> current_step (state (flow_at AcuteAnxietyFlow 7)) = 7
   \<and> current_step (state (snd (ClinicalTherapeuticFlow_process_user_input
        empty_knowledge_base clock0 (flow_at AcuteAnxietyFlow 7) ''ok''))) = 8"
proof -
  have c: "\<not> detect_crisis_keywords ''ok''" by code_simp
  have a: "cls (flow_at AcuteAnxietyFlow 7) \<noteq> GeneralAnxietyFlow"
    by (simp add: flow_at_def new_flow_def)
  have b: "length (clinical_steps (flow_at AcuteAnxietyFlow 7))
             \<le> current_step (state (flow_at AcuteAnxietyFlow 7))"
    by (simp add: flow_at_def new_flow_def AcuteAnxietyFlow_steps_def)
  have s: "current_step (state (flow_at AcuteAnxietyFlow 7)) = 7"
    "user_responses (state (flow_at AcuteAnxietyFlow 7)) = []"
    by (simp_all add: flow_at_def new_flow_def FlowState_def)
  show ?thesis
    unfolding base_process_past_end[OF a b c] using b c s by simp
qed

section \<open>The effectiveness-check step without a rating\<close>

lemma base_response_at_step:
  assumes "current_step (state f) < length (clinical_steps f)"
  shows "ClinicalTherapeuticFlow_get_current_step_response kb now f =
    (AList.update ''message''
       (PStr (''Continuing with '' @ flow_name f @ '' - step ''
                @ str_int (int (current_step (state f)) + 1)))
       [(''intervention_type'', PStr (intervention (clinical_steps f ! current_step (state f)))),
        (''step_number'', PInt (int (current_step (state f)) + 1)),
        (''total_steps'', PInt (int (length (clinical_steps f)))),
        (''flow_name'', PStr (flow_name f)),
        (''scenario'', PStr (scenario f)),
        (''requires_input'', PBool (requires_input (clinical_steps f ! current_step (state f)))),
        (''clinical_guidance'', PStr []),
        (''advance_step'', PBool True)],
     f)"
  using assms by (simp add: ClinicalTherapeuticFlow_get_current_step_response_def Let_def)

lemma panic_step_6_without_rating:
  assumes "extract_anxiety_rating user_input = None"
    and "cls f = AcuteAnxietyFlow" and "clinical_steps f = AcuteAnxietyFlow_steps"
    and "current_step (state f) = 6"
  shows "snd (process_clinical_step kb now f user_input) = f"
    and "dict_get (fst (process_clinical_step kb now f user_input)) ''advance_step'' d = PBool True"
    and "dict_get (fst (process_clinical_step kb now f user_input)) ''message'' d
           = PStr (''Continuing with '' @ flow_name f @ '' - step 7'')"
proof -
  have len: "length (clinical_steps f) = 7" by (simp add: assms(3) AcuteAnxietyFlow_steps_def)
  have lt: "current_step (state f) < length (clinical_steps f)" by (simp add: len assms(4))
  have seven: "str_int 7 = ''7''" by code_simp
  have step: "process_clinical_step kb now f user_input =
      AcuteAnxietyFlow_default_response kb now f
        (PDict [(''current_step'', PInt 7), (''total_steps'', PInt 7),
                (''intervention_type'', PStr (intervention (clinical_steps f ! 6)))])"
    using assms(1)
    by (simp add: process_clinical_step_def assms(2) AcuteAnxietyFlow_process_clinical_step_def
        len assms(4) Let_def AcuteAnxietyFlow_step_6_def)
  show "snd (process_clinical_step kb now f user_input) = f"
    unfolding step AcuteAnxietyFlow_default_response_def base_response_at_step[OF lt]
    by simp
  show "dict_get (fst (process_clinical_step kb now f user_input)) ''advance_step'' d = PBool True"
    unfolding step AcuteAnxietyFlow_default_response_def base_response_at_step[OF lt]
    by (simp add: dict_get_def update_conv')
  show "dict_get (fst (process_clinical_step kb now f user_input)) ''message'' d
           = PStr (''Continuing with '' @ flow_name f @ '' - step 7'')"
    unfolding step AcuteAnxietyFlow_default_response_def base_response_at_step[OF lt]
    by (simp add: dict_get_def update_conv' assms(4) seven)
qed

text \<open>
  C2 does not hold of the panic flow. At its effectiveness-check step (index 6), a text
  with no crisis pattern and no parseable rating falls through to the generic step
  response: the reply has \<^verbatim>\<open>advance_step\<close> true and the message
  \<^verbatim>\<open>Continuing with ... - step 7\<close> instead of a reprompt, and the step index moves
  to 7. No rating is appended.
\<close>

theorem panic_unparseable_rating_advances:
  assumes "\<not> detect_crisis_keywords user_input"
    and "extract_anxiety_rating user_input = None"
    and "cls f = AcuteAnxietyFlow" and "clinical_steps f = AcuteAnxietyFlow_steps"
    and "current_step (state f) = 6"
  shows "case process_user_input kb now f user_input of
           Inl e \<Rightarrow> False
         | Inr (reply, f') \<Rightarrow>
             dict_get reply ''advance_step'' PNone = PBool True
             \<and> dict_get reply ''message'' PNone
                 = PStr (''Continuing with '' @ flow_name f @ '' - step 7'')
             \<and> current_step (state f') = 7
             \<and> effectiveness_ratings (state f') = effectiveness_ratings (state f)"
proof -
  define g where "g = f\<lparr>state := (state f)\<lparr>user_responses :=
      AList.update (current_step (state f))
        [(''input'', PStr user_input), (''timestamp'', PStr (isoformat now)),
         (''safety_screened'', PBool True),
         (''step_intervention'',
            PStr (if current_step (state f) < length (clinical_steps f)
                  then intervention (clinical_steps f ! current_step (state f))
                  else ''completed''))]
        (user_responses (state f))\<rparr>\<rparr>"
  have g: "cls g = AcuteAnxietyFlow" "clinical_steps g = AcuteAnxietyFlow_steps"
    "current_step (state g) = 6" "flow_name g = flow_name f"
    "effectiveness_ratings (state g) = effectiveness_ratings (state f)"
    by (simp_all add: g_def assms)
  note st = panic_step_6_without_rating[OF assms(2) g(1,2,3), of kb now]
  have base: "process_user_input kb now f user_input
                = Inr (ClinicalTherapeuticFlow_process_user_input kb now f user_input)"
    by (simp add: process_user_input_def assms(3))
  have r: "ClinicalTherapeuticFlow_process_user_input kb now f user_input =
        (case process_clinical_step kb now g user_input of (response, f) \<Rightarrow>
              (let f = (if has_retriever f \<and> truthy (dict_get response ''message'' PNone)
                        then (let f = f\<lparr>state := (state f)\<lparr>content_retrievals :=
                                         content_retrievals (state f) + 1\<rparr>\<rparr>
                              in if current_step (state f) < length (clinical_steps f)
                                 then f\<lparr>state := (state f)\<lparr>dynamic_content_used :=
                                        dynamic_content_used (state f)
                                          @ [intervention (clinical_steps f ! current_step (state f))]\<rparr>\<rparr>
                                 else f)
                        else f);
                   f = (if truthy (dict_get response ''advance_step'' (PBool True))
                        then f\<lparr>state := (state f)\<lparr>current_step := current_step (state f) + 1\<rparr>\<rparr>
                        else f)
               in (response, f)))"
    using assms(1) unfolding g_def
    by (simp add: ClinicalTherapeuticFlow_process_user_input_def Let_def)
  show ?thesis
    unfolding base r
    by (simp add: split_beta Let_def st g has_retriever_def)
qed

theorem panic_unparseable_rating_advances_witness:
  "\<not> detect_crisis_keywords ''I don't know''
   \<and> extract_anxiety_rating ''I don't know'' = None
   \<and> current_step (state (flow_at AcuteAnxietyFlow 6)) = 6
   \<and> (case process_user_input empty_knowledge_base clock0 (flow_at AcuteAnxietyFlow 6) ''I don't know'' of
         Inl e \<Rightarrow> False
       | Inr (reply, f') \<Rightarrow>
           dict_get reply ''advance_step'' PNone = PBool True
           \<and> dict_get reply ''message'' PNone
               = PStr ''Continuing with Acute Anxiety Support - step 7''
           \<and> current_step (state f') = 7
           \<and> effectiveness_ratings (state f') = [])"
proof -
  have a: "\<not> detect_crisis_keywords ''I don't know''" by code_simp
  have b: "extract_anxiety_rating ''I don't know'' = None" by code_simp
  have c: "cls (flow_at AcuteAnxietyFlow 6) = AcuteAnxietyFlow"
    "clinical_steps (flow_at AcuteAnxietyFlow 6) = AcuteAnxietyFlow_steps"
    "current_step (state (flow_at AcuteAnxietyFlow 6)) = 6"
    "flow_name (flow_at AcuteAnxietyFlow 6) = ''Acute Anxiety Support''"
    "effectiveness_ratings (state (flow_at AcuteAnxietyFlow 6)) = []"
    by (simp_all add: flow_at_def new_flow_def FlowState_def)
  show ?thesis
    using panic_unparseable_rating_advances[OF a b c(1,2,3), of empty_knowledge_base clock0] a b c
    by (auto split: sum.splits prod.splits)
qed

text \<open>
  The sleep flow's rating step does what the panic flow's misses: without a parseable
  rating it replies with \<^verbatim>\<open>advance_step\<close> false, and neither the step index nor the
  ratings change.
\<close>

lemma nighttime_unparseable_rating_reprompts:
  assumes "\<not> detect_crisis_keywords user_input"
    and "extract_sleepiness_rating user_input = None"
    and "cls f = NighttimeFlow" and "clinical_steps f = NighttimeFlow_steps"
    and "current_step (state f) = 6"
  shows "dict_get (fst (ClinicalTherapeuticFlow_process_user_input kb now f user_input))
           ''advance_step'' PNone = PBool False
         \<and> current_step (state (snd (ClinicalTherapeuticFlow_process_user_input kb now f user_input)))
             = 6
         \<and> effectiveness_ratings (state (snd (ClinicalTherapeuticFlow_process_user_input kb now f user_input)))
             = effectiveness_ratings (state f)"
proof -
  have len: "length (clinical_steps f) = 7" by (simp add: assms(4) NighttimeFlow_steps_def)
  show ?thesis
    using assms(1,2)
    by (simp add: ClinicalTherapeuticFlow_process_user_input_def Let_def split_beta
        process_clinical_step_def assms(3) assms(5) len NighttimeFlow_process_clinical_step_def
        NighttimeFlow_step_6_def dict_get_def has_retriever_def)
qed

section \<open>How far one call advances the step index\<close>

text \<open>
  C1 does not hold. One \<^verbatim>\<open>process_clinical_response\<close> call on a freshly started
  panic flow moves the step index from 0 to 2 (the flow advances, then the manager
  advances again); and one \<^verbatim>\<open>process_user_input\<close> call on an in-progress panic
  flow whose index equals the number of steps, 7, moves it to 8.
\<close>

theorem current_step_advance_violations:
  "active_step (started ''panic_flow'') ''u'' = Some 0
   \<and> (case process_clinical_response empty_knowledge_base (Inr []) clock0
               (started ''panic_flow'') ''u'' ''ok'' of
         Inl e \<Rightarrow> None
       | Inr (reply, m) \<Rightarrow> active_step m ''u'') = Some 2
   \<and> completion_status (state (flow_at AcuteAnxietyFlow 7)) = ''in_progress''
   \<and> length (clinical_steps (flow_at AcuteAnxietyFlow 7)) = 7
   \<and> current_step (state (flow_at AcuteAnxietyFlow 7)) = 7
   \<and> (case process_user_input empty_knowledge_base clock0 (flow_at AcuteAnxietyFlow 7) ''ok'' of
         Inl e \<Rightarrow> None
       | Inr (reply, f') \<Rightarrow> Some (current_step (state f'))) = Some 8"
  by code_simp

section \<open>Crisis during a flow, and completion\<close>

text \<open>
  C4 does not hold for crisis. When the text of a continue call matches a crisis pattern,
  the manager answers with the crisis reply and removes the user's active flow, and the
  outcome records are left exactly as they were: nothing is archived.
\<close>

theorem crisis_interrupt_not_archived:
  assumes "detect_crisis_keywords user_input"
  shows "case process_clinical_response kb search now m user_id user_input of
           Inl e \<Rightarrow> False
         | Inr (reply, m') \<Rightarrow>
             dict_get reply ''flow_type'' PNone = PStr ''crisis_override''
             \<and> map_of (active_flows m') user_id = None
             \<and> clinical_outcomes m' = clinical_outcomes m"
  using assms
  by (simp add: process_clinical_response_def activate_crisis_override_def
      log_clinical_event_def Let_def dict_get_def delete_conv')

theorem crisis_interrupt_not_archived_witness:
  "detect_crisis_keywords ''I want to end my life''
   \<and> active_step (started ''panic_flow'') ''u'' = Some 0
   \<and> outcome_count (started ''panic_flow'') ''u'' = 0
   \<and> (case process_clinical_response empty_knowledge_base (Inr []) clock0
              (started ''panic_flow'') ''u'' ''I want to end my life'' of
         Inl e \<Rightarrow> False
       | Inr (reply, m') \<Rightarrow>
           dict_get reply ''flow_type'' PNone = PStr ''crisis_override''
           \<and> map_of (active_flows m') ''u'' = None
           \<and> clinical_outcomes m' = clinical_outcomes (started ''panic_flow''))"
proof -
  have a: "detect_crisis_keywords ''I want to end my life''" by code_simp
  have b: "active_step (started ''panic_flow'') ''u'' = Some 0" by code_simp
  have c: "outcome_count (started ''panic_flow'') ''u'' = 0" by code_simp
  show ?thesis
    using crisis_interrupt_not_archived[OF a, where kb = empty_knowledge_base
        and search = "Inr []" and now = clock0 and m = "started ''panic_flow''"
        and user_id = "''u''"] a b c
    by simp
qed

text \<open>
  The completion half of C4 on a run: a panic flow driven to completion is archived with
  one outcome record and its active entry is removed.
\<close>

lemma completed_flow_is_archived:
  "(case continue_flow (started ''panic_flow'') [''ok'', ''done'', ''done'', ''3'', ''thanks''] of
      Inl e \<Rightarrow> False
    | Inr m \<Rightarrow> active_step m ''u'' = None \<and> outcome_count m ''u'' = 1
               \<and> outcome_field m ''u'' ''completion_rate'' = PRat 1)"
  by code_simp

section \<open>Outcome figures at the different call sites\<close>

text \<open>
  C6 does not hold of the manager. For a general-anxiety flow that has advanced past three
  of its five steps, \<^verbatim>\<open>complete_clinical_session\<close> records a completion rate of 4/5,
  four techniques and a true success flag, and \<^verbatim>\<open>get_clinical_flow_status\<close> reports
  4/5, while the flow's own \<^verbatim>\<open>complete_clinical_flow\<close> computes 3/5, three
  techniques and a false success flag from the same state: the manager's call sites use
  the step index plus one.
\<close>

theorem outcome_formulas_differ:
  "(case continue_flow (started ''general_anxiety_flow'') [''ok'', ''ok'', ''ok''] of
      Inl e \<Rightarrow> False
    | Inr m \<Rightarrow>
        active_step m ''u'' = Some 3
        \<and> (case complete_clinical_session clock0 m ''u'' [(''flow_completed'', PBool True)] of
              Inl e \<Rightarrow> False
            | Inr m' \<Rightarrow>
                outcome_field m' ''u'' ''completion_rate'' = PRat (4 / 5)
                \<and> outcome_field m' ''u'' ''techniques_used''
                     = PList [PStr ''emotion_check_in'', PStr ''psychoeducation_general'',
                              PStr ''coping_options'', PStr ''reflection'']
                \<and> outcome_field m' ''u'' ''clinical_success'' = PBool True)
        \<and> (case get_clinical_flow_status clock0 m ''u'' of
              Inr (Some status) \<Rightarrow> dict_get status ''completion_rate'' PNone = PRat (4 / 5)
            | _ \<Rightarrow> False)
        \<and> (case map_of (active_flows m) ''u'' of
              None \<Rightarrow> False
            | Some fd \<Rightarrow>
                (case dict_get (fst (complete_clinical_flow clock0 (flow_instance fd)))
                        ''clinical_outcomes'' PNone of
                   PDict outcomes \<Rightarrow>
                     dict_get outcomes ''completion_rate'' PNone = PRat (3 / 5)
                     \<and> dict_get outcomes ''techniques_used'' PNone
                          = PList [PStr ''emotion_check_in'', PStr ''psychoeducation_general'',
                                   PStr ''coping_options'']
                 | _ \<Rightarrow> False)
                \<and> (case dict_get (fst (complete_clinical_flow clock0 (flow_instance fd)))
                        ''session_summary'' PNone of
                   PDict summary \<Rightarrow> dict_get summary ''clinical_success'' PNone = PBool False
                 | _ \<Rightarrow> False)))"
  by code_simp

section \<open>Starting a flow over an active one\<close>

lemma new_flow_facts:
  "cls (new_flow now c) = c"
  "current_step (state (new_flow now c)) = 0"
  "clinical_steps (new_flow now c) \<noteq> []"
  by (cases c; simp add: new_flow_def FlowState_def AcuteAnxietyFlow_steps_def
        NighttimeFlow_steps_def PreEventFlow_steps_def IsolationFlow_steps_def
        UncertaintyFlow_steps_def DecisionMakingFlow_steps_def PhysicalTriggersFlow_steps_def
        GeneralAnxietyFlow_steps_def)+

lemma start_flow_keeps:
  "cls (snd (start_flow kb now (new_flow now c) ctx)) = c
   \<and> current_step (state (snd (start_flow kb now (new_flow now c) ctx))) = 0"
proof (cases "c = GeneralAnxietyFlow")
  case True
  then show ?thesis
    by (simp add: start_flow_def new_flow_facts GeneralAnxietyFlow_start_flow_def Let_def)
next
  case False
  have s: "start_flow kb now (new_flow now c) ctx
             = ClinicalTherapeuticFlow_start_flow kb now (new_flow now c) ctx"
    using False by (cases c) (simp_all add: start_flow_def new_flow_facts)
  show ?thesis
    unfolding s
    by (simp add: ClinicalTherapeuticFlow_start_flow_def Let_def activate_crisis_protocol_def
        get_current_step_response_keeps new_flow_facts FlowState_def
        split: option.splits)
qed


text \<open>
  C5, amended. When \<^verbatim>\<open>start_clinical_flow\<close> is called with a registered flow name
  and a context without crisis language, the user's active entry afterwards holds the new
  instance, at step 0 and with the new start time, and the outcome records are exactly
  what they were before: a flow that was active for the user is replaced without being
  finalized or archived.
\<close>

theorem start_replaces_active_flow_without_archive:
  assumes "map_of clinical_flow_registry requested_flow = Some c"
    and "\<not> crisis_in_context ctx"
  shows "clinical_outcomes (snd (start_clinical_flow kb search now m user_id requested_flow ctx))
           = clinical_outcomes m
         \<and> (case map_of (active_flows
                  (snd (start_clinical_flow kb search now m user_id requested_flow ctx))) user_id of
               None \<Rightarrow> False
             | Some fd \<Rightarrow>
                 cls (flow_instance fd) = c
                 \<and> current_step (state (flow_instance fd)) = 0
                 \<and> fd_flow_name fd = requested_flow
                 \<and> fd_start_time fd = seconds now)"
proof -
  have nc: "(case context_text ctx of
               None \<Rightarrow> None
             | Some s \<Rightarrow> if detect_crisis_keywords s then Some s else None) = None"
    using assms(2) by (cases "context_text ctx") (simp_all add: crisis_in_context_def)
  note k = start_flow_keeps[of kb now c ctx]
  show ?thesis
    using k
    by (simp add: start_clinical_flow_def Let_def nc assms(1) split_beta
        log_clinical_event_def update_conv')
qed

theorem start_replaces_active_flow_without_archive_witness:
  "active_scenario (started ''panic_flow'') ''u'' = Some ''panic''
   \<and> clinical_outcomes (snd (start_clinical_flow empty_knowledge_base (Inr []) clock0
         (started ''panic_flow'') ''u'' ''sleep_flow'' None))
       = clinical_outcomes (started ''panic_flow'')
   \<and> (case map_of (active_flows (snd (start_clinical_flow empty_knowledge_base (Inr []) clock0
         (started ''panic_flow'') ''u'' ''sleep_flow'' None))) ''u'' of
         None \<Rightarrow> False
       | Some fd \<Rightarrow>
           cls (flow_instance fd) = NighttimeFlow
           \<and> current_step (state (flow_instance fd)) = 0
           \<and> fd_flow_name fd = ''sleep_flow''
           \<and> fd_start_time fd = seconds clock0)"
proof -
  have a: "map_of clinical_flow_registry ''sleep_flow'' = Some NighttimeFlow"
    by (simp add: clinical_flow_registry_def)
  have b: "\<not> crisis_in_context None"
    by (simp add: crisis_in_context_def context_text_def)
  have c: "active_scenario (started ''panic_flow'') ''u'' = Some ''panic''" by code_simp
  show ?thesis
    using start_replaces_active_flow_without_archive[OF a b, where kb = empty_knowledge_base
        and search = "Inr []" and now = clock0 and m = "started ''panic_flow''"
        and user_id = "''u''"] c
    by simp
qed

text \<open>
  C5, as stated, fails: starting the sleep flow for a user whose panic flow is active
  leaves the user with the sleep flow and with no outcome record.
\<close>

theorem start_over_active_flow_archives_nothing:
  "active_scenario (started ''panic_flow'') ''u'' = Some ''panic''
   \<and> outcome_count (started ''panic_flow'') ''u'' = 0
   \<and> active_scenario (snd (start_clinical_flow empty_knowledge_base (Inr []) clock0
         (started ''panic_flow'') ''u'' ''sleep_flow'' None)) ''u'' = Some ''sleep''
   \<and> outcome_count (snd (start_clinical_flow empty_knowledge_base (Inr []) clock0
         (started ''panic_flow'') ''u'' ''sleep_flow'' None)) ''u'' = 0"
  by code_simp

end
